theory Spec2Isabelle
  imports Complex_Main "HOL-Library.Sublist"
begin

section \<open>Python values\<close>

text \<open>
  A Python \<open>str\<close> is a sequence of Unicode code points, so it is modelled as a list of
  natural numbers; \<open>u\<close> turns an ASCII literal into such a list.  A value that may be
  \<open>None\<close> is an \<open>option\<close>.  Exceptions are values of \<open>py_error\<close>.
\<close>

type_synonym pystr = "nat list"

definition u :: "string \<Rightarrow> pystr" where
  "u s = map of_char s"

datatype py_error = KeyError | TypeError | UpstreamError

text \<open>\<open>str(x)\<close> as an f-string renders a nullable string field.\<close>

definition fmt :: "pystr option \<Rightarrow> pystr" where
  "fmt x = (case x of None \<Rightarrow> u ''None'' | Some s \<Rightarrow> s)"

text \<open>Truthiness of a nullable integer id: \<open>None\<close> and \<open>0\<close> are falsy.\<close>

definition truthy_id :: "int option \<Rightarrow> bool" where
  "truthy_id x = (case x of None \<Rightarrow> False | Some i \<Rightarrow> i \<noteq> 0)"

text \<open>Truthiness of a nullable Boolean column.\<close>

definition truthy_flag :: "bool option \<Rightarrow> bool" where
  "truthy_flag x = (case x of None \<Rightarrow> False | Some b \<Rightarrow> b)"

text \<open>Decimal rendering of an integer, as \<open>str(n)\<close> does.\<close>

function digits :: "nat \<Rightarrow> pystr" where
  "digits n = (if n < 10 then [48 + n] else digits (n div 10) @ [48 + n mod 10])"
  by pat_completeness auto
termination
  by (relation "measure id") auto

definition str_int :: "int \<Rightarrow> pystr" where
  "str_int i = (if i < 0 then 45 # digits (nat (- i)) else digits (nat i))"

text \<open>\<open>sep.join(xs)\<close>.\<close>

fun join :: "pystr \<Rightarrow> pystr list \<Rightarrow> pystr" where
  "join sep [] = []"
| "join sep [x] = x"
| "join sep (x # y # ys) = x @ sep @ join sep (y # ys)"


section \<open>telegram_bot.py: the session store\<close>

record turn =
  role :: pystr
  content :: pystr

record session =
  university_id :: "int option"
  university_name :: "pystr option"
  faculty_id :: "int option"
  faculty_name :: "pystr option"
  department_id :: "int option"
  department_name :: "pystr option"
  session_start :: nat
  history :: "turn list"

text \<open>The module-level dictionary \<open>sessions\<close>, keyed by the Telegram user id.\<close>

type_synonym sessions = "int \<rightharpoonup> session"

definition MAX_HISTORY_MESSAGES :: nat where
  "MAX_HISTORY_MESSAGES = 10"

text \<open>\<open>_new_session\<close>; the clock reading \<open>datetime.now()\<close> is the argument \<open>now\<close>.\<close>

definition new_session :: "nat \<Rightarrow> session" where
  "new_session now =
     \<lparr>university_id = None, university_name = None,
      faculty_id = None, faculty_name = None,
      department_id = None, department_name = None,
      session_start = now, history = []\<rparr>"

text \<open>\<open>_session\<close>: get or create; returns the store and the session found in it.\<close>

definition get_session :: "nat \<Rightarrow> sessions \<Rightarrow> int \<Rightarrow> sessions \<times> session" where
  "get_session now ss user_id =
     (case ss user_id of
        None \<Rightarrow> (ss(user_id \<mapsto> new_session now), new_session now)
      | Some s \<Rightarrow> (ss, s))"

text \<open>
  \<open>_is_setup_complete\<close>: \<open>sessions.get(user_id, {})\<close> never creates a session, and the
  two ids are tested for truthiness.
\<close>

definition is_setup_complete :: "sessions \<Rightarrow> int \<Rightarrow> bool" where
  "is_setup_complete ss user_id =
     (case ss user_id of
        None \<Rightarrow> False
      | Some s \<Rightarrow> truthy_id (university_id s) \<and> truthy_id (faculty_id s))"

text \<open>
  \<open>_append_history\<close>: push the turn, then keep the last \<open>MAX_HISTORY_MESSAGES\<close> turns
  (\<open>history[-MAX_HISTORY_MESSAGES:]\<close>) when the list has grown beyond the cap.
\<close>

definition append_history :: "nat \<Rightarrow> sessions \<Rightarrow> int \<Rightarrow> pystr \<Rightarrow> pystr \<Rightarrow> sessions" where
  "append_history now ss user_id r c =
     (let (ss1, s) = get_session now ss user_id;
          h = history s @ [\<lparr>role = r, content = c\<rparr>]
      in ss1(user_id \<mapsto>
           s\<lparr>history := (if length h > MAX_HISTORY_MESSAGES
                           then drop (length h - MAX_HISTORY_MESSAGES) h else h)\<rparr>))"

text \<open>A sequence of append-turn calls for one user, oldest first.\<close>

fun append_all :: "nat \<Rightarrow> sessions \<Rightarrow> int \<Rightarrow> turn list \<Rightarrow> sessions" where
  "append_all now ss user_id [] = ss"
| "append_all now ss user_id (t # ts) =
     append_all now (append_history now ss user_id (role t) (content t)) user_id ts"

definition history_of :: "sessions \<Rightarrow> int \<Rightarrow> turn list" where
  "history_of ss user_id = (case ss user_id of None \<Rightarrow> [] | Some s \<Rightarrow> history s)"


section \<open>telegram_bot.py: the directory and the selection handlers\<close>

record university =
  uni_id :: int
  uni_name :: "pystr option"
  uni_name_ar :: "pystr option"
  uni_city :: "pystr option"
  uni_website :: "pystr option"
  uni_email :: "pystr option"
  uni_phone :: "pystr option"
  uni_address :: "pystr option"
  uni_is_active :: "bool option"

record faculty =
  fac_id :: int
  fac_name :: pystr
  fac_university_id :: int
  fac_is_active :: "bool option"

record department =
  dept_id :: int
  dept_name :: pystr
  dept_faculty_id :: int
  dept_is_active :: "bool option"

text \<open>
  The database behind the ORM classes is outside the program.  A directory gives the
  result of each query the handlers make: \<open>Model.query.get(id)\<close> and the filtered,
  ordered child lists \<open>filter_by(parent, is_active=True).order_by(name).all()\<close>.
  A query may raise, which is \<open>Inl\<close>.
\<close>

record directory =
  university_get :: "int \<Rightarrow> py_error + university option"
  faculty_get :: "int \<Rightarrow> py_error + faculty option"
  department_get :: "int \<Rightarrow> py_error + department option"
  active_faculties :: "int \<Rightarrow> py_error + faculty list"
  active_departments :: "int \<Rightarrow> py_error + department list"

text \<open>An inline keyboard: rows of buttons, each a label and its callback data.\<close>

type_synonym markup = "(pystr \<times> pystr) list list"

text \<open>What a handler sends back: the text, the parse mode and the keyboard, if any.\<close>

record reply =
  reply_text :: pystr
  parse_mode :: "pystr option"
  reply_markup :: "markup option"

definition plain :: "pystr \<Rightarrow> reply" where
  "plain t = \<lparr>reply_text = t, parse_mode = None, reply_markup = None\<rparr>"

definition markdown :: "pystr \<Rightarrow> markup option \<Rightarrow> reply" where
  "markdown t m = \<lparr>reply_text = t, parse_mode = Some (u ''Markdown''), reply_markup = m\<rparr>"

definition CALLBACK_UNI :: pystr where "CALLBACK_UNI = u ''uni''"
definition CALLBACK_FAC :: pystr where "CALLBACK_FAC = u ''fac''"
definition CALLBACK_DEPT :: pystr where "CALLBACK_DEPT = u ''dept''"
definition CALLBACK_SKIP :: pystr where "CALLBACK_SKIP = u ''skip_dept''"

definition build_faculty_keyboard :: "directory \<Rightarrow> int \<Rightarrow> py_error + markup option" where
  "build_faculty_keyboard d university_id' =
     (case active_faculties d university_id' of
        Inl e \<Rightarrow> Inl e
      | Inr faculties \<Rightarrow>
          if faculties = [] then Inr None
          else Inr (Some (map (\<lambda>f. [([0x1F3EB] @ u '' '' @ fac_name f,
                                      CALLBACK_FAC @ u ''_'' @ str_int (fac_id f))])
                              faculties)))"

definition build_department_keyboard :: "directory \<Rightarrow> int \<Rightarrow> py_error + markup option" where
  "build_department_keyboard d faculty_id' =
     (case active_departments d faculty_id' of
        Inl e \<Rightarrow> Inl e
      | Inr depts \<Rightarrow>
          if depts = [] then Inr None
          else Inr (Some (map (\<lambda>x. [([0x1F4C2] @ u '' '' @ dept_name x,
                                      CALLBACK_DEPT @ u ''_'' @ str_int (dept_id x))])
                              depts
                          @ [[([0x23ED] @ u '' Skip (no specific department)'',
                               CALLBACK_SKIP)]])))"

definition error_reply :: reply where
  "error_reply = plain ([0x274C] @ u '' Error. Please /start again.'')"

definition university_not_found :: reply where
  "university_not_found = plain ([0x274C] @ u '' University not found. Please /start again.'')"

definition faculty_not_found :: reply where
  "faculty_not_found = plain ([0x274C] @ u '' Faculty not found. Please /start again.'')"

definition department_not_found :: reply where
  "department_not_found = plain ([0x274C] @ u '' Department not found. Please /start again.'')"

definition NA :: pystr where
  "NA = u ''N/A''"

text \<open>
  \<open>_handle_university_selected\<close>.  Every statement of the \<open>try\<close> block that can raise is
  a branch: the queries, and \<open>sessions[user_id]\<close> when the user has no session.  The
  \<open>except\<close> clause answers with \<open>error_reply\<close> and keeps the writes made so far.
\<close>

definition handle_university_selected ::
    "directory \<Rightarrow> sessions \<Rightarrow> int \<Rightarrow> int \<Rightarrow> sessions \<times> reply" where
  "handle_university_selected d ss user_id university_id' =
     (case university_get d university_id' of
        Inl e \<Rightarrow> (ss, error_reply)
      | Inr None \<Rightarrow> (ss, university_not_found)
      | Inr (Some uni) \<Rightarrow>
          if \<not> truthy_flag (uni_is_active uni) then (ss, university_not_found)
          else
            (case ss user_id of
               None \<Rightarrow> (ss, error_reply)
             | Some s \<Rightarrow>
                 let s1 = s\<lparr>university_id := Some (uni_id uni), university_name := uni_name uni\<rparr>;
                     ss1 = ss(user_id \<mapsto> s1)
                 in (case build_faculty_keyboard d university_id' of
                       Inl e \<Rightarrow> (ss1, error_reply)
                     | Inr None \<Rightarrow>
                         (ss1(user_id \<mapsto> s1\<lparr>faculty_id := None, faculty_name := Some NA\<rparr>),
                          markdown
                            ([0x2705] @ u '' *University selected:* '' @ fmt (uni_name uni)
                             @ u ''\<newline>\<newline>'' @ [0x2139, 0xFE0F]
                             @ u '' No faculties are registered for this university yet.\<newline>\<newline>''
                             @ u ''You can now ask me anything about your institution!'')
                            None)
                     | Inr (Some m) \<Rightarrow>
                         (ss1,
                          markdown
                            ([0x2705] @ u '' *University:* '' @ fmt (uni_name uni)
                             @ u ''\<newline>\<newline>*Step 2 of 3 '' @ [0x2014]
                             @ u '' Please select your faculty:*'')
                            (Some m)))))"

text \<open>
  \<open>_handle_faculty_selected\<close>; \<open>sessions[user_id].get("university_name", "")\<close> reads the
  stored value, which is \<open>None\<close> when no university has been bound.
\<close>

definition handle_faculty_selected ::
    "directory \<Rightarrow> sessions \<Rightarrow> int \<Rightarrow> int \<Rightarrow> sessions \<times> reply" where
  "handle_faculty_selected d ss user_id faculty_id' =
     (case faculty_get d faculty_id' of
        Inl e \<Rightarrow> (ss, error_reply)
      | Inr None \<Rightarrow> (ss, faculty_not_found)
      | Inr (Some fac) \<Rightarrow>
          if \<not> truthy_flag (fac_is_active fac) then (ss, faculty_not_found)
          else
            (case ss user_id of
               None \<Rightarrow> (ss, error_reply)
             | Some s \<Rightarrow>
                 let s1 = s\<lparr>faculty_id := Some (fac_id fac), faculty_name := Some (fac_name fac)\<rparr>;
                     ss1 = ss(user_id \<mapsto> s1);
                     uni_name' = fmt (university_name s1)
                 in (case build_department_keyboard d faculty_id' of
                       Inl e \<Rightarrow> (ss1, error_reply)
                     | Inr None \<Rightarrow>
                         (ss1(user_id \<mapsto> s1\<lparr>department_id := None, department_name := Some NA\<rparr>),
                          markdown
                            ([0x2705] @ u '' *University:* '' @ uni_name' @ u ''\<newline>''
                             @ [0x2705] @ u '' *Faculty:* '' @ fac_name fac
                             @ u ''\<newline>\<newline>'' @ [0x2139, 0xFE0F]
                             @ u '' No departments are registered for this faculty yet.\<newline>\<newline>''
                             @ u ''You're all set! Ask me anything '' @ [0x1F393])
                            None)
                     | Inr (Some m) \<Rightarrow>
                         (ss1,
                          markdown
                            ([0x2705] @ u '' *University:* '' @ uni_name' @ u ''\<newline>''
                             @ [0x2705] @ u '' *Faculty:* '' @ fac_name fac
                             @ u ''\<newline>\<newline>*Step 3 of 3 '' @ [0x2014]
                             @ u '' Please select your department:*'')
                            (Some m)))))"

definition setup_footer :: pystr where
  "setup_footer = u ''_Use /status to review your selection or /reset to start over._''"

text \<open>\<open>_handle_department_selected\<close>.\<close>

definition handle_department_selected ::
    "directory \<Rightarrow> sessions \<Rightarrow> int \<Rightarrow> int \<Rightarrow> sessions \<times> reply" where
  "handle_department_selected d ss user_id department_id' =
     (case department_get d department_id' of
        Inl e \<Rightarrow> (ss, error_reply)
      | Inr None \<Rightarrow> (ss, department_not_found)
      | Inr (Some dept) \<Rightarrow>
          if \<not> truthy_flag (dept_is_active dept) then (ss, department_not_found)
          else
            (case ss user_id of
               None \<Rightarrow> (ss, error_reply)
             | Some s \<Rightarrow>
                 let s1 = s\<lparr>department_id := Some (dept_id dept),
                            department_name := Some (dept_name dept)\<rparr>
                 in (ss(user_id \<mapsto> s1),
                     markdown
                       ([0x1F389] @ u '' *Setup complete!*\<newline>\<newline>''
                        @ [0x1F3DB] @ u '' *University :* '' @ fmt (university_name s1) @ u ''\<newline>''
                        @ [0x1F3EB] @ u '' *Faculty    :* '' @ fmt (faculty_name s1) @ u ''\<newline>''
                        @ [0x1F4C2] @ u '' *Department :* '' @ fmt (department_name s1)
                        @ u ''\<newline>\<newline>''
                        @ u ''I'm ready to help you. Ask me anything about your academic journey!''
                        @ u ''\<newline>\<newline>'' @ setup_footer)
                       None)))"

text \<open>
  \<open>_handle_skip_department\<close> has no \<open>try\<close> block: a missing session is a \<open>KeyError\<close>
  that leaves the handler.
\<close>

definition handle_skip_department :: "sessions \<Rightarrow> int \<Rightarrow> py_error + sessions \<times> reply" where
  "handle_skip_department ss user_id =
     (case ss user_id of
        None \<Rightarrow> Inl KeyError
      | Some s \<Rightarrow>
          let s1 = s\<lparr>department_id := None, department_name := None\<rparr>
          in Inr (ss(user_id \<mapsto> s1),
                  markdown
                    ([0x2705] @ u '' *Setup complete!*\<newline>\<newline>''
                     @ [0x1F3DB] @ u '' *University :* '' @ fmt (university_name s1) @ u ''\<newline>''
                     @ [0x1F3EB] @ u '' *Faculty    :* '' @ fmt (faculty_name s1) @ u ''\<newline>''
                     @ [0x1F4C2] @ u '' *Department :* Not specified\<newline>\<newline>''
                     @ u ''I'm ready to help you. Ask me anything!\<newline>\<newline>''
                     @ setup_footer)
                    None))"


section \<open>telegram_bot.py: the message handler\<close>

record kb_entry =
  kb_title :: pystr
  kb_content :: pystr

text \<open>
  The knowledge service and the generative backend are outside the program; each call
  may raise.  Of the pair \<open>generate_chat_response\<close> returns, only the text is used.
\<close>

record collaborators =
  get_university_context :: "int option \<Rightarrow> py_error + pystr option"
  search_knowledge :: "pystr \<Rightarrow> int option \<Rightarrow> nat \<Rightarrow> py_error + kb_entry list"
  generate_chat_response :: "turn list \<Rightarrow> pystr option \<Rightarrow> pystr option \<Rightarrow> py_error + pystr"

definition complete_profile_first :: reply where
  "complete_profile_first =
     plain ([0x26A0, 0xFE0F] @ u '' Please complete your profile first.\<newline>''
            @ u ''Use /start to select your university and faculty.'')"

definition apology :: reply where
  "apology =
     plain ([0x274C] @ u '' Sorry, I encountered an error. Please try again or use /reset.'')"

definition knowledge_context_of :: "kb_entry list \<Rightarrow> pystr option" where
  "knowledge_context_of rs =
     (if rs = [] then None
      else Some (join (u ''\<newline>'')
                  (map (\<lambda>r. u ''- '' @ kb_title r @ u '': '' @ take 300 (kb_content r)) rs)))"

definition handle_message ::
    "collaborators \<Rightarrow> nat \<Rightarrow> sessions \<Rightarrow> int \<Rightarrow> pystr \<Rightarrow> sessions \<times> reply" where
  "handle_message co now ss user_id user_message =
     (if \<not> is_setup_complete ss user_id then (ss, complete_profile_first)
      else
        let (ss0, s) = get_session now ss user_id
        in (case get_university_context co (university_id s) of
              Inl e \<Rightarrow> (ss0, apology)
            | Inr university_context \<Rightarrow>
                (case search_knowledge co user_message (university_id s) 3 of
                   Inl e \<Rightarrow> (ss0, apology)
                 | Inr knowledge_results \<Rightarrow>
                     let ss1 = append_history now ss0 user_id (u ''user'') user_message
                     in (case generate_chat_response co (history_of ss1 user_id)
                                university_context (knowledge_context_of knowledge_results) of
                           Inl e \<Rightarrow> (ss1, apology)
                         | Inr ai_response \<Rightarrow>
                             (append_history now ss1 user_id (u ''assistant'') ai_response,
                              plain ai_response)))))"


section \<open>faq_service.py: what the Python runtime provides\<close>

text \<open>
  The Unicode tables and \<open>difflib\<close> are not part of the program.  \<open>pylib\<close> holds the four
  library operations the FAQ engine calls: \<open>str.lower\<close>, \<open>str.isalnum\<close> on one character
  (the regular-expression class \<open>\w\<close> is \<open>isalnum\<close> or the underscore), the white-space test
  shared by \<open>str.split()\<close> and \<open>\s\<close>, and \<open>SequenceMatcher(None, a, b).ratio()\<close>.
  The ratio is a float.
\<close>

record pylib =
  str_lower :: "pystr \<Rightarrow> pystr"
  isalnum :: "nat \<Rightarrow> bool"
  isspace :: "nat \<Rightarrow> bool"
  ratio :: "pystr \<Rightarrow> pystr \<Rightarrow> rat"

definition is_word :: "pylib \<Rightarrow> nat \<Rightarrow> bool" where
  "is_word env c = (isalnum env c \<or> c = 95)"

text \<open>\<open>sub in s\<close> on strings.\<close>

fun str_in :: "pystr \<Rightarrow> pystr \<Rightarrow> bool" where
  "str_in sub [] = (sub = [])"
| "str_in sub (c # cs) = (prefix sub (c # cs) \<or> str_in sub cs)"

text \<open>\<open>s.split()\<close>: the maximal runs of characters that are not white space.\<close>

fun split_acc :: "(nat \<Rightarrow> bool) \<Rightarrow> pystr \<Rightarrow> pystr \<Rightarrow> pystr list" where
  "split_acc sp cur [] = (if cur = [] then [] else [cur])"
| "split_acc sp cur (c # cs) =
     (if sp c then (if cur = [] then split_acc sp [] cs else cur # split_acc sp [] cs)
      else split_acc sp (cur @ [c]) cs)"

definition py_split :: "pylib \<Rightarrow> pystr \<Rightarrow> pystr list" where
  "py_split env s = split_acc (isspace env) [] s"

text \<open>
  \<open>s.replace(old, new)\<close>: every non-overlapping occurrence, leftmost first.  With an empty
  \<open>old\<close> Python inserts \<open>new\<close> before every character and at the end.
\<close>

function replace_from :: "pystr \<Rightarrow> pystr \<Rightarrow> pystr \<Rightarrow> pystr" where
  "replace_from old new s =
     (if s = [] then []
      else if old \<noteq> [] \<and> prefix old s then new @ replace_from old new (drop (length old) s)
      else hd s # replace_from old new (tl s))"
  by pat_completeness auto
termination
  by (relation "measure (\<lambda>(old, new, s). length s)") auto

definition str_replace :: "pystr \<Rightarrow> pystr \<Rightarrow> pystr \<Rightarrow> pystr" where
  "str_replace s old new =
     (if old = [] then new @ concat (map (\<lambda>c. c # new) s) else replace_from old new s)"

text \<open>\<open>x or d\<close> for a string and for a nullable string: empty and \<open>None\<close> are falsy.\<close>

definition or_str :: "pystr \<Rightarrow> pystr \<Rightarrow> pystr" where
  "or_str s d = (if s = [] then d else s)"

definition opt_or :: "pystr option \<Rightarrow> pystr \<Rightarrow> pystr" where
  "opt_or x d = (case x of None \<Rightarrow> d | Some s \<Rightarrow> or_str s d)"


section \<open>Python floats\<close>

text \<open>
  A Python \<open>float\<close> is an IEEE 754 binary64 number.  A finite float is modelled by the
  rational number it denotes, and every operation of the source is the exact operation
  followed by \<open>fl\<close>, the rounding to the nearest float, a tie going to the float whose
  significand is even.  A float literal such as \<open>0.3\<close> is \<open>fl (3 / 10)\<close>.

  The scores of the FAQ engine lie between 0 and 1, so no operation overflows, and the
  infinities and NaN are not modelled.
\<close>

text \<open>The nearest integer, a tie going to the even one.\<close>

definition round_half_even :: "rat \<Rightarrow> int" where
  "round_half_even y =
     (let f = \<lfloor>y\<rfloor>; d = y - of_int f
      in if d < 1/2 then f else if d > 1/2 then f + 1 else if even f then f else f + 1)"

text \<open>\<open>int.bit_length\<close>: the number of binary digits of a natural number.\<close>

function bit_length :: "nat \<Rightarrow> nat" where
  "bit_length n = (if n = 0 then 0 else Suc (bit_length (n div 2)))"
  by pat_completeness auto
termination
  by (relation "measure id") auto

text \<open>
  The binary exponent of a positive rational: \<open>ilog2 x = k\<close> when \<open>2^k \<le> x < 2^(k+1)\<close>
  (lemma \<open>ilog2_bounds\<close>).
\<close>

definition ilog2 :: "rat \<Rightarrow> int" where
  "ilog2 x = (if 1 \<le> x then int (bit_length (nat \<lfloor>x\<rfloor>)) - 1
              else - int (bit_length (nat (\<lceil>1 / x\<rceil> - 1))))"

text \<open>The nearest multiple of \<open>2^e\<close>, a tie going to the even multiple.\<close>

definition round_to :: "int \<Rightarrow> rat \<Rightarrow> rat" where
  "round_to e x = of_int (round_half_even (x / 2 powi e)) * 2 powi e"

text \<open>
  Rounding to binary64: a significand of 53 bits, so the last place of a number with
  binary exponent \<open>k\<close> is worth \<open>2^(k - 52)\<close>; below the smallest normal exponent
  \<open>-1022\<close> the spacing stays \<open>2^(-1074)\<close>.
\<close>

definition fl :: "rat \<Rightarrow> rat" where
  "fl x = (if x = 0 then 0 else round_to (max (ilog2 \<bar>x\<bar>) (- 1022) - 52) x)"

text \<open>
  The arithmetic of floats.  \<open>truediv\<close> is \<open>/\<close> on two integers, which CPython rounds
  once, from the exact quotient; \<open>float_of_nat\<close> is the conversion of an integer operand
  of a mixed operation.  No divisor of the source is zero.
\<close>

definition fadd :: "rat \<Rightarrow> rat \<Rightarrow> rat" where
  "fadd x y = fl (x + y)"

definition fmul :: "rat \<Rightarrow> rat \<Rightarrow> rat" where
  "fmul x y = fl (x * y)"

definition fdiv :: "rat \<Rightarrow> rat \<Rightarrow> rat" where
  "fdiv x y = fl (x / y)"

definition truediv :: "nat \<Rightarrow> nat \<Rightarrow> rat" where
  "truediv a b = fl (of_nat a / of_nat b)"

definition float_of_nat :: "nat \<Rightarrow> rat" where
  "float_of_nat n = fl (of_nat n)"

text \<open>
  \<open>round(x, 2)\<close> on a float: CPython takes the decimal of two places nearest to the
  exact value of \<open>x\<close>, a tie going to the even digit, and returns the float nearest to
  that decimal.
\<close>

definition py_round2 :: "rat \<Rightarrow> rat" where
  "py_round2 x = fl (of_int (round_half_even (x * 100)) / 100)"


section \<open>faq_service.py: language detection\<close>

definition is_arabic :: "nat \<Rightarrow> bool" where
  "is_arabic c = ((0x0600 \<le> c \<and> c \<le> 0x06FF) \<or> (0x0750 \<le> c \<and> c \<le> 0x077F)
                  \<or> (0x08A0 \<le> c \<and> c \<le> 0x08FF))"

definition FRENCH_MARKERS :: "nat list" where
  "FRENCH_MARKERS =
     [0xE0, 0xE2, 0xE7, 0xE9, 0xE8, 0xEA, 0xEB, 0xEE, 0xEF, 0xF4, 0xF9, 0xFB, 0xFC, 0xFF,
      0x153, 0xE6, 0xC0, 0xC2, 0xC7, 0xC9, 0xC8, 0xCA, 0xCB, 0xCE, 0xCF, 0xD4, 0xD9, 0xDB,
      0xDC, 0x178, 0x152, 0xC6]"

text \<open>The alternatives of the function-word pattern, in the order the pattern lists them.\<close>

definition FRENCH_WORDS :: "pystr list" where
  "FRENCH_WORDS =
     [u ''je'', u ''tu'', u ''il'', u ''elle'', u ''nous'', u ''vous'', u ''ils'', u ''elles'',
      u ''le'', u ''la'', u ''les'', u ''un'', u ''une'', u ''des'', u ''du'', u ''de'', u ''et'',
      u ''est'', u ''en'', u ''au'', u ''aux'', u ''avec'', u ''pour'', u ''sur'', u ''dans'',
      u ''par'', u ''que'', u ''qui'', u ''quoi'', u ''comment'', u ''quand'', u ''o'' @ [0xF9],
      u ''quel'', u ''quelle'', u ''bonjour'', u ''salut'', u ''merci'', u ''oui'', u ''non'',
      u ''pourquoi'', u ''inscription'', u ''frais'', u ''cours'', u ''examens'', u ''comment'',
      u ''puis'', u ''je'', u ''mon'', u ''ma'', u ''mes'', u ''ses'']"

text \<open>\<open>\b\<close> at index \<open>i\<close>: exactly one of the two neighbours is a word character.\<close>

definition boundary :: "pylib \<Rightarrow> pystr \<Rightarrow> nat \<Rightarrow> bool" where
  "boundary env text i =
     ((0 < i \<and> i \<le> length text \<and> is_word env (text ! (i - 1)))
        \<noteq> (i < length text \<and> is_word env (text ! i)))"

text \<open>
  The pattern \<open>\b(w1|w2|...)\b\<close> tried at index \<open>i\<close>: the first alternative that is
  there and ends at a boundary.
\<close>

definition match_at :: "pylib \<Rightarrow> pystr list \<Rightarrow> pystr \<Rightarrow> nat \<Rightarrow> pystr option" where
  "match_at env ws text i =
     (if boundary env text i
      then find (\<lambda>w. if prefix w (drop i text) then boundary env text (i + length w) else False)
             ws
      else None)"

text \<open>\<open>len(re.findall(...))\<close>: matches are found left to right and do not overlap.\<close>

function count_matches :: "pylib \<Rightarrow> pystr list \<Rightarrow> pystr \<Rightarrow> nat \<Rightarrow> nat" where
  "count_matches env ws text pos =
     (if length text \<le> pos then 0
      else case match_at env ws text pos of
             Some w \<Rightarrow> 1 + count_matches env ws text (pos + max 1 (length w))
           | None \<Rightarrow> count_matches env ws text (pos + 1))"
  by pat_completeness auto
termination
  by (relation "measure (\<lambda>(env, ws, text, pos). length text - pos)") auto

definition detect_language :: "pylib \<Rightarrow> pystr \<Rightarrow> pystr" where
  "detect_language env text =
     (let arabic_chars = length (filter is_arabic text);
          french_markers = length (filter (\<lambda>c. c \<in> set FRENCH_MARKERS) text);
          french_words = count_matches env FRENCH_WORDS (str_lower env text) 0;
          total_words = max (length (py_split env text)) 1
      in if arabic_chars > 1 then u ''ar''
         else if truediv (french_markers + french_words) total_words > fl (15 / 100)
                 \<or> french_words \<ge> 2 then u ''fr''
         else u ''en'')"


section \<open>faq_service.py: placeholders\<close>

text \<open>The dictionary keeps insertion order, which \<open>fill\<close> follows: an association list.\<close>

type_synonym placeholders = "(pystr \<times> pystr) list"

definition AR_YOUR_UNIVERSITY :: pystr where
  "AR_YOUR_UNIVERSITY = [0x62C, 0x627, 0x645, 0x639, 0x62A, 0x643]"

definition AR_YOUR_CITY :: pystr where
  "AR_YOUR_CITY = [0x645, 0x62F, 0x64A, 0x646, 0x62A, 0x643]"

text \<open>\<open>email.split('@')[-1]\<close>: what follows the last occurrence of the separator.\<close>

definition after_last :: "nat \<Rightarrow> pystr \<Rightarrow> pystr" where
  "after_last c s = rev (takeWhile (\<lambda>x. x \<noteq> c) (rev s))"

definition build_placeholders :: "university option \<Rightarrow> placeholders" where
  "build_placeholders university =
     (case university of
        None \<Rightarrow>
          [(u ''university_name'', u ''your university''),
           (u ''university_name_ar'', AR_YOUR_UNIVERSITY),
           (u ''university_name_fr'', u ''votre universit'' @ [0xE9]),
           (u ''city'', u ''your city''),
           (u ''city_ar'', AR_YOUR_CITY),
           (u ''city_fr'', u ''votre ville''),
           (u ''portal_url'', u ''your student portal''),
           (u ''website'', u ''the university website''),
           (u ''email_general'', u ''info@university.dz''),
           (u ''email_registrar'', u ''registrar@university.dz''),
           (u ''email_finance'', u ''finance@university.dz''),
           (u ''email_it'', u ''itsupport@university.dz''),
           (u ''email_student'', u ''studentaffairs@university.dz''),
           (u ''email_financial_aid'', u ''financialaid@university.dz''),
           (u ''email_housing'', u ''housing@university.dz''),
           (u ''email_library'', u ''library@university.dz''),
           (u ''email_academic'', u ''academic@university.dz''),
           (u ''phone_main'', u ''the university main number''),
           (u ''address'', u ''the university campus'')]
      | Some un \<Rightarrow>
          let name = opt_or (uni_name un) (u ''your university'');
              name_ar = opt_or (uni_name_ar un) AR_YOUR_UNIVERSITY;
              city = opt_or (uni_city un) [];
              website = opt_or (uni_website un) (u ''the university website'');
              email = opt_or (uni_email un) (u ''info@university.dz'');
              phone = opt_or (uni_phone un) [];
              domain = (if 64 \<in> set email then after_last 64 email else u ''university.dz'');
              sub = (\<lambda>prefix'. prefix' @ u ''@'' @ domain);
              portal = or_str website (u ''the student portal'')
          in [(u ''university_name'', name),
              (u ''university_name_ar'', name_ar),
              (u ''university_name_fr'', name),
              (u ''city'', city),
              (u ''city_ar'', city),
              (u ''city_fr'', city),
              (u ''portal_url'', portal),
              (u ''website'', website),
              (u ''email_general'', email),
              (u ''email_registrar'', sub (u ''registrar'')),
              (u ''email_finance'', sub (u ''finance'')),
              (u ''email_it'', sub (u ''itsupport'')),
              (u ''email_student'', sub (u ''studentaffairs'')),
              (u ''email_financial_aid'', sub (u ''financialaid'')),
              (u ''email_housing'', sub (u ''housing'')),
              (u ''email_library'', sub (u ''library'')),
              (u ''email_academic'', sub (u ''academic'')),
              (u ''phone_main'', or_str phone (u ''the university main number'')),
              (u ''address'',
                 opt_or (uni_address un) (u ''Campus of '' @ name @ u '', '' @ city))])"

text \<open>\<open>fill\<close>: one \<open>replace\<close> per dictionary item, in the dictionary's order.\<close>

definition token :: "pystr \<Rightarrow> pystr" where
  "token key = [123] @ key @ [125]"

fun fill :: "pystr \<Rightarrow> placeholders \<Rightarrow> pystr" where
  "fill template [] = template"
| "fill template ((key, val) # ph) = fill (str_replace template (token key) val) ph"


section \<open>faq_service.py: the matcher\<close>

record faq =
  faq_id :: int
  faq_category :: pystr
  faq_question :: pystr
  faq_answers :: "(pystr \<times> pystr) list"
  faq_keywords :: "pystr list"
  faq_variants :: "pystr list"

text \<open>A match as \<open>find_best_match\<close> and \<open>find_multiple_matches\<close> return it.\<close>

record match =
  match_faq :: faq
  confidence :: rat
  match_category :: pystr

text \<open>\<open>_preprocess\<close>.\<close>

definition preprocess :: "pylib \<Rightarrow> pystr \<Rightarrow> pystr" where
  "preprocess env text =
     (let t = str_lower env text;
          t' = map (\<lambda>c. if is_word env c \<or> isspace env c \<or> (0x0600 \<le> c \<and> c \<le> 0x06FF)
                         then c else 32) t
      in join (u '' '') (py_split env t'))"

text \<open>
  \<open>_keyword_score\<close>.  \<open>query_words\<close> is a set in the source; it is only tested with
  \<open>any\<close>, so the list of words gives the same answer.
\<close>

definition keyword_score :: "pylib \<Rightarrow> pystr \<Rightarrow> faq \<Rightarrow> rat" where
  "keyword_score env query f =
     (let query_words = py_split env query;
          hits = length (filter (\<lambda>kw. str_in (str_lower env kw) query
                                      \<or> list_ex (\<lambda>w. str_in (str_lower env kw) w) query_words)
                          (faq_keywords f));
          variant_bonus = (if list_ex (\<lambda>v. str_in (str_lower env v) query) (faq_variants f)
                           then fl (3 / 10) else 0)
      in min (fadd (truediv hits (max (length (faq_keywords f)) 1)) variant_bonus) 1)"

text \<open>\<open>_semantic_score\<close>; \<open>max(..., default=0)\<close> over the variants is a fold from the first.\<close>

definition max_default :: "rat list \<Rightarrow> rat \<Rightarrow> rat" where
  "max_default xs d = (case xs of [] \<Rightarrow> d | x # ys \<Rightarrow> foldl max x ys)"

definition semantic_score :: "pylib \<Rightarrow> pystr \<Rightarrow> faq \<Rightarrow> rat" where
  "semantic_score env query f =
     (let q_sim = ratio env query (preprocess env (faq_question f));
          v_sim = max_default (map (\<lambda>v. ratio env query (preprocess env v)) (faq_variants f)) 0
      in max q_sim v_sim)"

text \<open>
  The score of an entry:
  \<open>_keyword_score(query, faq) * 0.6 + _semantic_score(query, faq) * 0.4\<close>, two
  multiplications and an addition of floats, each rounded.
\<close>

definition combined_score :: "pylib \<Rightarrow> pystr \<Rightarrow> faq \<Rightarrow> rat" where
  "combined_score env query f =
     fadd (fmul (keyword_score env query f) (fl (6 / 10)))
          (fmul (semantic_score env query f) (fl (4 / 10)))"

text \<open>The loop of \<open>find_best_match\<close>: the pair \<open>(best, best_score)\<close> is the state.\<close>

fun best_loop :: "(faq \<Rightarrow> rat) \<Rightarrow> faq list \<Rightarrow> faq option \<times> rat \<Rightarrow> faq option \<times> rat" where
  "best_loop score [] acc = acc"
| "best_loop score (f # fs) (best, best_score) =
     (if score f > best_score then best_loop score fs (Some f, score f)
      else best_loop score fs (best, best_score))"

definition mk_match :: "faq \<Rightarrow> rat \<Rightarrow> match" where
  "mk_match f score =
     \<lparr>match_faq = f, confidence = py_round2 score, match_category = faq_category f\<rparr>"

text \<open>
  \<open>find_best_match\<close>.  When no entry has beaten the initial \<open>0.0\<close> and the threshold is
  not positive, \<open>best['category']\<close> subscripts \<open>None\<close>: a \<open>TypeError\<close>.
\<close>

definition find_best_match ::
    "pylib \<Rightarrow> faq list \<Rightarrow> pystr \<Rightarrow> rat \<Rightarrow> py_error + match option" where
  "find_best_match env faqs user_query threshold =
     (let query = preprocess env user_query;
          (best, best_score) = best_loop (combined_score env query) faqs (None, 0)
      in if best_score \<ge> threshold
         then (case best of None \<Rightarrow> Inl TypeError
                          | Some b \<Rightarrow> Inr (Some (mk_match b best_score)))
         else Inr None)"

text \<open>\<open>xs[:k]\<close>: a negative \<open>k\<close> counts from the end.\<close>

definition slice_to :: "'a list \<Rightarrow> int \<Rightarrow> 'a list" where
  "slice_to xs k = (if k \<ge> 0 then take (nat k) xs else take (length xs - nat (- k)) xs)"

text \<open>
  \<open>find_multiple_matches\<close>.  \<open>list.sort(key, reverse=True)\<close> is stable: elements with
  equal keys keep their order, which is what \<open>sort_key\<close> on the negated key does.
\<close>

definition find_multiple_matches ::
    "pylib \<Rightarrow> faq list \<Rightarrow> pystr \<Rightarrow> int \<Rightarrow> rat \<Rightarrow> match list" where
  "find_multiple_matches env faqs user_query top_k threshold =
     (let query = preprocess env user_query;
          matches = map (\<lambda>f. mk_match f (combined_score env query f))
                      (filter (\<lambda>f. combined_score env query f \<ge> threshold) faqs)
      in slice_to (sort_key (\<lambda>m. - confidence m) matches) top_k)"


section \<open>faq_service.py: the answer renderer\<close>

datatype search_result =
    Found (answer: pystr) (found_question: pystr) (found_confidence: rat)
          (found_category: pystr) (found_language: pystr)
  | NotFound (not_found_language: pystr) (not_found_message: pystr)

text \<open>The template chosen for a language: \<open>answers.get(lang) or answers.get('en', '')\<close>.\<close>

definition raw_answer :: "faq \<Rightarrow> pystr \<Rightarrow> pystr" where
  "raw_answer f lang =
     or_str (case map_of (faq_answers f) lang of None \<Rightarrow> [] | Some t \<Rightarrow> t)
            (case map_of (faq_answers f) (u ''en'') of None \<Rightarrow> [] | Some t \<Rightarrow> t)"

definition search_faq ::
    "pylib \<Rightarrow> faq list \<Rightarrow> pystr \<Rightarrow> university option \<Rightarrow> py_error + search_result" where
  "search_faq env faqs query university =
     (let lang = detect_language env query
      in case find_best_match env faqs query (fl (3 / 10)) of
           Inl e \<Rightarrow> Inl e
         | Inr None \<Rightarrow> Inr (NotFound lang (u ''No FAQ match found. AI will respond.''))
         | Inr (Some m) \<Rightarrow>
             Inr (Found (fill (raw_answer (match_faq m) lang) (build_placeholders university))
                        (faq_question (match_faq m)) (confidence m) (match_category m) lang))"


section \<open>faq_service.py: the catalog\<close>

text \<open>
  The list \<open>_FAQS\<close>, entry by entry; \<open>faq_n_en\<close>, \<open>faq_n_ar\<close> and \<open>faq_n_fr\<close> are the answer
  templates of entry \<open>n\<close>.  Characters outside ASCII are written as code points.
\<close>

definition faq_1_en :: pystr where
  "faq_1_en =
      u ''Hello! Welcome to '' @ u ''{university_name}''
      @ u '' Chatbot. I'm here to help you with:\<newline>- Course registration ''
      @ u ''and enrollment\<newline>- Tuition fees and payments\<newline>''
      @ u ''- Academic information and grades\<newline>- Campus facilities ''
      @ u ''and services\<newline>- Exams and schedules\<newline>- Student ''
      @ u ''services\<newline>\<newline>How can I assist you today?''"

definition faq_1_ar :: pystr where
  "faq_1_ar =
      [0x645, 0x631, 0x62D, 0x628, 0x627, 0x64B] @ u ''! ''
      @ [0x623, 0x647, 0x644, 0x627, 0x64B] @ u '' '' @ [0x628, 0x643] @ u '' ''
      @ [0x641, 0x64A] @ u '' '' @ [0x634, 0x627, 0x62A] @ u '' '' @ [0x628, 0x648, 0x62A]
      @ u '' '' @ u ''{university_name_ar}'' @ u ''. '' @ [0x623, 0x646, 0x627] @ u '' ''
      @ [0x647, 0x646, 0x627] @ u '' ''
      @ [0x644, 0x645, 0x633, 0x627, 0x639, 0x62F, 0x62A, 0x643] @ u '' '' @ [0x641, 0x64A]
      @ u '':\<newline>- '' @ [0x627, 0x644, 0x62A, 0x633, 0x62C, 0x64A, 0x644] @ u '' ''
      @ [0x641, 0x64A] @ u '' '' @ [0x627, 0x644, 0x645, 0x642, 0x631, 0x631, 0x627, 0x62A]
      @ u ''\<newline>- '' @ [0x627, 0x644, 0x631, 0x633, 0x648, 0x645] @ u '' ''
      @ [0x627, 0x644, 0x62F, 0x631, 0x627, 0x633, 0x64A, 0x629] @ u '' ''
      @ [0x648, 0x627, 0x644, 0x645, 0x62F, 0x641, 0x648, 0x639, 0x627, 0x62A]
      @ u ''\<newline>- '' @ [0x627, 0x644, 0x645, 0x639, 0x644, 0x648, 0x645, 0x627, 0x62A]
      @ u '' '' @ [0x627, 0x644, 0x623, 0x643, 0x627, 0x62F, 0x64A, 0x645, 0x64A, 0x629]
      @ u '' '' @ [0x648, 0x627, 0x644, 0x62F, 0x631, 0x62C, 0x627, 0x62A]
      @ u ''\<newline>- '' @ [0x645, 0x631, 0x627, 0x641, 0x642] @ u '' ''
      @ [0x627, 0x644, 0x62D, 0x631, 0x645] @ u '' ''
      @ [0x627, 0x644, 0x62C, 0x627, 0x645, 0x639, 0x64A] @ u '' ''
      @ [0x648, 0x627, 0x644, 0x62E, 0x62F, 0x645, 0x627, 0x62A] @ u ''\<newline>- ''
      @ [0x627, 0x644, 0x627, 0x645, 0x62A, 0x62D, 0x627, 0x646, 0x627, 0x62A] @ u '' ''
      @ [0x648, 0x627, 0x644, 0x62C, 0x62F, 0x627, 0x648, 0x644] @ u '' ''
      @ [0x627, 0x644, 0x632, 0x645, 0x646, 0x64A, 0x629] @ u ''\<newline>- ''
      @ [0x62E, 0x62F, 0x645, 0x627, 0x62A] @ u '' ''
      @ [0x627, 0x644, 0x637, 0x644, 0x627, 0x628] @ u ''\<newline>\<newline>''
      @ [0x643, 0x64A, 0x641] @ u '' '' @ [0x64A, 0x645, 0x643, 0x646, 0x646, 0x64A]
      @ u '' '' @ [0x645, 0x633, 0x627, 0x639, 0x62F, 0x62A, 0x643] @ u '' ''
      @ [0x627, 0x644, 0x64A, 0x648, 0x645, 0x61F]"

definition faq_1_fr :: pystr where
  "faq_1_fr =
      u ''Bonjour! Bienvenue sur le Chatbot de '' @ u ''{university_name_fr}''
      @ u ''. Je suis l'' @ [0xE0]
      @ u '' pour vous aider avec:\<newline>- L'inscription aux cours\<newline>''
      @ u ''- Les frais de scolarit'' @ [0xE9]
      @ u '' et paiements\<newline>- Les informations acad'' @ [0xE9]
      @ u ''miques et les notes\<newline>- Les installations du campus et ''
      @ u ''services\<newline>- Les examens et les emplois du temps\<newline>''
      @ u ''- Les services aux '' @ [0xE9]
      @ u ''tudiants\<newline>\<newline>Comment puis-je vous aider aujourd'hui?''"

definition faq_1 :: faq where
  "faq_1 =
     \<lparr>faq_id = 1, faq_category = u ''greeting'',
      faq_question = u ''Hello / Hi / Greetings'',
      faq_answers = [(u ''en'', faq_1_en), (u ''ar'', faq_1_ar), (u ''fr'', faq_1_fr)],
      faq_keywords =
       [u ''hello'',
        u ''hi'',
        u ''hey'',
        u ''greetings'',
        u ''salut'',
        u ''bonjour'',
        u ''salam'',
        [0x645, 0x631, 0x62D, 0x628, 0x627],
        [0x627, 0x644, 0x633, 0x644, 0x627, 0x645] @ u '' ''
         @ [0x639, 0x644, 0x64A, 0x643, 0x645],
        [0x623, 0x647, 0x644, 0x627],
        [0x647, 0x644, 0x627]],
      faq_variants =
       [u ''hello'',
        u ''hi there'',
        u ''hey'',
        u ''good morning'',
        u ''bonjour'',
        u ''salut'',
        [0x645, 0x631, 0x62D, 0x628, 0x627],
        [0x627, 0x644, 0x633, 0x644, 0x627, 0x645] @ u '' ''
         @ [0x639, 0x644, 0x64A, 0x643, 0x645]]\<rparr>"

definition faq_2_en :: pystr where
  "faq_2_en =
      u ''I'm functioning well, thank you! I'm ready to help you with ''
      @ u ''any questions about '' @ u ''{university_name}''
      @ u ''. What would you like to know?''"

definition faq_2_ar :: pystr where
  "faq_2_ar =
      [0x623, 0x646, 0x627] @ u '' '' @ [0x628, 0x62E, 0x64A, 0x631, 0x60C] @ u '' ''
      @ [0x634, 0x643, 0x631, 0x627, 0x64B] @ u '' ''
      @ [0x644, 0x633, 0x624, 0x627, 0x644, 0x643] @ u ''! '' @ [0x623, 0x646, 0x627]
      @ u '' '' @ [0x62C, 0x627, 0x647, 0x632] @ u '' ''
      @ [0x644, 0x645, 0x633, 0x627, 0x639, 0x62F, 0x62A, 0x643] @ u '' '' @ [0x641, 0x64A]
      @ u '' '' @ [0x623, 0x64A] @ u '' '' @ [0x633, 0x624, 0x627, 0x644] @ u '' ''
      @ [0x64A, 0x62A, 0x639, 0x644, 0x642] @ u '' '' @ [0x628, 0x640]
      @ u ''{university_name_ar}'' @ u ''. '' @ [0x645, 0x627, 0x630, 0x627] @ u '' ''
      @ [0x62A, 0x631, 0x64A, 0x62F] @ u '' '' @ [0x623, 0x646] @ u '' ''
      @ [0x62A, 0x639, 0x631, 0x641, 0x61F]"

definition faq_2_fr :: pystr where
  "faq_2_fr =
      u ''Je fonctionne tr'' @ [0xE8] @ u ''s bien, merci! Je suis pr'' @ [0xEA] @ u ''t ''
      @ [0xE0] @ u '' vous aider pour toutes vos questions sur ''
      @ u ''{university_name_fr}'' @ u ''. Que souhaitez-vous savoir?''"

definition faq_2 :: faq where
  "faq_2 =
     \<lparr>faq_id = 2, faq_category = u ''greeting'',
      faq_question = u ''How are you?'',
      faq_answers = [(u ''en'', faq_2_en), (u ''ar'', faq_2_ar), (u ''fr'', faq_2_fr)],
      faq_keywords =
       [u ''how are you'',
        u ''comment allez-vous'',
        [0xE7] @ u ''a va'',
        [0x643, 0x64A, 0x641] @ u '' '' @ [0x62D, 0x627, 0x644, 0x643],
        [0x643, 0x64A, 0x641, 0x643],
        u ''comment vas-tu''],
      faq_variants =
       [u ''how are you'',
        u ''how are you doing'',
        u ''comment vas-tu'',
        [0x643, 0x64A, 0x641] @ u '' '' @ [0x62D, 0x627, 0x644, 0x643]]\<rparr>"

definition faq_3_en :: pystr where
  "faq_3_en =
      u ''You're very welcome! I'm glad I could help. Feel free to ask ''
      @ u ''anytime. Have a great day!''"

definition faq_3_ar :: pystr where
  "faq_3_ar =
      [0x639, 0x644, 0x649] @ u '' '' @ [0x627, 0x644, 0x631, 0x62D, 0x628] @ u '' ''
      @ [0x648, 0x627, 0x644, 0x633, 0x639, 0x629] @ u ''! ''
      @ [0x64A, 0x633, 0x639, 0x62F, 0x646, 0x64A] @ u '' '' @ [0x623, 0x646, 0x646, 0x64A]
      @ u '' '' @ [0x627, 0x633, 0x62A, 0x637, 0x639, 0x62A] @ u '' ''
      @ [0x627, 0x644, 0x645, 0x633, 0x627, 0x639, 0x62F, 0x629] @ u ''. '' @ [0x644, 0x627]
      @ u '' '' @ [0x62A, 0x62A, 0x631, 0x62F, 0x62F] @ u '' '' @ [0x641, 0x64A] @ u '' ''
      @ [0x627, 0x644, 0x633, 0x624, 0x627, 0x644] @ u '' '' @ [0x641, 0x64A] @ u '' ''
      @ [0x623, 0x64A] @ u '' '' @ [0x648, 0x642, 0x62A] @ u ''. ''
      @ [0x623, 0x62A, 0x645, 0x646, 0x649] @ u '' '' @ [0x644, 0x643] @ u '' ''
      @ [0x64A, 0x648, 0x645, 0x627, 0x64B] @ u '' ''
      @ [0x631, 0x627, 0x626, 0x639, 0x627, 0x64B] @ u ''!''"

definition faq_3_fr :: pystr where
  "faq_3_fr =
      u ''De rien! Je suis ravi d'avoir pu vous aider. N'h'' @ [0xE9] @ u ''sitez pas ''
      @ [0xE0] @ u '' demander '' @ [0xE0] @ u '' tout moment. Bonne journ'' @ [0xE9]
      @ u ''e!''"

definition faq_3 :: faq where
  "faq_3 =
     \<lparr>faq_id = 3, faq_category = u ''greeting'',
      faq_question = u ''Thank you / Thanks'',
      faq_answers = [(u ''en'', faq_3_en), (u ''ar'', faq_3_ar), (u ''fr'', faq_3_fr)],
      faq_keywords =
       [u ''thank'',
        u ''thanks'',
        u ''merci'',
        [0x634, 0x643, 0x631, 0x627],
        [0x634, 0x643, 0x631, 0x627, 0x64B],
        [0x634, 0x643, 0x631, 0x64B, 0x627]],
      faq_variants =
       [u ''thank you'',
        u ''thanks'',
        u ''merci'',
        [0x634, 0x643, 0x631, 0x627],
        [0x634, 0x643, 0x631, 0x627, 0x64B] @ u '' ''
         @ [0x62C, 0x632, 0x64A, 0x644, 0x627, 0x64B]]\<rparr>"

definition faq_4_en :: pystr where
  "faq_4_en =
      u ''Goodbye! It was nice helping you today. Come back anytime you ''
      @ u ''have questions about '' @ u ''{university_name}'' @ u ''. Take care!''"

definition faq_4_ar :: pystr where
  "faq_4_ar =
      [0x648, 0x62F, 0x627, 0x639, 0x627, 0x64B] @ u ''! '' @ [0x643, 0x627, 0x646]
      @ u '' '' @ [0x645, 0x646] @ u '' '' @ [0x62F, 0x648, 0x627, 0x639, 0x64A] @ u '' ''
      @ [0x633, 0x631, 0x648, 0x631, 0x64A] @ u '' ''
      @ [0x645, 0x633, 0x627, 0x639, 0x62F, 0x62A, 0x643] @ u ''. '' @ [0x639, 0x64F, 0x62F]
      @ u '' '' @ [0x641, 0x64A] @ u '' '' @ [0x623, 0x64A] @ u '' ''
      @ [0x648, 0x642, 0x62A] @ u '' '' @ [0x644, 0x62F, 0x64A, 0x643] @ u '' ''
      @ [0x623, 0x633, 0x626, 0x644, 0x629] @ u '' '' @ [0x62D, 0x648, 0x644] @ u '' ''
      @ u ''{university_name_ar}'' @ u ''. '' @ [0x627, 0x639, 0x62A, 0x646, 0x650]
      @ u '' '' @ [0x628, 0x646, 0x641, 0x633, 0x643] @ u ''!''"

definition faq_4_fr :: pystr where
  "faq_4_fr =
      u ''Au revoir! C'' @ [39] @ [0xE9] @ u ''tait un plaisir de vous aider. Revenez ''
      @ [0xE0] @ u '' tout moment pour '' @ u ''{university_name_fr}''
      @ u ''. Prenez soin de vous!''"

definition faq_4 :: faq where
  "faq_4 =
     \<lparr>faq_id = 4, faq_category = u ''greeting'',
      faq_question = u ''Goodbye / See you'',
      faq_answers = [(u ''en'', faq_4_en), (u ''ar'', faq_4_ar), (u ''fr'', faq_4_fr)],
      faq_keywords =
       [u ''goodbye'',
        u ''bye'',
        u ''see you'',
        u ''au revoir'',
        [0x645, 0x639] @ u '' '' @ [0x627, 0x644, 0x633, 0x644, 0x627, 0x645, 0x629],
        [0x648, 0x62F, 0x627, 0x639, 0x627]],
      faq_variants =
       [u ''goodbye'',
        u ''bye'',
        u ''see you later'',
        u ''au revoir'',
        [0x645, 0x639] @ u '' '' @ [0x627, 0x644, 0x633, 0x644, 0x627, 0x645, 0x629]]\<rparr>"

definition faq_5_en :: pystr where
  "faq_5_en =
      u ''I can help you with many aspects of '' @ u ''{university_name}''
      @ u '':\<newline>\<newline>'' @ [0x1F4DA]
      @ u '' **Academic:** Course registration, grading system, attendance ''
      @ u ''policies\<newline>'' @ [0x1F4B0]
      @ u '' **Financial:** Tuition fees, payment methods, scholarships\<newline>''
      @ [0x1F3E2]
      @ u '' **Campus Life:** Library, gym, cafeteria, student housing\<newline>''
      @ [0x1F4DD]
      @ u '' **Student Services:** Student ID, portal access, admin procedures\<newline>''
      @ [0x1F4C5]
      @ u '' **Important Dates:** Registration deadlines, exam periods\<newline>''
      @ u ''\<newline>Just ask me anything!''"

definition faq_5_ar :: pystr where
  "faq_5_ar =
      [0x64A, 0x645, 0x643, 0x646, 0x646, 0x64A] @ u '' ''
      @ [0x645, 0x633, 0x627, 0x639, 0x62F, 0x62A, 0x643] @ u '' '' @ [0x641, 0x64A]
      @ u '' '' @ [0x643, 0x62B, 0x64A, 0x631] @ u '' '' @ [0x645, 0x646] @ u '' ''
      @ [0x62C, 0x648, 0x627, 0x646, 0x628] @ u '' '' @ u ''{university_name_ar}''
      @ u '':\<newline>\<newline>'' @ [0x1F4DA] @ u '' **''
      @ [0x627, 0x644, 0x623, 0x643, 0x627, 0x62F, 0x64A, 0x645, 0x64A] @ u '':** ''
      @ [0x627, 0x644, 0x62A, 0x633, 0x62C, 0x64A, 0x644] @ u '' '' @ [0x641, 0x64A]
      @ u '' '' @ [0x627, 0x644, 0x645, 0x642, 0x631, 0x631, 0x627, 0x62A, 0x60C] @ u '' ''
      @ [0x646, 0x638, 0x627, 0x645] @ u '' ''
      @ [0x627, 0x644, 0x62A, 0x642, 0x64A, 0x64A, 0x645, 0x60C] @ u '' ''
      @ [0x633, 0x64A, 0x627, 0x633, 0x627, 0x62A] @ u '' ''
      @ [0x627, 0x644, 0x62D, 0x636, 0x648, 0x631] @ u ''\<newline>'' @ [0x1F4B0]
      @ u '' **'' @ [0x627, 0x644, 0x645, 0x627, 0x644, 0x64A] @ u '':** ''
      @ [0x627, 0x644, 0x631, 0x633, 0x648, 0x645] @ u '' ''
      @ [0x627, 0x644, 0x62F, 0x631, 0x627, 0x633, 0x64A, 0x629, 0x60C] @ u '' ''
      @ [0x637, 0x631, 0x642] @ u '' '' @ [0x627, 0x644, 0x62F, 0x641, 0x639, 0x60C]
      @ u '' '' @ [0x627, 0x644, 0x645, 0x646, 0x62D] @ u '' ''
      @ [0x627, 0x644, 0x62F, 0x631, 0x627, 0x633, 0x64A, 0x629] @ u ''\<newline>''
      @ [0x1F3E2] @ u '' **'' @ [0x627, 0x644, 0x62D, 0x64A, 0x627, 0x629] @ u '' ''
      @ [0x627, 0x644, 0x62C, 0x627, 0x645, 0x639, 0x64A, 0x629] @ u '':** ''
      @ [0x627, 0x644, 0x645, 0x643, 0x62A, 0x628, 0x629, 0x60C] @ u '' ''
      @ [0x642, 0x627, 0x639, 0x629] @ u '' ''
      @ [0x627, 0x644, 0x631, 0x64A, 0x627, 0x636, 0x629, 0x60C] @ u '' ''
      @ [0x627, 0x644, 0x645, 0x637, 0x639, 0x645, 0x60C] @ u '' ''
      @ [0x627, 0x644, 0x633, 0x643, 0x646] @ u '' ''
      @ [0x627, 0x644, 0x62C, 0x627, 0x645, 0x639, 0x64A] @ u ''\<newline>'' @ [0x1F4DD]
      @ u '' **'' @ [0x62E, 0x62F, 0x645, 0x627, 0x62A] @ u '' ''
      @ [0x627, 0x644, 0x637, 0x644, 0x627, 0x628] @ u '':** ''
      @ [0x628, 0x637, 0x627, 0x642, 0x629] @ u '' ''
      @ [0x627, 0x644, 0x637, 0x627, 0x644, 0x628, 0x60C] @ u '' ''
      @ [0x627, 0x644, 0x648, 0x635, 0x648, 0x644] @ u '' '' @ [0x625, 0x644, 0x649]
      @ u '' '' @ [0x627, 0x644, 0x628, 0x648, 0x627, 0x628, 0x629, 0x60C] @ u '' ''
      @ [0x627, 0x644, 0x625, 0x62C, 0x631, 0x627, 0x621, 0x627, 0x62A] @ u '' ''
      @ [0x627, 0x644, 0x625, 0x62F, 0x627, 0x631, 0x64A, 0x629] @ u ''\<newline>''
      @ [0x1F4C5] @ u '' **'' @ [0x645, 0x648, 0x627, 0x639, 0x64A, 0x62F] @ u '' ''
      @ [0x647, 0x627, 0x645, 0x629] @ u '':** ''
      @ [0x645, 0x648, 0x627, 0x639, 0x64A, 0x62F] @ u '' ''
      @ [0x627, 0x644, 0x62A, 0x633, 0x62C, 0x64A, 0x644, 0x60C] @ u '' ''
      @ [0x641, 0x62A, 0x631, 0x627, 0x62A] @ u '' ''
      @ [0x627, 0x644, 0x627, 0x645, 0x62A, 0x62D, 0x627, 0x646, 0x627, 0x62A]
      @ u ''\<newline>\<newline>'' @ [0x627, 0x633, 0x623, 0x644, 0x646, 0x64A] @ u '' ''
      @ [0x623, 0x64A] @ u '' '' @ [0x634, 0x64A, 0x621] @ u ''!''"

definition faq_5_fr :: pystr where
  "faq_5_fr =
      u ''Je peux vous aider avec de nombreux aspects de '' @ u ''{university_name_fr}''
      @ u '':\<newline>\<newline>'' @ [0x1F4DA] @ u '' **Acad'' @ [0xE9]
      @ u ''mique:** Inscription aux cours, syst'' @ [0xE8]
      @ u ''me de notation, politiques de pr'' @ [0xE9] @ u ''sence\<newline>'' @ [0x1F4B0]
      @ u '' **Financier:** Frais de scolarit'' @ [0xE9]
      @ u '', modes de paiement, bourses\<newline>'' @ [0x1F3E2]
      @ u '' **Vie du campus:** Biblioth'' @ [0xE8] @ u ''que, gymnase, caf'' @ [0xE9]
      @ u ''t'' @ [0xE9] @ u ''ria, logement '' @ [0xE9] @ u ''tudiant\<newline>''
      @ [0x1F4DD] @ u '' **Services '' @ [0xE9] @ u ''tudiants:** Carte '' @ [0xE9]
      @ u ''tudiant, acc'' @ [0xE8] @ u ''s au portail, proc'' @ [0xE9]
      @ u ''dures administratives\<newline>'' @ [0x1F4C5]
      @ u '' **Dates importantes:** Dates d'inscription, p'' @ [0xE9]
      @ u ''riodes d'examens\<newline>\<newline>Posez-moi n'importe quelle ''
      @ u ''question!''"

definition faq_5 :: faq where
  "faq_5 =
     \<lparr>faq_id = 5, faq_category = u ''help'',
      faq_question = u ''What can you help me with?'',
      faq_answers = [(u ''en'', faq_5_en), (u ''ar'', faq_5_ar), (u ''fr'', faq_5_fr)],
      faq_keywords =
       [u ''help'',
        u ''what can you do'',
        u ''aide'',
        [0x645, 0x633, 0x627, 0x639, 0x62F, 0x629],
        [0x645, 0x627, 0x630, 0x627] @ u '' '' @ [0x62A, 0x641, 0x639, 0x644],
        [0x645, 0x627, 0x630, 0x627] @ u '' '' @ [0x62A, 0x633, 0x62A, 0x637, 0x64A, 0x639]],
      faq_variants =
       [u ''what can you help with'',
        u ''what do you do'',
        u ''how can you help'',
        u ''aide'',
        [0x645, 0x633, 0x627, 0x639, 0x62F, 0x629]]\<rparr>"

definition faq_6_en :: pystr where
  "faq_6_en =
      u ''**Course Registration Process:**\<newline>\<newline>1. Log into ''
      @ u ''the student portal: '' @ u ''{portal_url}''
      @ u ''\<newline>2. Navigate to 'Course Registration'\<newline>3. Select ''
      @ u ''your desired courses\<newline>4. Check for time conflicts\<newline>''
      @ u ''5. Submit your registration\<newline>6. Pay registration fees ''
      @ u ''within the deadline\<newline>\<newline>Registration opens 2 ''
      @ u ''weeks before each semester. Limited seats '' @ [0x2013]
      @ u '' register early!\<newline>\<newline>'' @ [0x1F4E7] @ u '' ''
      @ u ''{email_registrar}''"

definition faq_6_ar :: pystr where
  "faq_6_ar =
      u ''**'' @ [0x62E, 0x637, 0x648, 0x627, 0x62A] @ u '' ''
      @ [0x627, 0x644, 0x62A, 0x633, 0x62C, 0x64A, 0x644] @ u '' '' @ [0x641, 0x64A]
      @ u '' '' @ [0x627, 0x644, 0x645, 0x642, 0x631, 0x631, 0x627, 0x62A]
      @ u '':**\<newline>\<newline>1. '' @ [0x633, 0x62C, 0x651, 0x644] @ u '' ''
      @ [0x627, 0x644, 0x62F, 0x62E, 0x648, 0x644] @ u '' '' @ [0x639, 0x644, 0x649]
      @ u '' '' @ [0x628, 0x648, 0x627, 0x628, 0x629] @ u '' ''
      @ [0x627, 0x644, 0x637, 0x644, 0x627, 0x628] @ u '': '' @ u ''{portal_url}''
      @ u ''\<newline>2. '' @ [0x627, 0x646, 0x62A, 0x642, 0x644] @ u '' ''
      @ [0x625, 0x644, 0x649] @ u '' '' @ [0x642, 0x633, 0x645] @ u '' '' @ [39]
      @ [0x62A, 0x633, 0x62C, 0x64A, 0x644] @ u '' ''
      @ [0x627, 0x644, 0x645, 0x642, 0x631, 0x631, 0x627, 0x62A] @ [39]
      @ u ''\<newline>3. '' @ [0x627, 0x62E, 0x62A, 0x631] @ u '' ''
      @ [0x627, 0x644, 0x645, 0x642, 0x631, 0x631, 0x627, 0x62A] @ u '' ''
      @ [0x627, 0x644, 0x645, 0x637, 0x644, 0x648, 0x628, 0x629] @ u ''\<newline>4. ''
      @ [0x62A, 0x62D, 0x642, 0x642] @ u '' '' @ [0x645, 0x646] @ u '' ''
      @ [0x627, 0x644, 0x62A, 0x639, 0x627, 0x631, 0x636] @ u '' '' @ [0x641, 0x64A]
      @ u '' '' @ [0x627, 0x644, 0x62C, 0x62F, 0x627, 0x648, 0x644] @ u ''\<newline>5. ''
      @ [0x623, 0x631, 0x633, 0x644] @ u '' '' @ [0x637, 0x644, 0x628] @ u '' ''
      @ [0x627, 0x644, 0x62A, 0x633, 0x62C, 0x64A, 0x644] @ u ''\<newline>6. ''
      @ [0x627, 0x62F, 0x641, 0x639] @ u '' '' @ [0x631, 0x633, 0x648, 0x645] @ u '' ''
      @ [0x627, 0x644, 0x62A, 0x633, 0x62C, 0x64A, 0x644] @ u '' '' @ [0x642, 0x628, 0x644]
      @ u '' '' @ [0x627, 0x644, 0x645, 0x648, 0x639, 0x62F] @ u '' ''
      @ [0x627, 0x644, 0x646, 0x647, 0x627, 0x626, 0x64A] @ u ''\<newline>\<newline>''
      @ [0x64A, 0x641, 0x62A, 0x62D] @ u '' ''
      @ [0x627, 0x644, 0x62A, 0x633, 0x62C, 0x64A, 0x644] @ u '' '' @ [0x642, 0x628, 0x644]
      @ u '' '' @ [0x623, 0x633, 0x628, 0x648, 0x639, 0x64A, 0x646] @ u '' ''
      @ [0x645, 0x646] @ u '' '' @ [0x643, 0x644] @ u '' '' @ [0x641, 0x635, 0x644]
      @ u ''. '' @ [0x627, 0x644, 0x623, 0x645, 0x627, 0x643, 0x646] @ u '' ''
      @ [0x645, 0x62D, 0x62F, 0x648, 0x62F, 0x629] @ u '' '' @ [0x2013] @ u '' ''
      @ [0x633, 0x62C, 0x651, 0x644] @ u '' '' @ [0x645, 0x628, 0x643, 0x631, 0x627, 0x64B]
      @ u ''!\<newline>\<newline>'' @ [0x1F4E7] @ u '' '' @ u ''{email_registrar}''"

definition faq_6_fr :: pystr where
  "faq_6_fr =
      u ''**Processus d'inscription aux cours:**\<newline>\<newline>1. ''
      @ u ''Connectez-vous au portail '' @ [0xE9] @ u ''tudiant: '' @ u ''{portal_url}''
      @ u ''\<newline>2. Allez dans 'Inscription aux cours'\<newline>3. '' @ u ''S''
      @ [0xE9] @ u ''lectionnez vos cours\<newline>4. V'' @ [0xE9]
      @ u ''rifiez les conflits d'horaires\<newline>5. Soumettez votre inscription\<newline>''
      @ u ''6. Payez les frais dans le d'' @ [0xE9]
      @ u ''lai imparti\<newline>\<newline>L'inscription ouvre 2 semaines ''
      @ u ''avant chaque semestre. Places limit'' @ [0xE9] @ u ''es '' @ [0x2013]
      @ u '' inscrivez-vous t'' @ [0xF4] @ u ''t!\<newline>\<newline>'' @ [0x1F4E7]
      @ u '' '' @ u ''{email_registrar}''"

definition faq_6 :: faq where
  "faq_6 =
     \<lparr>faq_id = 6, faq_category = u ''registration'',
      faq_question = u ''How do I register for courses?'',
      faq_answers = [(u ''en'', faq_6_en), (u ''ar'', faq_6_ar), (u ''fr'', faq_6_fr)],
      faq_keywords =
       [u ''register'',
        u ''registration'',
        u ''enroll'',
        u ''enrollment'',
        u ''course'',
        u ''signup'',
        u ''inscription'',
        u ''inscrire'',
        u ''cours'',
        [0x62A, 0x633, 0x62C, 0x64A, 0x644],
        [0x645, 0x627, 0x62F, 0x629],
        [0x643, 0x64A, 0x641] @ u '' '' @ [0x623, 0x633, 0x62C, 0x644],
        [0x643, 0x64A, 0x641] @ u '' '' @ [0x627, 0x633, 0x62C, 0x644]],
      faq_variants =
       [u ''how to register'',
        u ''registration process'',
        u ''enroll in courses'',
        u ''comment s'inscrire'',
        u ''comment puis-je m inscrire'',
        [0x643, 0x64A, 0x641] @ u '' '' @ [0x623, 0x633, 0x62C, 0x644],
        [0x637, 0x631, 0x64A, 0x642, 0x629] @ u '' ''
         @ [0x627, 0x644, 0x62A, 0x633, 0x62C, 0x64A, 0x644]]\<rparr>"

definition faq_7_en :: pystr where
  "faq_7_en =
      u ''**Registration Deadlines:**\<newline>\<newline>'' @ [0x1F342]
      @ u '' Fall: Early registration '' @ [0x2192] @ u '' Regular '' @ [0x2192]
      @ u '' Late registration (with late fee)\<newline>'' @ [0x1F338]
      @ u '' Spring: Early registration '' @ [0x2192] @ u '' Regular '' @ [0x2192]
      @ u '' Late registration (with late fee)\<newline>'' @ [0x2600, 0xFE0F]
      @ u '' Summer: Short registration window\<newline>\<newline>'' @ [0x26A0, 0xFE0F]
      @ u '' Check the official academic calendar on '' @ u ''{portal_url}''
      @ u '' for exact dates.\<newline>Late registration incurs additional ''
      @ u ''fees. No registration after late period ends!''"

definition faq_7_ar :: pystr where
  "faq_7_ar =
      u ''**'' @ [0x645, 0x648, 0x627, 0x639, 0x64A, 0x62F] @ u '' ''
      @ [0x627, 0x644, 0x62A, 0x633, 0x62C, 0x64A, 0x644] @ u '':**\<newline>\<newline>''
      @ [0x1F342] @ u '' '' @ [0x627, 0x644, 0x62E, 0x631, 0x64A, 0x641] @ u '': ''
      @ [0x62A, 0x633, 0x62C, 0x64A, 0x644] @ u '' '' @ [0x645, 0x628, 0x643, 0x631]
      @ u '' '' @ [0x2190] @ u '' '' @ [0x639, 0x627, 0x62F, 0x64A] @ u '' '' @ [0x2190]
      @ u '' '' @ [0x645, 0x62A, 0x623, 0x62E, 0x631] @ u '' (''
      @ [0x628, 0x631, 0x633, 0x648, 0x645] @ u '' ''
      @ [0x625, 0x636, 0x627, 0x641, 0x64A, 0x629] @ u '')\<newline>'' @ [0x1F338] @ u '' ''
      @ [0x627, 0x644, 0x631, 0x628, 0x64A, 0x639] @ u '': ''
      @ [0x62A, 0x633, 0x62C, 0x64A, 0x644] @ u '' '' @ [0x645, 0x628, 0x643, 0x631]
      @ u '' '' @ [0x2190] @ u '' '' @ [0x639, 0x627, 0x62F, 0x64A] @ u '' '' @ [0x2190]
      @ u '' '' @ [0x645, 0x62A, 0x623, 0x62E, 0x631] @ u '' (''
      @ [0x628, 0x631, 0x633, 0x648, 0x645] @ u '' ''
      @ [0x625, 0x636, 0x627, 0x641, 0x64A, 0x629] @ u '')\<newline>'' @ [0x2600, 0xFE0F]
      @ u '' '' @ [0x627, 0x644, 0x635, 0x64A, 0x641] @ u '': ''
      @ [0x641, 0x62A, 0x631, 0x629] @ u '' '' @ [0x62A, 0x633, 0x62C, 0x64A, 0x644]
      @ u '' '' @ [0x642, 0x635, 0x64A, 0x631, 0x629] @ u ''\<newline>\<newline>''
      @ [0x26A0, 0xFE0F] @ u '' '' @ [0x631, 0x627, 0x62C, 0x639] @ u '' ''
      @ [0x627, 0x644, 0x62A, 0x642, 0x648, 0x64A, 0x645] @ u '' ''
      @ [0x627, 0x644, 0x623, 0x643, 0x627, 0x62F, 0x64A, 0x645, 0x64A] @ u '' ''
      @ [0x627, 0x644, 0x631, 0x633, 0x645, 0x64A] @ u '' '' @ [0x639, 0x644, 0x649]
      @ u '' '' @ u ''{portal_url}'' @ u '' ''
      @ [0x644, 0x644, 0x645, 0x648, 0x627, 0x639, 0x64A, 0x62F] @ u '' ''
      @ [0x627, 0x644, 0x62F, 0x642, 0x64A, 0x642, 0x629] @ u ''.\<newline>''
      @ [0x627, 0x644, 0x62A, 0x633, 0x62C, 0x64A, 0x644] @ u '' ''
      @ [0x627, 0x644, 0x645, 0x62A, 0x623, 0x62E, 0x631] @ u '' ''
      @ [0x64A, 0x633, 0x62A, 0x644, 0x632, 0x645] @ u '' ''
      @ [0x631, 0x633, 0x648, 0x645, 0x627, 0x64B] @ u '' ''
      @ [0x625, 0x636, 0x627, 0x641, 0x64A, 0x629] @ u ''. '' @ [0x644, 0x627] @ u '' ''
      @ [0x64A, 0x64F, 0x642, 0x628, 0x644] @ u '' '' @ [0x623, 0x64A] @ u '' ''
      @ [0x62A, 0x633, 0x62C, 0x64A, 0x644] @ u '' '' @ [0x628, 0x639, 0x62F] @ u '' ''
      @ [0x627, 0x646, 0x62A, 0x647, 0x627, 0x621] @ u '' ''
      @ [0x627, 0x644, 0x641, 0x62A, 0x631, 0x629] @ u ''!''"

definition faq_7_fr :: pystr where
  "faq_7_fr =
      u ''**Dates limites d'inscription:**\<newline>\<newline>'' @ [0x1F342]
      @ u '' Automne: Inscription anticip'' @ [0xE9] @ u ''e '' @ [0x2192] @ u '' Normale ''
      @ [0x2192] @ u '' Tardive (avec frais suppl'' @ [0xE9] @ u ''mentaires)\<newline>''
      @ [0x1F338] @ u '' Printemps: Inscription anticip'' @ [0xE9] @ u ''e '' @ [0x2192]
      @ u '' Normale '' @ [0x2192] @ u '' Tardive (avec frais suppl'' @ [0xE9]
      @ u ''mentaires)\<newline>'' @ [0x2600, 0xFE0F] @ u '' '' @ [0xC9] @ u ''t'' @ [0xE9]
      @ u '': Courte p'' @ [0xE9] @ u ''riode d'inscription\<newline>\<newline>''
      @ [0x26A0, 0xFE0F] @ u '' Consultez le calendrier acad'' @ [0xE9]
      @ u ''mique officiel sur '' @ u ''{portal_url}''
      @ u '' pour les dates exactes.\<newline>L'inscription tardive entra'' @ [0xEE]
      @ u ''ne des frais suppl'' @ [0xE9] @ u ''mentaires. Aucune inscription apr'' @ [0xE8]
      @ u ''s la p'' @ [0xE9] @ u ''riode tardive!''"

definition faq_7 :: faq where
  "faq_7 =
     \<lparr>faq_id = 7, faq_category = u ''registration'',
      faq_question = u ''What are the registration deadlines?'',
      faq_answers = [(u ''en'', faq_7_en), (u ''ar'', faq_7_ar), (u ''fr'', faq_7_fr)],
      faq_keywords =
       [u ''deadline'',
        u ''last day'',
        u ''registration date'',
        u ''when'',
        u ''due date'',
        u ''date limite'',
        [0x645, 0x648, 0x639, 0x62F],
        [0x622, 0x62E, 0x631] @ u '' '' @ [0x645, 0x648, 0x639, 0x62F],
        [0x645, 0x62A, 0x649] @ u '' '' @ [0x627, 0x644, 0x62A, 0x633, 0x62C, 0x64A, 0x644]],
      faq_variants =
       [u ''registration deadline'',
        u ''when to register'',
        u ''date limite d'inscription'',
        [0x645, 0x648, 0x639, 0x62F] @ u '' ''
         @ [0x627, 0x644, 0x62A, 0x633, 0x62C, 0x64A, 0x644]]\<rparr>"

definition faq_8_en :: pystr where
  "faq_8_en =
      u ''**Course Drop Policy:**\<newline>\<newline>'' @ [0x2705]
      @ u '' Weeks 1-2 (Add/Drop Period): Full refund, no transcript record\<newline>''
      @ [0x26A0, 0xFE0F]
      @ u '' Weeks 3-6 (Withdrawal): Partial refund, 'W' on transcript (no ''
      @ u ''GPA impact)\<newline>'' @ [0x274C]
      @ u '' After Week 6: No refund, 'WF' on transcript (affects GPA)\<newline>''
      @ u ''\<newline>How to Drop: via the student portal ('' @ u ''{portal_url}''
      @ u '') or the Registrar's Office.\<newline>'' @ [0x1F4E7] @ u '' ''
      @ u ''{email_registrar}''"

definition faq_8_ar :: pystr where
  "faq_8_ar =
      u ''**'' @ [0x633, 0x64A, 0x627, 0x633, 0x629] @ u '' '' @ [0x62D, 0x630, 0x641]
      @ u '' '' @ [0x627, 0x644, 0x645, 0x642, 0x631, 0x631, 0x627, 0x62A]
      @ u '':**\<newline>\<newline>'' @ [0x2705] @ u '' ''
      @ [0x627, 0x644, 0x623, 0x633, 0x628, 0x648, 0x639, 0x627, 0x646] @ u '' 1-2: ''
      @ [0x627, 0x633, 0x62A, 0x631, 0x62F, 0x627, 0x62F] @ u '' ''
      @ [0x643, 0x627, 0x645, 0x644, 0x60C] @ u '' '' @ [0x628, 0x62F, 0x648, 0x646]
      @ u '' '' @ [0x633, 0x62C, 0x644] @ u '' '' @ [0x641, 0x64A] @ u '' ''
      @ [0x643, 0x634, 0x641] @ u '' '' @ [0x627, 0x644, 0x62F, 0x631, 0x62C, 0x627, 0x62A]
      @ u ''\<newline>'' @ [0x26A0, 0xFE0F] @ u '' ''
      @ [0x627, 0x644, 0x623, 0x633, 0x627, 0x628, 0x64A, 0x639] @ u '' 3-6: ''
      @ [0x627, 0x633, 0x62A, 0x631, 0x62F, 0x627, 0x62F] @ u '' ''
      @ [0x62C, 0x632, 0x626, 0x64A, 0x60C] @ u '' '' @ [0x64A, 0x638, 0x647, 0x631]
      @ u '' 'W' '' @ [0x641, 0x64A] @ u '' '' @ [0x643, 0x634, 0x641] @ u '' ''
      @ [0x627, 0x644, 0x62F, 0x631, 0x62C, 0x627, 0x62A] @ u '' ('' @ [0x644, 0x627]
      @ u '' '' @ [0x64A, 0x624, 0x62B, 0x631] @ u '' '' @ [0x639, 0x644, 0x649] @ u '' ''
      @ [0x627, 0x644, 0x645, 0x639, 0x62F, 0x644] @ u '')\<newline>'' @ [0x274C] @ u '' ''
      @ [0x628, 0x639, 0x62F] @ u '' '' @ [0x627, 0x644, 0x623, 0x633, 0x628, 0x648, 0x639]
      @ u '' 6: '' @ [0x644, 0x627] @ u '' ''
      @ [0x627, 0x633, 0x62A, 0x631, 0x62F, 0x627, 0x62F, 0x60C] @ u '' ''
      @ [0x64A, 0x638, 0x647, 0x631] @ u '' 'WF' '' @ [0x641, 0x64A] @ u '' ''
      @ [0x643, 0x634, 0x641] @ u '' '' @ [0x627, 0x644, 0x62F, 0x631, 0x62C, 0x627, 0x62A]
      @ u '' ('' @ [0x64A, 0x624, 0x62B, 0x631] @ u '' '' @ [0x639, 0x644, 0x649] @ u '' ''
      @ [0x627, 0x644, 0x645, 0x639, 0x62F, 0x644] @ u '')\<newline>\<newline>''
      @ [0x637, 0x631, 0x64A, 0x642, 0x629] @ u '' '' @ [0x627, 0x644, 0x62D, 0x630, 0x641]
      @ u '': '' @ [0x639, 0x628, 0x631] @ u '' '' @ [0x628, 0x648, 0x627, 0x628, 0x629]
      @ u '' '' @ [0x627, 0x644, 0x637, 0x627, 0x644, 0x628] @ u '' ('' @ u ''{portal_url}''
      @ u '') '' @ [0x623, 0x648] @ u '' '' @ [0x645, 0x643, 0x62A, 0x628] @ u '' ''
      @ [0x627, 0x644, 0x62A, 0x633, 0x62C, 0x64A, 0x644] @ u ''.\<newline>'' @ [0x1F4E7]
      @ u '' '' @ u ''{email_registrar}''"

definition faq_8_fr :: pystr where
  "faq_8_fr =
      u ''**Politique d'abandon de cours:**\<newline>\<newline>'' @ [0x2705]
      @ u '' Semaines 1-2: Remboursement total, aucune mention sur le relev'' @ [0xE9]
      @ u ''\<newline>'' @ [0x26A0, 0xFE0F]
      @ u '' Semaines 3-6: Remboursement partiel, 'W' sur le relev'' @ [0xE9]
      @ u '' (pas d'impact sur la moyenne)\<newline>'' @ [0x274C] @ u '' Apr'' @ [0xE8]
      @ u ''s la semaine 6: Pas de remboursement, 'WF' sur le relev'' @ [0xE9]
      @ u '' (affecte la moyenne)\<newline>\<newline>Comment abandonner: ''
      @ u ''via le portail '' @ [0xE9] @ u ''tudiant ('' @ u ''{portal_url}''
      @ u '') ou le Bureau du Registraire.\<newline>'' @ [0x1F4E7] @ u '' ''
      @ u ''{email_registrar}''"

definition faq_8 :: faq where
  "faq_8 =
     \<lparr>faq_id = 8, faq_category = u ''registration'',
      faq_question = u ''Can I drop a course after registration?'',
      faq_answers = [(u ''en'', faq_8_en), (u ''ar'', faq_8_ar), (u ''fr'', faq_8_fr)],
      faq_keywords =
       [u ''drop'',
        u ''withdraw'',
        u ''remove course'',
        u ''cancel registration'',
        u ''annuler'',
        [0x62D, 0x630, 0x641] @ u '' '' @ [0x627, 0x644, 0x645, 0x627, 0x62F, 0x629],
        [0x627, 0x644, 0x627, 0x646, 0x633, 0x62D, 0x627, 0x628],
        [0x62D, 0x630, 0x641] @ u '' '' @ [0x645, 0x642, 0x631, 0x631]],
      faq_variants =
       [u ''drop a course'',
        u ''withdraw from course'',
        u ''annuler un cours'',
        [0x62D, 0x630, 0x641] @ u '' '' @ [0x645, 0x627, 0x62F, 0x629]]\<rparr>"

definition faq_9_en :: pystr where
  "faq_9_en =
      u ''**Tuition Fees (Per Semester):**\<newline>\<newline>'' @ [0x1F393]
      @ u '' Undergraduate: Base tuition + applicable lab fees\<newline>'' @ [0x1F393]
      @ u '' Master's: Base tuition + research fees\<newline>'' @ [0x1F393]
      @ u '' PhD: Base tuition + research & lab access fees\<newline>\<newline>''
      @ u ''Additional fees may include: registration, library access, sports ''
      @ u ''facilities, and student services.\<newline>\<newline>'' @ [0x1F4A1]
      @ u '' For exact amounts, check '' @ u ''{portal_url}''
      @ u '' or contact the Finance Office: '' @ [0x1F4E7] @ u '' '' @ u ''{email_finance}''
      @ u ''\<newline>Scholarships are available '' @ [0x2013]
      @ u '' ask about financial aid!''"

definition faq_9_ar :: pystr where
  "faq_9_ar =
      u ''**'' @ [0x627, 0x644, 0x631, 0x633, 0x648, 0x645] @ u '' ''
      @ [0x627, 0x644, 0x62F, 0x631, 0x627, 0x633, 0x64A, 0x629] @ u '' (''
      @ [0x644, 0x643, 0x644] @ u '' '' @ [0x641, 0x635, 0x644]
      @ u ''):**\<newline>\<newline>'' @ [0x1F393] @ u '' ''
      @ [0x627, 0x644, 0x644, 0x64A, 0x633, 0x627, 0x646, 0x633] @ u '': ''
      @ [0x631, 0x633, 0x648, 0x645] @ u '' '' @ [0x623, 0x633, 0x627, 0x633, 0x64A, 0x629]
      @ u '' + '' @ [0x631, 0x633, 0x648, 0x645] @ u '' ''
      @ [0x645, 0x62E, 0x62A, 0x628, 0x631] @ u '' ('' @ [0x625, 0x646] @ u '' ''
      @ [0x648, 0x62C, 0x62F, 0x62A] @ u '')\<newline>'' @ [0x1F393] @ u '' ''
      @ [0x627, 0x644, 0x645, 0x627, 0x633, 0x62A, 0x631] @ u '': ''
      @ [0x631, 0x633, 0x648, 0x645] @ u '' '' @ [0x623, 0x633, 0x627, 0x633, 0x64A, 0x629]
      @ u '' + '' @ [0x631, 0x633, 0x648, 0x645] @ u '' ''
      @ [0x628, 0x62D, 0x62B, 0x64A, 0x629] @ u ''\<newline>'' @ [0x1F393] @ u '' ''
      @ [0x627, 0x644, 0x62F, 0x643, 0x62A, 0x648, 0x631, 0x627, 0x647] @ u '': ''
      @ [0x631, 0x633, 0x648, 0x645] @ u '' '' @ [0x623, 0x633, 0x627, 0x633, 0x64A, 0x629]
      @ u '' + '' @ [0x631, 0x633, 0x648, 0x645] @ u '' ''
      @ [0x645, 0x62E, 0x62A, 0x628, 0x631] @ u '' '' @ [0x648, 0x628, 0x62D, 0x62B]
      @ u ''\<newline>\<newline>'' @ [0x642, 0x62F] @ u '' '' @ [0x62A, 0x634, 0x645, 0x644]
      @ u '' '' @ [0x627, 0x644, 0x631, 0x633, 0x648, 0x645] @ u '' ''
      @ [0x627, 0x644, 0x625, 0x636, 0x627, 0x641, 0x64A, 0x629] @ u '': ''
      @ [0x627, 0x644, 0x62A, 0x633, 0x62C, 0x64A, 0x644, 0x60C] @ u '' ''
      @ [0x627, 0x644, 0x645, 0x643, 0x62A, 0x628, 0x629, 0x60C] @ u '' ''
      @ [0x627, 0x644, 0x631, 0x64A, 0x627, 0x636, 0x629, 0x60C] @ u '' ''
      @ [0x648, 0x627, 0x644, 0x62E, 0x62F, 0x645, 0x627, 0x62A] @ u '' ''
      @ [0x627, 0x644, 0x637, 0x644, 0x627, 0x628, 0x64A, 0x629]
      @ u ''.\<newline>\<newline>'' @ [0x1F4A1] @ u '' ''
      @ [0x644, 0x644, 0x645, 0x628, 0x627, 0x644, 0x63A] @ u '' ''
      @ [0x627, 0x644, 0x62F, 0x642, 0x64A, 0x642, 0x629, 0x60C] @ u '' ''
      @ [0x631, 0x627, 0x62C, 0x639] @ u '' '' @ u ''{portal_url}'' @ u '' ''
      @ [0x623, 0x648] @ u '' '' @ [0x62A, 0x648, 0x627, 0x635, 0x644] @ u '' ''
      @ [0x645, 0x639] @ u '' '' @ [0x627, 0x644, 0x634, 0x624, 0x648, 0x646] @ u '' ''
      @ [0x627, 0x644, 0x645, 0x627, 0x644, 0x64A, 0x629] @ u '': '' @ [0x1F4E7] @ u '' ''
      @ u ''{email_finance}'' @ u ''\<newline>'' @ [0x62A, 0x62A, 0x648, 0x641, 0x631]
      @ u '' '' @ [0x645, 0x646, 0x62D] @ u '' ''
      @ [0x62F, 0x631, 0x627, 0x633, 0x64A, 0x629] @ u '' '' @ [0x2013] @ u '' ''
      @ [0x627, 0x633, 0x623, 0x644] @ u '' '' @ [0x639, 0x646] @ u '' ''
      @ [0x627, 0x644, 0x645, 0x633, 0x627, 0x639, 0x62F, 0x627, 0x62A] @ u '' ''
      @ [0x627, 0x644, 0x645, 0x627, 0x644, 0x64A, 0x629] @ u ''!''"

definition faq_9_fr :: pystr where
  "faq_9_fr =
      u ''**Frais de scolarit'' @ [0xE9] @ u '' (par semestre):**\<newline>\<newline>''
      @ [0x1F393]
      @ u '' Licence: Frais de base + frais de laboratoire (si applicable)\<newline>''
      @ [0x1F393] @ u '' Master: Frais de base + frais de recherche\<newline>'' @ [0x1F393]
      @ u '' Doctorat: Frais de base + acc'' @ [0xE8]
      @ u ''s labo et recherche\<newline>\<newline>Des frais suppl'' @ [0xE9]
      @ u ''mentaires peuvent inclure: inscription, biblioth'' @ [0xE8]
      @ u ''que, sports, et services '' @ [0xE9] @ u ''tudiants.\<newline>\<newline>''
      @ [0x1F4A1] @ u '' Pour les montants exacts, consultez '' @ u ''{portal_url}''
      @ u '' ou contactez le Bureau des finances: '' @ [0x1F4E7] @ u '' ''
      @ u ''{email_finance}'' @ u ''\<newline>Des bourses sont disponibles '' @ [0x2013]
      @ u '' renseignez-vous sur l'aide financi'' @ [0xE8] @ u ''re!''"

definition faq_9 :: faq where
  "faq_9 =
     \<lparr>faq_id = 9, faq_category = u ''tuition'',
      faq_question = u ''How much are the tuition fees?'',
      faq_answers = [(u ''en'', faq_9_en), (u ''ar'', faq_9_ar), (u ''fr'', faq_9_fr)],
      faq_keywords =
       [u ''tuition'',
        u ''fees'',
        u ''cost'',
        u ''price'',
        u ''how much'',
        u ''money'',
        u ''frais'',
        u ''scolarite'',
        u ''scolarit'' @ [0xE9],
        [0x631, 0x633, 0x648, 0x645],
        [0x627, 0x644, 0x645, 0x635, 0x627, 0x631, 0x64A, 0x641],
        [0x643, 0x645] @ u '' '' @ [0x627, 0x644, 0x631, 0x633, 0x648, 0x645],
        [0x643, 0x645] @ u '' '' @ [0x627, 0x644, 0x62A, 0x643, 0x644, 0x641, 0x629],
        [0x627, 0x644, 0x631, 0x633, 0x648, 0x645] @ u '' ''
         @ [0x627, 0x644, 0x62F, 0x631, 0x627, 0x633, 0x64A, 0x629],
        [0x645, 0x627] @ u '' '' @ [0x647, 0x64A] @ u '' ''
         @ [0x627, 0x644, 0x631, 0x633, 0x648, 0x645]],
      faq_variants =
       [u ''tuition fees'',
        u ''how much does it cost'',
        u ''frais de scolarit'' @ [0xE9],
        u ''quels sont les frais'',
        [0x643, 0x645] @ u '' '' @ [0x627, 0x644, 0x631, 0x633, 0x648, 0x645],
        [0x627, 0x644, 0x631, 0x633, 0x648, 0x645] @ u '' ''
         @ [0x627, 0x644, 0x62F, 0x631, 0x627, 0x633, 0x64A, 0x629]]\<rparr>"

definition faq_10_en :: pystr where
  "faq_10_en =
      u ''**Accepted Payment Methods:**\<newline>\<newline>'' @ [0x1F3E6]
      @ u '' Bank Transfer: to the university's official bank account (reference: ''
      @ u ''your Student ID)\<newline>'' @ [0x1F4B5]
      @ u '' Cash: at the Finance Office on campus (office hours: Sun'' @ [0x2013]
      @ u ''Thu 8AM'' @ [0x2013] @ u ''4PM)\<newline>'' @ [0x1F4EE]
      @ u '' Postal account (CCP) if available\<newline>'' @ [0x1F4B3]
      @ u '' Online payment via '' @ u ''{portal_url}''
      @ u ''/payment (CIB, EDAHABIA, Visa, Mastercard)\<newline>\<newline>'' @ [0x1F4E7]
      @ u '' Always send your payment receipt to: '' @ u ''{email_finance}''
      @ u ''\<newline>'' @ [0x260E] @ u '' Finance Office: '' @ u ''{phone_main}''"

definition faq_10_ar :: pystr where
  "faq_10_ar =
      u ''**'' @ [0x637, 0x631, 0x642] @ u '' '' @ [0x627, 0x644, 0x62F, 0x641, 0x639]
      @ u '' '' @ [0x627, 0x644, 0x645, 0x642, 0x628, 0x648, 0x644, 0x629]
      @ u '':**\<newline>\<newline>'' @ [0x1F3E6] @ u '' ''
      @ [0x62A, 0x62D, 0x648, 0x64A, 0x644] @ u '' '' @ [0x628, 0x646, 0x643, 0x64A]
      @ u '': '' @ [0x625, 0x644, 0x649] @ u '' ''
      @ [0x627, 0x644, 0x62D, 0x633, 0x627, 0x628] @ u '' ''
      @ [0x627, 0x644, 0x631, 0x633, 0x645, 0x64A] @ u '' ''
      @ [0x644, 0x644, 0x62C, 0x627, 0x645, 0x639, 0x629] @ u '' (''
      @ [0x627, 0x644, 0x645, 0x631, 0x62C, 0x639] @ u '': '' @ [0x631, 0x642, 0x645]
      @ u '' '' @ [0x627, 0x644, 0x637, 0x627, 0x644, 0x628] @ u '')\<newline>'' @ [0x1F4B5]
      @ u '' '' @ [0x646, 0x642, 0x62F, 0x627, 0x64B] @ u '': '' @ [0x641, 0x64A] @ u '' ''
      @ [0x645, 0x643, 0x62A, 0x628] @ u '' '' @ [0x627, 0x644, 0x634, 0x624, 0x648, 0x646]
      @ u '' '' @ [0x627, 0x644, 0x645, 0x627, 0x644, 0x64A, 0x629] @ u '' ''
      @ [0x628, 0x627, 0x644, 0x62D, 0x631, 0x645] @ u '' ''
      @ [0x627, 0x644, 0x62C, 0x627, 0x645, 0x639, 0x64A] @ u '' (''
      @ [0x623, 0x648, 0x642, 0x627, 0x62A] @ u '' '' @ [0x627, 0x644, 0x639, 0x645, 0x644]
      @ u '': ''
      @ [0x627, 0x644, 0x623, 0x62D, 0x62F, 0x2013, 0x627, 0x644, 0x62E, 0x645, 0x64A, 0x633]
      @ u '' 8'' @ [0x635, 0x2013] @ u ''4'' @ [0x645] @ u '')\<newline>'' @ [0x1F4EE]
      @ u '' '' @ [0x62D, 0x633, 0x627, 0x628] @ u '' ''
      @ [0x628, 0x631, 0x64A, 0x62F, 0x64A] @ u '' (CCP) '' @ [0x625, 0x646] @ u '' ''
      @ [0x643, 0x627, 0x646] @ u '' '' @ [0x645, 0x62A, 0x627, 0x62D, 0x627, 0x64B]
      @ u ''\<newline>'' @ [0x1F4B3] @ u '' '' @ [0x62F, 0x641, 0x639] @ u '' ''
      @ [0x625, 0x644, 0x643, 0x62A, 0x631, 0x648, 0x646, 0x64A] @ u '' ''
      @ [0x639, 0x628, 0x631] @ u '' '' @ u ''{portal_url}'' @ u ''/payment (CIB'' @ [0x60C]
      @ u '' EDAHABIA'' @ [0x60C] @ u '' Visa'' @ [0x60C]
      @ u '' Mastercard)\<newline>\<newline>'' @ [0x1F4E7] @ u '' ''
      @ [0x623, 0x631, 0x633, 0x644] @ u '' '' @ [0x62F, 0x627, 0x626, 0x645, 0x627, 0x64B]
      @ u '' '' @ [0x625, 0x64A, 0x635, 0x627, 0x644] @ u '' ''
      @ [0x627, 0x644, 0x62F, 0x641, 0x639] @ u '' '' @ [0x625, 0x644, 0x649] @ u '': ''
      @ u ''{email_finance}'' @ u ''\<newline>'' @ [0x260E] @ u '' ''
      @ [0x627, 0x644, 0x634, 0x624, 0x648, 0x646] @ u '' ''
      @ [0x627, 0x644, 0x645, 0x627, 0x644, 0x64A, 0x629] @ u '': '' @ u ''{phone_main}''"

definition faq_10_fr :: pystr where
  "faq_10_fr =
      u ''**Modes de paiement accept'' @ [0xE9] @ u ''s:**\<newline>\<newline>'' @ [0x1F3E6]
      @ u '' Virement bancaire: sur le compte officiel de l'universit'' @ [0xE9] @ u '' (r''
      @ [0xE9] @ u ''f: votre ID '' @ [0xE9] @ u ''tudiant)\<newline>'' @ [0x1F4B5]
      @ u '' Esp'' @ [0xE8] @ u ''ces: au Bureau des finances sur le campus (Dim''
      @ [0x2013] @ u ''Jeu 8h'' @ [0x2013] @ u ''16h)\<newline>'' @ [0x1F4EE]
      @ u '' Compte postal (CCP) si disponible\<newline>'' @ [0x1F4B3]
      @ u '' Paiement en ligne via '' @ u ''{portal_url}''
      @ u ''/payment (CIB, EDAHABIA, Visa, Mastercard)\<newline>\<newline>'' @ [0x1F4E7]
      @ u '' Envoyez toujours votre re'' @ [0xE7] @ u ''u '' @ [0xE0] @ u '': ''
      @ u ''{email_finance}'' @ u ''\<newline>'' @ [0x260E] @ u '' Bureau des finances: ''
      @ u ''{phone_main}''"

definition faq_10 :: faq where
  "faq_10 =
     \<lparr>faq_id = 10, faq_category = u ''tuition'',
      faq_question = u ''What payment methods are accepted?'',
      faq_answers = [(u ''en'', faq_10_en), (u ''ar'', faq_10_ar), (u ''fr'', faq_10_fr)],
      faq_keywords =
       [u ''payment'',
        u ''pay'',
        u ''method'',
        u ''transfer'',
        u ''cash'',
        u ''online'',
        u ''credit card'',
        u ''paiement'',
        [0x637, 0x631, 0x64A, 0x642, 0x629] @ u '' '' @ [0x627, 0x644, 0x62F, 0x641, 0x639],
        [0x643, 0x64A, 0x641] @ u '' '' @ [0x623, 0x62F, 0x641, 0x639],
        [0x62F, 0x641, 0x639]],
      faq_variants =
       [u ''how to pay'',
        u ''payment methods'',
        u ''modes de paiement'',
        [0x643, 0x64A, 0x641] @ u '' '' @ [0x623, 0x62F, 0x641, 0x639]]\<rparr>"

definition faq_11_en :: pystr where
  "faq_11_en =
      u ''**Algerian Grading Scale (0-20):**\<newline>\<newline>- 16-20: ''
      @ u ''Excellent (Tr'' @ [0xE8] @ u ''s Bien) '' @ [0x2192]
      @ u '' A\<newline>- 14-15.99: Very Good (Bien) '' @ [0x2192]
      @ u '' B\<newline>- 12-13.99: Good (Assez Bien) '' @ [0x2192]
      @ u '' C\<newline>- 10-11.99: Satisfactory (Passable) '' @ [0x2192]
      @ u '' D\<newline>- Below 10: Fail (Ajourn'' @ [0xE9] @ u '') '' @ [0x2192]
      @ u '' F\<newline>\<newline>**Minimum passing grade:** 10/20\<newline>''
      @ u ''\<newline>**Typical grade components:** Midterm ~30% | Final ''
      @ u ''~50% | Assignments ~15% | Attendance ~5%\<newline>\<newline>''
      @ u ''Grade appeals: usually within 5 days of grade publication. Contact ''
      @ u ''{email_academic}'' @ u '' for details.''"

definition faq_11_ar :: pystr where
  "faq_11_ar =
      u ''**'' @ [0x633, 0x644, 0x645] @ u '' ''
      @ [0x627, 0x644, 0x62A, 0x642, 0x64A, 0x64A, 0x645] @ u '' ''
      @ [0x627, 0x644, 0x62C, 0x632, 0x627, 0x626, 0x631, 0x64A]
      @ u '' (0-20):**\<newline>\<newline>- 16-20: '' @ [0x645, 0x645, 0x62A, 0x627, 0x632]
      @ u '' (Tr'' @ [0xE8] @ u ''s Bien) '' @ [0x2192] @ u '' A\<newline>- 14-15.99: ''
      @ [0x62C, 0x64A, 0x62F] @ u '' '' @ [0x62C, 0x62F, 0x627, 0x64B] @ u '' (Bien) ''
      @ [0x2192] @ u '' B\<newline>- 12-13.99: '' @ [0x62C, 0x64A, 0x62F]
      @ u '' (Assez Bien) '' @ [0x2192] @ u '' C\<newline>- 10-11.99: ''
      @ [0x645, 0x642, 0x628, 0x648, 0x644] @ u '' (Passable) '' @ [0x2192]
      @ u '' D\<newline>- '' @ [0x623, 0x642, 0x644] @ u '' '' @ [0x645, 0x646]
      @ u '' 10: '' @ [0x631, 0x627, 0x633, 0x628] @ u '' (Ajourn'' @ [0xE9] @ u '') ''
      @ [0x2192] @ u '' F\<newline>\<newline>**'' @ [0x627, 0x644, 0x62D, 0x62F] @ u '' ''
      @ [0x627, 0x644, 0x623, 0x62F, 0x646, 0x649] @ u '' ''
      @ [0x644, 0x644, 0x646, 0x62C, 0x627, 0x62D] @ u '':** 10/20\<newline>\<newline>**''
      @ [0x645, 0x643, 0x648, 0x646, 0x627, 0x62A] @ u '' ''
      @ [0x627, 0x644, 0x62F, 0x631, 0x62C, 0x629] @ u '' ''
      @ [0x627, 0x644, 0x645, 0x639, 0x62A, 0x627, 0x62F, 0x629] @ u '':** ''
      @ [0x645, 0x646, 0x62A, 0x635, 0x641] @ u '' '' @ [0x627, 0x644, 0x641, 0x635, 0x644]
      @ u '' ~30% | '' @ [0x646, 0x647, 0x627, 0x626, 0x64A] @ u '' ~50% | ''
      @ [0x648, 0x627, 0x62C, 0x628, 0x627, 0x62A] @ u '' ~15% | ''
      @ [0x62D, 0x636, 0x648, 0x631] @ u '' ~5%\<newline>\<newline>''
      @ [0x627, 0x644, 0x62A, 0x638, 0x644, 0x645] @ u '' '' @ [0x639, 0x644, 0x649]
      @ u '' '' @ [0x627, 0x644, 0x62F, 0x631, 0x62C, 0x627, 0x62A] @ u '': ''
      @ [0x639, 0x627, 0x62F, 0x629, 0x64B] @ u '' '' @ [0x62E, 0x644, 0x627, 0x644]
      @ u '' 5 '' @ [0x623, 0x64A, 0x627, 0x645] @ u '' '' @ [0x645, 0x646] @ u '' ''
      @ [0x627, 0x644, 0x646, 0x634, 0x631] @ u ''. '' @ [0x62A, 0x648, 0x627, 0x635, 0x644]
      @ u '' '' @ [0x645, 0x639] @ u '' '' @ u ''{email_academic}'' @ u '' ''
      @ [0x644, 0x644, 0x62A, 0x641, 0x627, 0x635, 0x64A, 0x644] @ u ''.''"

definition faq_11_fr :: pystr where
  "faq_11_fr =
      u ''**Bar'' @ [0xE8] @ u ''me de notation alg'' @ [0xE9]
      @ u ''rien (0-20):**\<newline>\<newline>- 16-20: Excellent (Tr'' @ [0xE8]
      @ u ''s Bien) '' @ [0x2192] @ u '' A\<newline>- 14-15.99: Tr'' @ [0xE8]
      @ u ''s Bien (Bien) '' @ [0x2192] @ u '' B\<newline>- 12-13.99: Bien (Assez Bien) ''
      @ [0x2192] @ u '' C\<newline>- 10-11.99: Passable '' @ [0x2192]
      @ u '' D\<newline>- Moins de 10: Ajourn'' @ [0xE9] @ u '' ('' @ [0xC9] @ u ''chec) ''
      @ [0x2192] @ u '' F\<newline>\<newline>**Note minimale pour r'' @ [0xE9]
      @ u ''ussir:** 10/20\<newline>\<newline>**R'' @ [0xE9]
      @ u ''partition habituelle:** Partiel ~30% | Final ~50% | Devoirs '' @ u ''~15% | Pr''
      @ [0xE9] @ u ''sence ~5%\<newline>\<newline>Recours: g'' @ [0xE9] @ u ''n'' @ [0xE9]
      @ u ''ralement dans les 5 jours apr'' @ [0xE8] @ u ''s la publication. Contactez ''
      @ u ''{email_academic}'' @ u ''.''"

definition faq_11 :: faq where
  "faq_11 =
     \<lparr>faq_id = 11, faq_category = u ''academic'',
      faq_question = u ''What is the grading system?'',
      faq_answers = [(u ''en'', faq_11_en), (u ''ar'', faq_11_ar), (u ''fr'', faq_11_fr)],
      faq_keywords =
       [u ''grade'',
        u ''grading'',
        u ''marks'',
        u ''score'',
        u ''gpa'',
        u ''evaluation'',
        u ''notation'',
        [0x62F, 0x631, 0x62C, 0x627, 0x62A],
        [0x62A, 0x642, 0x64A, 0x64A, 0x645],
        [0x646, 0x638, 0x627, 0x645] @ u '' ''
         @ [0x627, 0x644, 0x62F, 0x631, 0x62C, 0x627, 0x62A],
        [0x627, 0x644, 0x646, 0x642, 0x637, 0x629]],
      faq_variants =
       [u ''grading system'',
        u ''how grades work'',
        u ''syst'' @ [0xE8] @ u ''me de notation'',
        [0x646, 0x638, 0x627, 0x645] @ u '' ''
         @ [0x627, 0x644, 0x62A, 0x642, 0x64A, 0x64A, 0x645]]\<rparr>"

definition faq_12_en :: pystr where
  "faq_12_en =
      u ''**Accessing Your Grades:**\<newline>\<newline>'' @ [0x1F4BB] @ u '' Online: ''
      @ u ''{portal_url}'' @ u '' '' @ [0x2192] @ u '' Academic Records '' @ [0x2192]
      @ u '' View Grades\<newline>'' @ [0x1F4E7]
      @ u '' You'll receive an email notification when grades are posted\<newline>''
      @ [0x1F3E2] @ u '' In person: Registrar's Office (Student ID required) '' @ [0x2013]
      @ u '' fee for official sealed copy\<newline>\<newline>Grades are ''
      @ u ''typically posted within 1-2 weeks after exams.\<newline>'' @ [0x1F4E7]
      @ u '' IT issues: '' @ u ''{email_it}''"

definition faq_12_ar :: pystr where
  "faq_12_ar =
      u ''**'' @ [0x637, 0x631, 0x64A, 0x642, 0x629] @ u '' ''
      @ [0x627, 0x644, 0x627, 0x637, 0x644, 0x627, 0x639] @ u '' '' @ [0x639, 0x644, 0x649]
      @ u '' '' @ [0x627, 0x644, 0x62F, 0x631, 0x62C, 0x627, 0x62A]
      @ u '':**\<newline>\<newline>'' @ [0x1F4BB] @ u '' ''
      @ [0x625, 0x644, 0x643, 0x62A, 0x631, 0x648, 0x646, 0x64A, 0x627, 0x64B] @ u '': ''
      @ u ''{portal_url}'' @ u '' '' @ [0x2190] @ u '' ''
      @ [0x627, 0x644, 0x633, 0x62C, 0x644, 0x627, 0x62A] @ u '' ''
      @ [0x627, 0x644, 0x623, 0x643, 0x627, 0x62F, 0x64A, 0x645, 0x64A, 0x629] @ u '' ''
      @ [0x2190] @ u '' '' @ [0x639, 0x631, 0x636] @ u '' ''
      @ [0x627, 0x644, 0x62F, 0x631, 0x62C, 0x627, 0x62A] @ u ''\<newline>'' @ [0x1F4E7]
      @ u '' '' @ [0x633, 0x62A, 0x62A, 0x644, 0x642, 0x649] @ u '' ''
      @ [0x625, 0x634, 0x639, 0x627, 0x631, 0x627, 0x64B] @ u '' ''
      @ [0x628, 0x627, 0x644, 0x628, 0x631, 0x64A, 0x62F] @ u '' ''
      @ [0x627, 0x644, 0x625, 0x644, 0x643, 0x62A, 0x631, 0x648, 0x646, 0x64A] @ u '' ''
      @ [0x639, 0x646, 0x62F] @ u '' '' @ [0x646, 0x634, 0x631] @ u '' ''
      @ [0x627, 0x644, 0x62F, 0x631, 0x62C, 0x627, 0x62A] @ u ''\<newline>'' @ [0x1F3E2]
      @ u '' '' @ [0x62D, 0x636, 0x648, 0x631, 0x64A, 0x627, 0x64B] @ u '': ''
      @ [0x645, 0x643, 0x62A, 0x628] @ u '' ''
      @ [0x627, 0x644, 0x62A, 0x633, 0x62C, 0x64A, 0x644] @ u '' (''
      @ [0x628, 0x637, 0x627, 0x642, 0x629] @ u '' ''
      @ [0x627, 0x644, 0x637, 0x627, 0x644, 0x628] @ u '' ''
      @ [0x645, 0x637, 0x644, 0x648, 0x628, 0x629] @ u '') '' @ [0x2013] @ u '' ''
      @ [0x631, 0x633, 0x648, 0x645] @ u '' '' @ [0x644, 0x644, 0x646, 0x633, 0x62E, 0x629]
      @ u '' '' @ [0x627, 0x644, 0x631, 0x633, 0x645, 0x64A, 0x629] @ u '' ''
      @ [0x627, 0x644, 0x645, 0x62E, 0x62A, 0x648, 0x645, 0x629]
      @ u ''\<newline>\<newline>'' @ [0x62A, 0x64F, 0x646, 0x634, 0x631] @ u '' ''
      @ [0x627, 0x644, 0x62F, 0x631, 0x62C, 0x627, 0x62A] @ u '' ''
      @ [0x639, 0x627, 0x62F, 0x629, 0x64B] @ u '' '' @ [0x62E, 0x644, 0x627, 0x644]
      @ u '' 1-2 '' @ [0x623, 0x633, 0x628, 0x648, 0x639] @ u '' '' @ [0x628, 0x639, 0x62F]
      @ u '' '' @ [0x627, 0x644, 0x627, 0x645, 0x62A, 0x62D, 0x627, 0x646, 0x627, 0x62A]
      @ u ''.\<newline>'' @ [0x1F4E7] @ u '' '' @ [0x645, 0x634, 0x627, 0x643, 0x644]
      @ u '' '' @ [0x62A, 0x642, 0x646, 0x64A, 0x629] @ u '': '' @ u ''{email_it}''"

definition faq_12_fr :: pystr where
  "faq_12_fr =
      u ''**Acc'' @ [0xE9] @ u ''der '' @ [0xE0] @ u '' vos notes:**\<newline>\<newline>''
      @ [0x1F4BB] @ u '' En ligne: '' @ u ''{portal_url}'' @ u '' '' @ [0x2192]
      @ u '' Dossier acad'' @ [0xE9] @ u ''mique '' @ [0x2192]
      @ u '' Voir les notes\<newline>'' @ [0x1F4E7]
      @ u '' Vous recevrez un email de notification quand les notes sont ''
      @ u ''disponibles\<newline>'' @ [0x1F3E2]
      @ u '' En personne: Bureau du Registraire (carte '' @ [0xE9] @ u ''tudiant requise) ''
      @ [0x2013] @ u '' frais pour copie officielle\<newline>\<newline>Les notes sont ''
      @ u ''g'' @ [0xE9] @ u ''n'' @ [0xE9] @ u ''ralement publi'' @ [0xE9]
      @ u ''es dans les 1-2 semaines apr'' @ [0xE8] @ u ''s les examens.\<newline>''
      @ [0x1F4E7] @ u '' Probl'' @ [0xE8] @ u ''mes techniques: '' @ u ''{email_it}''"

definition faq_12 :: faq where
  "faq_12 =
     \<lparr>faq_id = 12, faq_category = u ''academic'',
      faq_question = u ''How can I access my grades?'',
      faq_answers = [(u ''en'', faq_12_en), (u ''ar'', faq_12_ar), (u ''fr'', faq_12_fr)],
      faq_keywords =
       [u ''access grades'',
        u ''view grades'',
        u ''check grades'',
        u ''see results'',
        u ''transcript'',
        u ''consulter notes'',
        [0x627, 0x644, 0x627, 0x637, 0x644, 0x627, 0x639] @ u '' '' @ [0x639, 0x644, 0x649]
         @ u '' '' @ [0x627, 0x644, 0x646, 0x62A, 0x627, 0x626, 0x62C],
        [0x623, 0x634, 0x648, 0x641] @ u '' '' @ [0x62F, 0x631, 0x62C, 0x627, 0x62A, 0x64A],
        [0x643, 0x64A, 0x641] @ u '' '' @ [0x623, 0x631, 0x649] @ u '' ''
         @ [0x646, 0x62A, 0x627, 0x626, 0x62C, 0x64A]],
      faq_variants =
       [u ''how to see grades'',
        u ''check my grades'',
        u ''voir mes notes'',
        [0x643, 0x64A, 0x641] @ u '' '' @ [0x623, 0x631, 0x649] @ u '' ''
         @ [0x62F, 0x631, 0x62C, 0x627, 0x62A, 0x64A]]\<rparr>"

definition faq_13_en :: pystr where
  "faq_13_en =
      u ''**Attendance Policy (Algerian universities):**\<newline>\<newline>'' @ [0x2705]
      @ u '' Minimum required attendance: 75% per course\<newline>- First ''
      @ u ''few absences: tolerated\<newline>- Further absences: warning, ''
      @ u ''then grade deductions\<newline>- Exceeding 25% absence rate: ''
      @ u ''Automatic failure\<newline>\<newline>Excused absences (medical ''
      @ u ''certificate or official document) must be submitted within 3 ''
      @ u ''days.\<newline>Typically, 3 late arrivals (>15 min) count as ''
      @ u ''1 absence.\<newline>\<newline>'' @ [0x1F4E7] @ u '' Contact ''
      @ u ''{email_student}'' @ u '' for absence justification procedures.''"

definition faq_13_ar :: pystr where
  "faq_13_ar =
      u ''**'' @ [0x633, 0x64A, 0x627, 0x633, 0x629] @ u '' ''
      @ [0x627, 0x644, 0x62D, 0x636, 0x648, 0x631] @ u '' (''
      @ [0x627, 0x644, 0x62C, 0x627, 0x645, 0x639, 0x627, 0x62A] @ u '' ''
      @ [0x627, 0x644, 0x62C, 0x632, 0x627, 0x626, 0x631, 0x64A, 0x629]
      @ u ''):**\<newline>\<newline>'' @ [0x2705] @ u '' '' @ [0x627, 0x644, 0x62D, 0x62F]
      @ u '' '' @ [0x627, 0x644, 0x623, 0x62F, 0x646, 0x649] @ u '' ''
      @ [0x627, 0x644, 0x645, 0x637, 0x644, 0x648, 0x628] @ u '': 75% ''
      @ [0x644, 0x643, 0x644] @ u '' '' @ [0x645, 0x642, 0x631, 0x631] @ u ''\<newline>- ''
      @ [0x627, 0x644, 0x63A, 0x64A, 0x627, 0x628, 0x627, 0x62A] @ u '' ''
      @ [0x627, 0x644, 0x623, 0x648, 0x644, 0x649] @ u '': ''
      @ [0x645, 0x62A, 0x633, 0x627, 0x645, 0x62D] @ u '' '' @ [0x628, 0x647, 0x627]
      @ u ''\<newline>- '' @ [0x627, 0x644, 0x63A, 0x64A, 0x627, 0x628, 0x627, 0x62A]
      @ u '' '' @ [0x627, 0x644, 0x625, 0x636, 0x627, 0x641, 0x64A, 0x629] @ u '': ''
      @ [0x62A, 0x62D, 0x630, 0x64A, 0x631] @ u '' '' @ [0x62B, 0x645] @ u '' ''
      @ [0x62E, 0x635, 0x645] @ u '' '' @ [0x645, 0x646] @ u '' ''
      @ [0x627, 0x644, 0x62F, 0x631, 0x62C, 0x629] @ u ''\<newline>- ''
      @ [0x62A, 0x62C, 0x627, 0x648, 0x632] @ u '' 25% '' @ [0x645, 0x646] @ u '' ''
      @ [0x627, 0x644, 0x63A, 0x64A, 0x627, 0x628, 0x627, 0x62A] @ u '': ''
      @ [0x631, 0x633, 0x648, 0x628] @ u '' '' @ [0x62A, 0x644, 0x642, 0x627, 0x626, 0x64A]
      @ u ''\<newline>\<newline>'' @ [0x627, 0x644, 0x63A, 0x64A, 0x627, 0x628] @ u '' ''
      @ [0x627, 0x644, 0x645, 0x628, 0x631, 0x631] @ u '' (''
      @ [0x634, 0x647, 0x627, 0x62F, 0x629] @ u '' '' @ [0x637, 0x628, 0x64A, 0x629]
      @ u '' '' @ [0x623, 0x648] @ u '' '' @ [0x648, 0x62B, 0x64A, 0x642, 0x629] @ u '' ''
      @ [0x631, 0x633, 0x645, 0x64A, 0x629] @ u '') '' @ [0x64A, 0x62C, 0x628] @ u '' ''
      @ [0x62A, 0x642, 0x62F, 0x64A, 0x645, 0x647] @ u '' '' @ [0x62E, 0x644, 0x627, 0x644]
      @ u '' 3 '' @ [0x623, 0x64A, 0x627, 0x645] @ u ''.\<newline>''
      @ [0x639, 0x627, 0x62F, 0x629, 0x64B] @ u '' 3 ''
      @ [0x62A, 0x623, 0x62E, 0x64A, 0x631, 0x627, 0x62A] @ u '' (>15 ''
      @ [0x62F, 0x642, 0x64A, 0x642, 0x629] @ u '') = '' @ [0x63A, 0x64A, 0x627, 0x628]
      @ u '' '' @ [0x648, 0x627, 0x62D, 0x62F] @ u ''.\<newline>\<newline>'' @ [0x1F4E7]
      @ u '' '' @ [0x62A, 0x648, 0x627, 0x635, 0x644] @ u '' '' @ [0x645, 0x639] @ u '' ''
      @ u ''{email_student}'' @ u '' ''
      @ [0x644, 0x625, 0x62C, 0x631, 0x627, 0x621, 0x627, 0x62A] @ u '' ''
      @ [0x62A, 0x628, 0x631, 0x64A, 0x631] @ u '' ''
      @ [0x627, 0x644, 0x63A, 0x64A, 0x627, 0x628] @ u ''.''"

definition faq_13_fr :: pystr where
  "faq_13_fr =
      u ''**Politique de pr'' @ [0xE9] @ u ''sence (universit'' @ [0xE9] @ u ''s alg''
      @ [0xE9] @ u ''riennes):**\<newline>\<newline>'' @ [0x2705] @ u '' Pr'' @ [0xE9]
      @ u ''sence minimale requise: 75% par cours\<newline>- Premi'' @ [0xE8]
      @ u ''res absences: tol'' @ [0xE9] @ u ''r'' @ [0xE9]
      @ u ''es\<newline>- Absences suppl'' @ [0xE9] @ u ''mentaires: avertissement puis d''
      @ [0xE9] @ u ''duction de points\<newline>- D'' @ [0xE9]
      @ u ''passer 25% d'absences: '' @ [0xC9]
      @ u ''chec automatique\<newline>\<newline>Absences justifi'' @ [0xE9]
      @ u ''es (certificat m'' @ [0xE9] @ u ''dical ou document officiel) '' @ [0xE0]
      @ u '' soumettre dans les 3 jours.\<newline>En g'' @ [0xE9] @ u ''n'' @ [0xE9]
      @ u ''ral, 3 retards (>15 min) = 1 absence.\<newline>\<newline>'' @ [0x1F4E7]
      @ u '' Contactez '' @ u ''{email_student}'' @ u '' pour les proc'' @ [0xE9]
      @ u ''dures de justification d'absence.''"

definition faq_13 :: faq where
  "faq_13 =
     \<lparr>faq_id = 13, faq_category = u ''academic'',
      faq_question = u ''What is the attendance policy?'',
      faq_answers = [(u ''en'', faq_13_en), (u ''ar'', faq_13_ar), (u ''fr'', faq_13_fr)],
      faq_keywords =
       [u ''attendance'',
        u ''absence'',
        u ''present'',
        u ''miss class'',
        u ''skip'',
        u ''assiduit'' @ [0xE9],
        u ''pr'' @ [0xE9] @ u ''sence'',
        [0x627, 0x644, 0x62D, 0x636, 0x648, 0x631],
        [0x627, 0x644, 0x63A, 0x64A, 0x627, 0x628],
        [0x63A, 0x64A, 0x627, 0x628]],
      faq_variants =
       [u ''attendance policy'',
        u ''missing class'',
        u ''politique de pr'' @ [0xE9] @ u ''sence'',
        [0x633, 0x64A, 0x627, 0x633, 0x629] @ u '' ''
         @ [0x627, 0x644, 0x62D, 0x636, 0x648, 0x631]]\<rparr>"

definition faq_14_en :: pystr where
  "faq_14_en =
      u ''**Campus Facilities at '' @ u ''{university_name}''
      @ u '':**\<newline>\<newline>'' @ [0x1F4DA]
      @ u '' Central Library: books, journals, e-resources, study rooms, ''
      @ u ''free WiFi\<newline>'' @ [0x1F4BB]
      @ u '' Computer Labs: high-speed internet, software for all majors\<newline>''
      @ [0x1F3C3] @ u '' Sports Complex: gym, sports fields and courts\<newline>''
      @ [0x1F37D, 0xFE0F] @ u '' Student Cafeteria: subsidized meals\<newline>'' @ [0x1F3E5]
      @ u '' Medical Clinic: basic healthcare, first aid\<newline>'' @ [0x1F5A8, 0xFE0F]
      @ u '' Printing Center: B&W and color printing\<newline>'' @ [0x1F697]
      @ u '' Student parking (free with ID)\<newline>\<newline>For details ''
      @ u ''and opening hours, visit '' @ u ''{portal_url}''
      @ u '' or check the campus map at reception.''"

definition faq_14_ar :: pystr where
  "faq_14_ar =
      u ''**'' @ [0x645, 0x631, 0x627, 0x641, 0x642] @ u '' ''
      @ [0x627, 0x644, 0x62D, 0x631, 0x645] @ u '' ''
      @ [0x627, 0x644, 0x62C, 0x627, 0x645, 0x639, 0x64A] @ u '' '' @ [0x641, 0x64A]
      @ u '' '' @ u ''{university_name_ar}'' @ u '':**\<newline>\<newline>'' @ [0x1F4DA]
      @ u '' '' @ [0x627, 0x644, 0x645, 0x643, 0x62A, 0x628, 0x629] @ u '' ''
      @ [0x627, 0x644, 0x645, 0x631, 0x643, 0x632, 0x64A, 0x629] @ u '': ''
      @ [0x643, 0x62A, 0x628, 0x60C] @ u '' ''
      @ [0x62F, 0x648, 0x631, 0x64A, 0x627, 0x62A, 0x60C] @ u '' ''
      @ [0x645, 0x648, 0x627, 0x631, 0x62F] @ u '' ''
      @ [0x625, 0x644, 0x643, 0x62A, 0x631, 0x648, 0x646, 0x64A, 0x629, 0x60C] @ u '' ''
      @ [0x642, 0x627, 0x639, 0x627, 0x62A] @ u '' ''
      @ [0x62F, 0x631, 0x627, 0x633, 0x629, 0x60C] @ u '' '' @ [0x648, 0x627, 0x64A]
      @ u '' '' @ [0x641, 0x627, 0x64A] @ u '' '' @ [0x645, 0x62C, 0x627, 0x646, 0x64A]
      @ u ''\<newline>'' @ [0x1F4BB] @ u '' '' @ [0x642, 0x627, 0x639, 0x627, 0x62A]
      @ u '' '' @ [0x627, 0x644, 0x643, 0x645, 0x628, 0x64A, 0x648, 0x62A, 0x631] @ u '': ''
      @ [0x625, 0x646, 0x62A, 0x631, 0x646, 0x62A] @ u '' '' @ [0x639, 0x627, 0x644, 0x64A]
      @ u '' '' @ [0x627, 0x644, 0x633, 0x631, 0x639, 0x629, 0x60C] @ u '' ''
      @ [0x628, 0x631, 0x627, 0x645, 0x62C] @ u '' '' @ [0x644, 0x62C, 0x645, 0x64A, 0x639]
      @ u '' '' @ [0x627, 0x644, 0x62A, 0x62E, 0x635, 0x635, 0x627, 0x62A]
      @ u ''\<newline>'' @ [0x1F3C3] @ u '' '' @ [0x627, 0x644, 0x645, 0x62C, 0x645, 0x639]
      @ u '' '' @ [0x627, 0x644, 0x631, 0x64A, 0x627, 0x636, 0x64A] @ u '': ''
      @ [0x635, 0x627, 0x644, 0x629] @ u '' '' @ [0x631, 0x64A, 0x627, 0x636, 0x629, 0x60C]
      @ u '' '' @ [0x645, 0x644, 0x627, 0x639, 0x628] @ u '' ''
      @ [0x631, 0x64A, 0x627, 0x636, 0x64A, 0x629] @ u ''\<newline>'' @ [0x1F37D, 0xFE0F]
      @ u '' '' @ [0x627, 0x644, 0x645, 0x637, 0x639, 0x645] @ u '' ''
      @ [0x627, 0x644, 0x62C, 0x627, 0x645, 0x639, 0x64A] @ u '': ''
      @ [0x648, 0x62C, 0x628, 0x627, 0x62A] @ u '' ''
      @ [0x645, 0x62F, 0x639, 0x648, 0x645, 0x629] @ u ''\<newline>'' @ [0x1F3E5] @ u '' ''
      @ [0x627, 0x644, 0x639, 0x64A, 0x627, 0x62F, 0x629] @ u '' ''
      @ [0x627, 0x644, 0x637, 0x628, 0x64A, 0x629] @ u '': ''
      @ [0x631, 0x639, 0x627, 0x64A, 0x629] @ u '' '' @ [0x635, 0x62D, 0x64A, 0x629]
      @ u '' '' @ [0x623, 0x633, 0x627, 0x633, 0x64A, 0x629, 0x60C] @ u '' ''
      @ [0x625, 0x633, 0x639, 0x627, 0x641, 0x627, 0x62A] @ u '' ''
      @ [0x623, 0x648, 0x644, 0x64A, 0x629] @ u ''\<newline>'' @ [0x1F5A8, 0xFE0F] @ u '' ''
      @ [0x645, 0x631, 0x643, 0x632] @ u '' ''
      @ [0x627, 0x644, 0x637, 0x628, 0x627, 0x639, 0x629] @ u '': ''
      @ [0x637, 0x628, 0x627, 0x639, 0x629] @ u '' ''
      @ [0x628, 0x627, 0x644, 0x623, 0x628, 0x64A, 0x636] @ u '' ''
      @ [0x648, 0x627, 0x644, 0x623, 0x633, 0x648, 0x62F] @ u '' ''
      @ [0x648, 0x645, 0x644, 0x648, 0x646, 0x629] @ u ''\<newline>'' @ [0x1F697] @ u '' ''
      @ [0x645, 0x648, 0x642, 0x641] @ u '' '' @ [0x633, 0x64A, 0x627, 0x631, 0x627, 0x62A]
      @ u '' '' @ [0x645, 0x62C, 0x627, 0x646, 0x64A] @ u '' ''
      @ [0x628, 0x628, 0x637, 0x627, 0x642, 0x629] @ u '' ''
      @ [0x627, 0x644, 0x637, 0x627, 0x644, 0x628] @ u ''\<newline>\<newline>''
      @ [0x644, 0x644, 0x62A, 0x641, 0x627, 0x635, 0x64A, 0x644] @ u '' ''
      @ [0x648, 0x623, 0x648, 0x642, 0x627, 0x62A] @ u '' ''
      @ [0x627, 0x644, 0x639, 0x645, 0x644, 0x60C] @ u '' '' @ [0x632, 0x631] @ u '' ''
      @ u ''{portal_url}'' @ u '' '' @ [0x623, 0x648] @ u '' ''
      @ [0x62A, 0x62D, 0x642, 0x642] @ u '' '' @ [0x645, 0x646] @ u '' ''
      @ [0x62E, 0x631, 0x64A, 0x637, 0x629] @ u '' '' @ [0x627, 0x644, 0x62D, 0x631, 0x645]
      @ u '' '' @ [0x627, 0x644, 0x62C, 0x627, 0x645, 0x639, 0x64A] @ u ''.''"

definition faq_14_fr :: pystr where
  "faq_14_fr =
      u ''**'' @ [0xC9] @ u ''quipements du campus de '' @ u ''{university_name_fr}''
      @ u '':**\<newline>\<newline>'' @ [0x1F4DA] @ u '' Biblioth'' @ [0xE8]
      @ u ''que centrale: livres, revues, ressources num'' @ [0xE9] @ u ''riques, salles d''
      @ [39] @ [0xE9] @ u ''tude, WiFi gratuit\<newline>'' @ [0x1F4BB]
      @ u '' Salles informatiques: internet haut d'' @ [0xE9]
      @ u ''bit, logiciels pour toutes les fili'' @ [0xE8] @ u ''res\<newline>'' @ [0x1F3C3]
      @ u '' Complexe sportif: salle de gym, terrains de sport\<newline>''
      @ [0x1F37D, 0xFE0F] @ u '' Caf'' @ [0xE9] @ u ''t'' @ [0xE9] @ u ''ria '' @ [0xE9]
      @ u ''tudiante: repas subventionn'' @ [0xE9] @ u ''s\<newline>'' @ [0x1F3E5]
      @ u '' Clinique m'' @ [0xE9] @ u ''dicale: soins de base, premiers secours\<newline>''
      @ [0x1F5A8, 0xFE0F] @ u '' Centre d'impression: impression N&B et couleur\<newline>''
      @ [0x1F697] @ u '' Parking '' @ [0xE9]
      @ u ''tudiant gratuit avec carte\<newline>\<newline>Pour les d'' @ [0xE9]
      @ u ''tails et horaires, consultez '' @ u ''{portal_url}''
      @ u '' ou le plan du campus '' @ [0xE0] @ u '' la r'' @ [0xE9] @ u ''ception.''"

definition faq_14 :: faq where
  "faq_14 =
     \<lparr>faq_id = 14, faq_category = u ''campus'',
      faq_question = u ''What facilities are available on campus?'',
      faq_answers = [(u ''en'', faq_14_en), (u ''ar'', faq_14_ar), (u ''fr'', faq_14_fr)],
      faq_keywords =
       [u ''facilities'',
        u ''campus'',
        u ''library'',
        u ''gym'',
        u ''cafeteria'',
        u ''sports'',
        [0x645, 0x631, 0x627, 0x641, 0x642],
        [0x645, 0x643, 0x62A, 0x628, 0x629],
        [0x645, 0x644, 0x639, 0x628],
        [0x645, 0x637, 0x639, 0x645]],
      faq_variants =
       [u ''campus facilities'',
        u ''what's on campus'',
        u ''installations du campus'',
        [0x645, 0x631, 0x627, 0x641, 0x642] @ u '' ''
         @ [0x627, 0x644, 0x62C, 0x627, 0x645, 0x639, 0x629]]\<rparr>"

definition faq_15_en :: pystr where
  "faq_15_en =
      u ''**Library Hours:**\<newline>\<newline>'' @ [0x1F4C5]
      @ u '' Regular semester: Sun'' @ [0x2013] @ u ''Thu 8AM'' @ [0x2013]
      @ u ''8PM | Fri 8AM'' @ [0x2013] @ u ''12PM & 2PM'' @ [0x2013] @ u ''6PM | Sat 8AM''
      @ [0x2013] @ u ''2PM\<newline>'' @ [0x1F4DA]
      @ u '' Exam period: extended hours (often until 10PM)\<newline>'' @ [0x1F319]
      @ u '' Closed: national holidays; reduced hours during Ramadan\<newline>'' @ [0x1F4BB]
      @ u '' Digital library: 24/7 via '' @ u ''{portal_url}'' @ u ''\<newline>\<newline>''
      @ [0x1F4E7] @ u '' Library inquiries: '' @ u ''{email_library}''"

definition faq_15_ar :: pystr where
  "faq_15_ar =
      u ''**'' @ [0x623, 0x648, 0x642, 0x627, 0x62A] @ u '' '' @ [0x639, 0x645, 0x644]
      @ u '' '' @ [0x627, 0x644, 0x645, 0x643, 0x62A, 0x628, 0x629]
      @ u '':**\<newline>\<newline>'' @ [0x1F4C5] @ u '' ''
      @ [0x627, 0x644, 0x641, 0x635, 0x644] @ u '' ''
      @ [0x627, 0x644, 0x62F, 0x631, 0x627, 0x633, 0x64A] @ u '': ''
      @ [0x627, 0x644, 0x623, 0x62D, 0x62F, 0x2013, 0x627, 0x644, 0x62E, 0x645, 0x64A, 0x633]
      @ u '' 8'' @ [0x635, 0x2013] @ u ''8'' @ [0x645] @ u '' | ''
      @ [0x627, 0x644, 0x62C, 0x645, 0x639, 0x629] @ u '' 8'' @ [0x635, 0x2013] @ u ''12''
      @ [0x645] @ u '' '' @ [0x648] @ u ''2'' @ [0x645, 0x2013] @ u ''6'' @ [0x645]
      @ u '' | '' @ [0x627, 0x644, 0x633, 0x628, 0x62A] @ u '' 8'' @ [0x635, 0x2013]
      @ u ''2'' @ [0x645] @ u ''\<newline>'' @ [0x1F4DA] @ u '' ''
      @ [0x641, 0x62A, 0x631, 0x629] @ u '' ''
      @ [0x627, 0x644, 0x627, 0x645, 0x62A, 0x62D, 0x627, 0x646, 0x627, 0x62A] @ u '': ''
      @ [0x633, 0x627, 0x639, 0x627, 0x62A] @ u '' '' @ [0x645, 0x645, 0x62A, 0x62F, 0x629]
      @ u '' ('' @ [0x63A, 0x627, 0x644, 0x628, 0x627, 0x64B] @ u '' ''
      @ [0x62D, 0x62A, 0x649] @ u '' 10'' @ [0x645] @ u '')\<newline>'' @ [0x1F319]
      @ u '' '' @ [0x645, 0x63A, 0x644, 0x642] @ u '': '' @ [0x641, 0x64A] @ u '' ''
      @ [0x627, 0x644, 0x639, 0x637, 0x644] @ u '' ''
      @ [0x627, 0x644, 0x648, 0x637, 0x646, 0x64A, 0x629, 0x61B] @ u '' ''
      @ [0x633, 0x627, 0x639, 0x627, 0x62A] @ u '' ''
      @ [0x645, 0x62E, 0x62A, 0x635, 0x631, 0x629] @ u '' '' @ [0x62E, 0x644, 0x627, 0x644]
      @ u '' '' @ [0x631, 0x645, 0x636, 0x627, 0x646] @ u ''\<newline>'' @ [0x1F4BB]
      @ u '' '' @ [0x627, 0x644, 0x645, 0x643, 0x62A, 0x628, 0x629] @ u '' ''
      @ [0x627, 0x644, 0x631, 0x642, 0x645, 0x64A, 0x629] @ u '': 24/7 ''
      @ [0x639, 0x628, 0x631] @ u '' '' @ u ''{portal_url}'' @ u ''\<newline>\<newline>''
      @ [0x1F4E7] @ u '' ''
      @ [0x627, 0x633, 0x62A, 0x641, 0x633, 0x627, 0x631, 0x627, 0x62A] @ u '' ''
      @ [0x627, 0x644, 0x645, 0x643, 0x62A, 0x628, 0x629] @ u '': '' @ u ''{email_library}''"

definition faq_15_fr :: pystr where
  "faq_15_fr =
      u ''**Horaires de la biblioth'' @ [0xE8] @ u ''que:**\<newline>\<newline>''
      @ [0x1F4C5] @ u '' Semestre normal: Dim'' @ [0x2013] @ u ''Jeu 8h'' @ [0x2013]
      @ u ''20h | Ven 8h'' @ [0x2013] @ u ''12h & 14h'' @ [0x2013] @ u ''18h | Sam 8h''
      @ [0x2013] @ u ''14h\<newline>'' @ [0x1F4DA] @ u '' P'' @ [0xE9]
      @ u ''riode d'examens: horaires '' @ [0xE9] @ u ''tendus (souvent jusqu'' @ [39]
      @ [0xE0] @ u '' 22h)\<newline>'' @ [0x1F319] @ u '' Ferm'' @ [0xE9] @ u ''e: jours f''
      @ [0xE9] @ u ''ri'' @ [0xE9] @ u ''s; horaires r'' @ [0xE9]
      @ u ''duits pendant le Ramadan\<newline>'' @ [0x1F4BB] @ u '' Biblioth'' @ [0xE8]
      @ u ''que num'' @ [0xE9] @ u ''rique: 24h/24 via '' @ u ''{portal_url}''
      @ u ''\<newline>\<newline>'' @ [0x1F4E7] @ u '' Renseignements biblioth'' @ [0xE8]
      @ u ''que: '' @ u ''{email_library}''"

definition faq_15 :: faq where
  "faq_15 =
     \<lparr>faq_id = 15, faq_category = u ''campus'',
      faq_question = u ''What are the library hours?'',
      faq_answers = [(u ''en'', faq_15_en), (u ''ar'', faq_15_ar), (u ''fr'', faq_15_fr)],
      faq_keywords =
       [u ''library'',
        u ''hours'',
        u ''time'',
        u ''open'',
        u ''close'',
        u ''schedule'',
        u ''horaires'',
        u ''biblioth'' @ [0xE8] @ u ''que'',
        [0x633, 0x627, 0x639, 0x627, 0x62A] @ u '' ''
         @ [0x627, 0x644, 0x645, 0x643, 0x62A, 0x628, 0x629],
        [0x645, 0x643, 0x62A, 0x628, 0x629]],
      faq_variants =
       [u ''library hours'',
        u ''when is library open'',
        u ''horaires de la biblioth'' @ [0xE8] @ u ''que'',
        [0x623, 0x648, 0x642, 0x627, 0x62A] @ u '' ''
         @ [0x627, 0x644, 0x645, 0x643, 0x62A, 0x628, 0x629]]\<rparr>"

definition faq_16_en :: pystr where
  "faq_16_en =
      u ''**Student ID Card:**\<newline>\<newline>'' @ [0x1F4CB]
      @ u '' Typically required: passport-size photo, registration confirmation, ''
      @ u ''national ID, payment of card fee\<newline>'' @ [0x1F3E2]
      @ u '' Apply at: the Student Services Office on campus\<newline>'' @ [0x23F0]
      @ u '' Processing time: usually 3-7 business days\<newline>\<newline>''
      @ u ''Lost card? Report immediately to the Student Services Office ''
      @ u ''to get a replacement.\<newline>'' @ [0x26A0, 0xFE0F]
      @ u '' Your student ID is mandatory for exams, library access, and ''
      @ u ''campus facilities!\<newline>\<newline>'' @ [0x1F4E7] @ u '' ''
      @ u ''{email_student}''"

definition faq_16_ar :: pystr where
  "faq_16_ar =
      u ''**'' @ [0x628, 0x637, 0x627, 0x642, 0x629] @ u '' ''
      @ [0x627, 0x644, 0x637, 0x627, 0x644, 0x628] @ u '':**\<newline>\<newline>''
      @ [0x1F4CB] @ u '' '' @ [0x627, 0x644, 0x645, 0x637, 0x644, 0x648, 0x628] @ u '' ''
      @ [0x639, 0x627, 0x62F, 0x629, 0x64B] @ u '': '' @ [0x635, 0x648, 0x631, 0x629]
      @ u '' '' @ [0x634, 0x62E, 0x635, 0x64A, 0x629, 0x60C] @ u '' ''
      @ [0x62A, 0x623, 0x643, 0x64A, 0x62F] @ u '' ''
      @ [0x627, 0x644, 0x62A, 0x633, 0x62C, 0x64A, 0x644, 0x60C] @ u '' ''
      @ [0x628, 0x637, 0x627, 0x642, 0x629] @ u '' ''
      @ [0x627, 0x644, 0x647, 0x648, 0x64A, 0x629] @ u '' ''
      @ [0x627, 0x644, 0x648, 0x637, 0x646, 0x64A, 0x629, 0x60C] @ u '' ''
      @ [0x62F, 0x641, 0x639] @ u '' '' @ [0x631, 0x633, 0x648, 0x645] @ u '' ''
      @ [0x627, 0x644, 0x628, 0x637, 0x627, 0x642, 0x629] @ u ''\<newline>'' @ [0x1F3E2]
      @ u '' '' @ [0x627, 0x644, 0x62A, 0x642, 0x62F, 0x64A, 0x645] @ u '' ''
      @ [0x641, 0x64A] @ u '': '' @ [0x645, 0x643, 0x62A, 0x628] @ u '' ''
      @ [0x62E, 0x62F, 0x645, 0x627, 0x62A] @ u '' ''
      @ [0x627, 0x644, 0x637, 0x644, 0x627, 0x628] @ u '' ''
      @ [0x628, 0x627, 0x644, 0x62D, 0x631, 0x645] @ u '' ''
      @ [0x627, 0x644, 0x62C, 0x627, 0x645, 0x639, 0x64A] @ u ''\<newline>'' @ [0x23F0]
      @ u '' '' @ [0x645, 0x62F, 0x629] @ u '' ''
      @ [0x627, 0x644, 0x625, 0x646, 0x62C, 0x627, 0x632] @ u '': ''
      @ [0x639, 0x627, 0x62F, 0x629, 0x64B] @ u '' 3-7 '' @ [0x623, 0x64A, 0x627, 0x645]
      @ u '' '' @ [0x639, 0x645, 0x644] @ u ''\<newline>\<newline>''
      @ [0x641, 0x642, 0x62F, 0x62A] @ u '' ''
      @ [0x628, 0x637, 0x627, 0x642, 0x62A, 0x643, 0x61F] @ u '' ''
      @ [0x623, 0x628, 0x644, 0x63A] @ u '' '' @ [0x641, 0x648, 0x631, 0x627, 0x64B]
      @ u '' '' @ [0x645, 0x643, 0x62A, 0x628] @ u '' ''
      @ [0x62E, 0x62F, 0x645, 0x627, 0x62A] @ u '' ''
      @ [0x627, 0x644, 0x637, 0x644, 0x627, 0x628] @ u '' ''
      @ [0x644, 0x644, 0x62D, 0x635, 0x648, 0x644] @ u '' '' @ [0x639, 0x644, 0x649]
      @ u '' '' @ [0x628, 0x62F, 0x644] @ u '' '' @ [0x636, 0x627, 0x626, 0x639]
      @ u ''.\<newline>'' @ [0x26A0, 0xFE0F] @ u '' '' @ [0x628, 0x637, 0x627, 0x642, 0x629]
      @ u '' '' @ [0x627, 0x644, 0x637, 0x627, 0x644, 0x628] @ u '' ''
      @ [0x625, 0x644, 0x632, 0x627, 0x645, 0x64A, 0x629] @ u '' ''
      @ [0x644, 0x644, 0x627, 0x645, 0x62A, 0x62D, 0x627, 0x646, 0x627, 0x62A] @ u '' ''
      @ [0x648, 0x627, 0x644, 0x645, 0x643, 0x62A, 0x628, 0x629] @ u '' ''
      @ [0x648, 0x645, 0x631, 0x627, 0x641, 0x642] @ u '' ''
      @ [0x627, 0x644, 0x62C, 0x627, 0x645, 0x639, 0x629] @ u ''!\<newline>\<newline>''
      @ [0x1F4E7] @ u '' '' @ u ''{email_student}''"

definition faq_16_fr :: pystr where
  "faq_16_fr =
      u ''**Carte '' @ [0xE9] @ u ''tudiant:**\<newline>\<newline>'' @ [0x1F4CB] @ u '' G''
      @ [0xE9] @ u ''n'' @ [0xE9] @ u ''ralement requis: photo d'identit'' @ [0xE9]
      @ u '', confirmation d'inscription, pi'' @ [0xE8] @ u ''ce d'identit'' @ [0xE9]
      @ u '' nationale, paiement des frais de carte\<newline>'' @ [0x1F3E2]
      @ u '' Demande '' @ [0xE0] @ u '': le Bureau des services '' @ [0xE9]
      @ u ''tudiants sur le campus\<newline>'' @ [0x23F0] @ u '' D'' @ [0xE9] @ u ''lai: g''
      @ [0xE9] @ u ''n'' @ [0xE9]
      @ u ''ralement 3-7 jours ouvrables\<newline>\<newline>Carte perdue? ''
      @ u ''Signalez imm'' @ [0xE9] @ u ''diatement au Bureau des services '' @ [0xE9]
      @ u ''tudiants pour obtenir un remplacement.\<newline>'' @ [0x26A0, 0xFE0F]
      @ u '' Votre carte '' @ [0xE9]
      @ u ''tudiant est obligatoire pour les examens, la biblioth'' @ [0xE8]
      @ u ''que et les installations!\<newline>\<newline>'' @ [0x1F4E7] @ u '' ''
      @ u ''{email_student}''"

definition faq_16 :: faq where
  "faq_16 =
     \<lparr>faq_id = 16, faq_category = u ''services'',
      faq_question = u ''How do I get a student ID card?'',
      faq_answers = [(u ''en'', faq_16_en), (u ''ar'', faq_16_ar), (u ''fr'', faq_16_fr)],
      faq_keywords =
       [u ''student id'',
        u ''card'',
        u ''identification'',
        u ''badge'',
        u ''carte '' @ [0xE9] @ u ''tudiant'',
        [0x628, 0x637, 0x627, 0x642, 0x629] @ u '' ''
         @ [0x627, 0x644, 0x637, 0x627, 0x644, 0x628],
        [0x628, 0x637, 0x627, 0x642, 0x629] @ u '' '' @ [0x637, 0x627, 0x644, 0x628]],
      faq_variants =
       [u ''get student card'',
        u ''student id card'',
        u ''obtenir carte '' @ [0xE9] @ u ''tudiant'',
        [0x627, 0x644, 0x62D, 0x635, 0x648, 0x644] @ u '' '' @ [0x639, 0x644, 0x649]
         @ u '' '' @ [0x628, 0x637, 0x627, 0x642, 0x629] @ u '' ''
         @ [0x627, 0x644, 0x637, 0x627, 0x644, 0x628]]\<rparr>"

definition faq_17_en :: pystr where
  "faq_17_en =
      u ''**Student Housing:**\<newline>\<newline>'' @ [0x1F3E0]
      @ u '' On-campus dormitories (r'' @ [0xE9]
      @ u ''sidence universitaire) are available at most Algerian universities.\<newline>''
      @ [0x1F4B0] @ u '' Monthly fees vary by room type (shared or single).\<newline>''
      @ [0x1F4CB] @ u '' Priority is typically given to: students from distant regions, ''
      @ u ''international students, and scholarship recipients.\<newline>''
      @ u ''\<newline>**How to apply:** Submit your application via '' @ u ''{portal_url}''
      @ u '' during the housing application period (usually before the start ''
      @ u ''of each semester).\<newline>\<newline>'' @ [0x1F4E7]
      @ u '' Housing inquiries: '' @ u ''{email_housing}''"

definition faq_17_ar :: pystr where
  "faq_17_ar =
      u ''**'' @ [0x627, 0x644, 0x633, 0x643, 0x646] @ u '' ''
      @ [0x627, 0x644, 0x62C, 0x627, 0x645, 0x639, 0x64A] @ u '':**\<newline>\<newline>''
      @ [0x1F3E0] @ u '' '' @ [0x62A, 0x62A, 0x648, 0x641, 0x631] @ u '' ''
      @ [0x645, 0x633, 0x627, 0x643, 0x646] @ u '' ''
      @ [0x62C, 0x627, 0x645, 0x639, 0x64A, 0x629] @ u '' (''
      @ [0x625, 0x642, 0x627, 0x645, 0x629] @ u '' ''
      @ [0x62C, 0x627, 0x645, 0x639, 0x64A, 0x629] @ u '') '' @ [0x641, 0x64A] @ u '' ''
      @ [0x645, 0x639, 0x638, 0x645] @ u '' ''
      @ [0x627, 0x644, 0x62C, 0x627, 0x645, 0x639, 0x627, 0x62A] @ u '' ''
      @ [0x627, 0x644, 0x62C, 0x632, 0x627, 0x626, 0x631, 0x64A, 0x629] @ u ''.\<newline>''
      @ [0x1F4B0] @ u '' '' @ [0x627, 0x644, 0x631, 0x633, 0x648, 0x645] @ u '' ''
      @ [0x627, 0x644, 0x634, 0x647, 0x631, 0x64A, 0x629] @ u '' ''
      @ [0x62A, 0x62E, 0x62A, 0x644, 0x641] @ u '' '' @ [0x62D, 0x633, 0x628] @ u '' ''
      @ [0x646, 0x648, 0x639] @ u '' '' @ [0x627, 0x644, 0x63A, 0x631, 0x641, 0x629]
      @ u '' ('' @ [0x645, 0x634, 0x62A, 0x631, 0x643, 0x629] @ u '' '' @ [0x623, 0x648]
      @ u '' '' @ [0x641, 0x631, 0x62F, 0x64A, 0x629] @ u '').\<newline>'' @ [0x1F4CB]
      @ u '' '' @ [0x627, 0x644, 0x623, 0x648, 0x644, 0x648, 0x64A, 0x629] @ u '' ''
      @ [0x639, 0x627, 0x62F, 0x629, 0x64B] @ u '' '' @ [0x644, 0x640] @ u '': ''
      @ [0x627, 0x644, 0x637, 0x644, 0x627, 0x628] @ u '' ''
      @ [0x627, 0x644, 0x642, 0x627, 0x62F, 0x645, 0x64A, 0x646] @ u '' '' @ [0x645, 0x646]
      @ u '' '' @ [0x645, 0x646, 0x627, 0x637, 0x642] @ u '' ''
      @ [0x628, 0x639, 0x64A, 0x62F, 0x629, 0x60C] @ u '' ''
      @ [0x627, 0x644, 0x637, 0x644, 0x627, 0x628] @ u '' ''
      @ [0x627, 0x644, 0x623, 0x62C, 0x627, 0x646, 0x628, 0x60C] @ u '' ''
      @ [0x648, 0x627, 0x644, 0x645, 0x646, 0x62A, 0x641, 0x639, 0x64A, 0x646] @ u '' ''
      @ [0x628, 0x627, 0x644, 0x645, 0x646, 0x62D] @ u ''.\<newline>\<newline>**''
      @ [0x637, 0x631, 0x64A, 0x642, 0x629] @ u '' ''
      @ [0x627, 0x644, 0x62A, 0x642, 0x62F, 0x64A, 0x645] @ u '':** ''
      @ [0x642, 0x62F, 0x651, 0x645] @ u '' '' @ [0x637, 0x644, 0x628, 0x643] @ u '' ''
      @ [0x639, 0x628, 0x631] @ u '' '' @ u ''{portal_url}'' @ u '' ''
      @ [0x62E, 0x644, 0x627, 0x644] @ u '' '' @ [0x641, 0x62A, 0x631, 0x629] @ u '' ''
      @ [0x627, 0x644, 0x62A, 0x642, 0x62F, 0x64A, 0x645] @ u '' ''
      @ [0x644, 0x644, 0x633, 0x643, 0x646] @ u '' ('' @ [0x639, 0x627, 0x62F, 0x629, 0x64B]
      @ u '' '' @ [0x642, 0x628, 0x644] @ u '' '' @ [0x628, 0x62F, 0x627, 0x64A, 0x629]
      @ u '' '' @ [0x643, 0x644] @ u '' '' @ [0x641, 0x635, 0x644]
      @ u '').\<newline>\<newline>'' @ [0x1F4E7] @ u '' ''
      @ [0x627, 0x633, 0x62A, 0x641, 0x633, 0x627, 0x631, 0x627, 0x62A] @ u '' ''
      @ [0x627, 0x644, 0x633, 0x643, 0x646] @ u '': '' @ u ''{email_housing}''"

definition faq_17_fr :: pystr where
  "faq_17_fr =
      u ''**Logement '' @ [0xE9] @ u ''tudiant:**\<newline>\<newline>'' @ [0x1F3E0]
      @ u '' Des r'' @ [0xE9]
      @ u ''sidences universitaires sont disponibles dans la plupart des ''
      @ u ''universit'' @ [0xE9] @ u ''s alg'' @ [0xE9] @ u ''riennes.\<newline>''
      @ [0x1F4B0] @ u '' Les frais mensuels varient selon le type de chambre (partag''
      @ [0xE9] @ u ''e ou individuelle).\<newline>'' @ [0x1F4CB] @ u '' La priorit''
      @ [0xE9] @ u '' est g'' @ [0xE9] @ u ''n'' @ [0xE9] @ u ''ralement accord'' @ [0xE9]
      @ u ''e aux: '' @ [0xE9] @ u ''tudiants de r'' @ [0xE9] @ u ''gions '' @ [0xE9]
      @ u ''loign'' @ [0xE9] @ u ''es, '' @ [0xE9]
      @ u ''tudiants internationaux, et boursiers.\<newline>\<newline>**Comment ''
      @ u ''postuler:** Soumettez votre candidature via '' @ u ''{portal_url}''
      @ u '' pendant la p'' @ [0xE9] @ u ''riode de demande de logement (g'' @ [0xE9]
      @ u ''n'' @ [0xE9] @ u ''ralement avant le d'' @ [0xE9]
      @ u ''but de chaque semestre).\<newline>\<newline>'' @ [0x1F4E7]
      @ u '' Renseignements logement: '' @ u ''{email_housing}''"

definition faq_17 :: faq where
  "faq_17 =
     \<lparr>faq_id = 17, faq_category = u ''services'',
      faq_question = u ''Is there student housing available?'',
      faq_answers = [(u ''en'', faq_17_en), (u ''ar'', faq_17_ar), (u ''fr'', faq_17_fr)],
      faq_keywords =
       [u ''housing'',
        u ''dormitory'',
        u ''residence'',
        u ''accommodation'',
        u ''room'',
        u ''dorm'',
        u ''logement'',
        u ''r'' @ [0xE9] @ u ''sidence'',
        [0x627, 0x644, 0x633, 0x643, 0x646] @ u '' ''
         @ [0x627, 0x644, 0x62C, 0x627, 0x645, 0x639, 0x64A],
        [0x625, 0x642, 0x627, 0x645, 0x629]],
      faq_variants =
       [u ''student housing'',
        u ''dormitories'',
        u ''r'' @ [0xE9] @ u ''sidence universitaire'',
        [0x627, 0x644, 0x633, 0x643, 0x646] @ u '' ''
         @ [0x627, 0x644, 0x62C, 0x627, 0x645, 0x639, 0x64A]]\<rparr>"

definition faq_18_en :: pystr where
  "faq_18_en =
      u ''**Scholarship Opportunities:**\<newline>\<newline>'' @ [0x1F3C6]
      @ u '' Merit-based: for students with high academic performance\<newline>''
      @ [0x1F4B0] @ u '' Need-based: financial aid based on family income\<newline>''
      @ [0x1F52C] @ u '' Research scholarships: for Master's and PhD students (includes ''
      @ u ''tuition waiver + stipend)\<newline>'' @ [0x26BD]
      @ u '' Sports scholarships: for university team members\<newline>'' @ [0x1F30D]
      @ u '' International student scholarships: tuition support for non-Algerian ''
      @ u ''students\<newline>\<newline>'' @ [0x1F4CB]
      @ u '' Applications are submitted via '' @ u ''{portal_url}''
      @ u '' or at the Financial Aid Office.\<newline>'' @ [0x1F4E7] @ u '' ''
      @ u ''{email_financial_aid}''"

definition faq_18_ar :: pystr where
  "faq_18_ar =
      u ''**'' @ [0x627, 0x644, 0x645, 0x646, 0x62D] @ u '' ''
      @ [0x627, 0x644, 0x62F, 0x631, 0x627, 0x633, 0x64A, 0x629] @ u '' ''
      @ [0x627, 0x644, 0x645, 0x62A, 0x627, 0x62D, 0x629] @ u '':**\<newline>\<newline>''
      @ [0x1F3C6] @ u '' '' @ [0x645, 0x646, 0x62D, 0x629] @ u '' ''
      @ [0x627, 0x644, 0x62A, 0x645, 0x64A, 0x632] @ u '': ''
      @ [0x644, 0x644, 0x637, 0x644, 0x627, 0x628] @ u '' '' @ [0x630, 0x648, 0x64A]
      @ u '' '' @ [0x627, 0x644, 0x623, 0x62F, 0x627, 0x621] @ u '' ''
      @ [0x627, 0x644, 0x623, 0x643, 0x627, 0x62F, 0x64A, 0x645, 0x64A] @ u '' ''
      @ [0x627, 0x644, 0x645, 0x631, 0x62A, 0x641, 0x639] @ u ''\<newline>'' @ [0x1F4B0]
      @ u '' '' @ [0x627, 0x644, 0x645, 0x646, 0x62D, 0x629] @ u '' ''
      @ [0x627, 0x644, 0x627, 0x62C, 0x62A, 0x645, 0x627, 0x639, 0x64A, 0x629] @ u '': ''
      @ [0x62F, 0x639, 0x645] @ u '' '' @ [0x645, 0x627, 0x644, 0x64A] @ u '' ''
      @ [0x628, 0x646, 0x627, 0x621, 0x64B] @ u '' '' @ [0x639, 0x644, 0x649] @ u '' ''
      @ [0x62F, 0x62E, 0x644] @ u '' '' @ [0x627, 0x644, 0x623, 0x633, 0x631, 0x629]
      @ u ''\<newline>'' @ [0x1F52C] @ u '' '' @ [0x645, 0x646, 0x62D] @ u '' ''
      @ [0x627, 0x644, 0x628, 0x62D, 0x62B] @ u '': '' @ [0x644, 0x637, 0x644, 0x627, 0x628]
      @ u '' '' @ [0x627, 0x644, 0x645, 0x627, 0x633, 0x62A, 0x631] @ u '' ''
      @ [0x648, 0x627, 0x644, 0x62F, 0x643, 0x62A, 0x648, 0x631, 0x627, 0x647] @ u '' (''
      @ [0x625, 0x639, 0x641, 0x627, 0x621] @ u '' '' @ [0x645, 0x646] @ u '' ''
      @ [0x627, 0x644, 0x631, 0x633, 0x648, 0x645] @ u '' + ''
      @ [0x645, 0x62E, 0x635, 0x635] @ u '' '' @ [0x645, 0x627, 0x644, 0x64A]
      @ u '')\<newline>'' @ [0x26BD] @ u '' '' @ [0x645, 0x646, 0x62D] @ u '' ''
      @ [0x627, 0x644, 0x631, 0x64A, 0x627, 0x636, 0x629] @ u '': ''
      @ [0x644, 0x623, 0x639, 0x636, 0x627, 0x621] @ u '' ''
      @ [0x627, 0x644, 0x641, 0x631, 0x642] @ u '' ''
      @ [0x627, 0x644, 0x62C, 0x627, 0x645, 0x639, 0x64A, 0x629] @ u ''\<newline>''
      @ [0x1F30D] @ u '' '' @ [0x645, 0x646, 0x62D] @ u '' ''
      @ [0x627, 0x644, 0x637, 0x644, 0x627, 0x628] @ u '' ''
      @ [0x627, 0x644, 0x623, 0x62C, 0x627, 0x646, 0x628] @ u '': '' @ [0x62F, 0x639, 0x645]
      @ u '' '' @ [0x627, 0x644, 0x631, 0x633, 0x648, 0x645] @ u '' ''
      @ [0x644, 0x63A, 0x64A, 0x631] @ u '' ''
      @ [0x627, 0x644, 0x62C, 0x632, 0x627, 0x626, 0x631, 0x64A, 0x64A, 0x646]
      @ u ''\<newline>\<newline>'' @ [0x1F4CB] @ u '' ''
      @ [0x62A, 0x64F, 0x642, 0x62F, 0x64E, 0x651, 0x645] @ u '' ''
      @ [0x627, 0x644, 0x637, 0x644, 0x628, 0x627, 0x62A] @ u '' '' @ [0x639, 0x628, 0x631]
      @ u '' '' @ u ''{portal_url}'' @ u '' '' @ [0x623, 0x648] @ u '' '' @ [0x641, 0x64A]
      @ u '' '' @ [0x645, 0x643, 0x62A, 0x628] @ u '' ''
      @ [0x627, 0x644, 0x645, 0x646, 0x62D] @ u '' ''
      @ [0x627, 0x644, 0x62F, 0x631, 0x627, 0x633, 0x64A, 0x629] @ u ''.\<newline>''
      @ [0x1F4E7] @ u '' '' @ u ''{email_financial_aid}''"

definition faq_18_fr :: pystr where
  "faq_18_fr =
      u ''**Bourses disponibles:**\<newline>\<newline>'' @ [0x1F3C6] @ u '' Bourses au m''
      @ [0xE9] @ u ''rite: pour les '' @ [0xE9] @ u ''tudiants avec d'excellents r''
      @ [0xE9] @ u ''sultats acad'' @ [0xE9] @ u ''miques\<newline>'' @ [0x1F4B0]
      @ u '' Aide financi'' @ [0xE8] @ u ''re: soutien bas'' @ [0xE9]
      @ u '' sur les revenus familiaux\<newline>'' @ [0x1F52C]
      @ u '' Bourses de recherche: pour les '' @ [0xE9]
      @ u ''tudiants en Master et Doctorat (exon'' @ [0xE9]
      @ u ''ration + bourse mensuelle)\<newline>'' @ [0x26BD]
      @ u '' Bourses sportives: pour les membres des '' @ [0xE9]
      @ u ''quipes universitaires\<newline>'' @ [0x1F30D] @ u '' Bourses '' @ [0xE9]
      @ u ''tudiants internationaux: aide pour les non-Alg'' @ [0xE9]
      @ u ''riens\<newline>\<newline>'' @ [0x1F4CB] @ u '' Les candidatures se font via ''
      @ u ''{portal_url}'' @ u '' ou au Bureau des bourses.\<newline>'' @ [0x1F4E7]
      @ u '' '' @ u ''{email_financial_aid}''"

definition faq_18 :: faq where
  "faq_18 =
     \<lparr>faq_id = 18, faq_category = u ''financial_aid'',
      faq_question = u ''What scholarships are available?'',
      faq_answers = [(u ''en'', faq_18_en), (u ''ar'', faq_18_ar), (u ''fr'', faq_18_fr)],
      faq_keywords =
       [u ''scholarship'',
        u ''financial aid'',
        u ''funding'',
        u ''grant'',
        u ''support'',
        u ''bourse'',
        u ''aide financi'' @ [0xE8] @ u ''re'',
        [0x645, 0x646, 0x62D, 0x629],
        [0x62F, 0x639, 0x645] @ u '' '' @ [0x645, 0x627, 0x644, 0x64A]],
      faq_variants =
       [u ''scholarships available'',
        u ''financial help'',
        u ''bourses disponibles'',
        [0x627, 0x644, 0x645, 0x646, 0x62D] @ u '' ''
         @ [0x627, 0x644, 0x62F, 0x631, 0x627, 0x633, 0x64A, 0x629]]\<rparr>"

definition faq_19_en :: pystr where
  "faq_19_en =
      u ''**Password Reset:**\<newline>\<newline>'' @ [0x1F4BB]
      @ u '' Online self-reset:\<newline>   1. Go to '' @ u ''{portal_url}''
      @ u ''\<newline>   2. Click 'Forgot Password?'\<newline>   3. Enter ''
      @ u ''your university email address\<newline>   4. Check your inbox ''
      @ u ''(and spam folder!) for the reset link\<newline>   5. Click the ''
      @ u ''link (usually valid for 24h) and set a new password\<newline>''
      @ u ''\<newline>'' @ [0x1F3E2]
      @ u '' In person: visit the IT Support Office on campus with your ''
      @ u ''Student ID + National ID\<newline>\<newline>'' @ [0x1F4E7] @ u '' IT Support: ''
      @ u ''{email_it}'' @ u ''\<newline>'' @ [0x26A0, 0xFE0F]
      @ u '' The university will NEVER ask for your password by email.''"

definition faq_19_ar :: pystr where
  "faq_19_ar =
      u ''**'' @ [0x625, 0x639, 0x627, 0x62F, 0x629] @ u '' ''
      @ [0x62A, 0x639, 0x64A, 0x64A, 0x646] @ u '' '' @ [0x643, 0x644, 0x645, 0x629]
      @ u '' '' @ [0x627, 0x644, 0x645, 0x631, 0x648, 0x631] @ u '':**\<newline>\<newline>''
      @ [0x1F4BB] @ u '' '' @ [0x625, 0x639, 0x627, 0x62F, 0x629] @ u '' ''
      @ [0x62A, 0x639, 0x64A, 0x64A, 0x646] @ u '' ''
      @ [0x625, 0x644, 0x643, 0x62A, 0x631, 0x648, 0x646, 0x64A, 0x629]
      @ u '':\<newline>   1. '' @ [0x627, 0x630, 0x647, 0x628] @ u '' ''
      @ [0x625, 0x644, 0x649] @ u '' '' @ u ''{portal_url}'' @ u ''\<newline>   2. ''
      @ [0x627, 0x646, 0x642, 0x631] @ u '' '' @ [0x639, 0x644, 0x649] @ u '' '' @ [39]
      @ [0x646, 0x633, 0x64A, 0x62A] @ u '' '' @ [0x643, 0x644, 0x645, 0x629] @ u '' ''
      @ [0x627, 0x644, 0x645, 0x631, 0x648, 0x631, 0x61F] @ [39] @ u ''\<newline>   3. ''
      @ [0x623, 0x62F, 0x62E, 0x644] @ u '' '' @ [0x628, 0x631, 0x64A, 0x62F, 0x643]
      @ u '' '' @ [0x627, 0x644, 0x62C, 0x627, 0x645, 0x639, 0x64A] @ u ''\<newline>   4. ''
      @ [0x62A, 0x62D, 0x642, 0x642] @ u '' '' @ [0x645, 0x646] @ u '' ''
      @ [0x635, 0x646, 0x62F, 0x648, 0x642] @ u '' ''
      @ [0x627, 0x644, 0x648, 0x627, 0x631, 0x62F] @ u '' (''
      @ [0x648, 0x628, 0x631, 0x64A, 0x62F] @ u '' ''
      @ [0x627, 0x644, 0x633, 0x628, 0x627, 0x645] @ u ''!) ''
      @ [0x644, 0x644, 0x631, 0x627, 0x628, 0x637] @ u ''\<newline>   5. ''
      @ [0x627, 0x646, 0x642, 0x631] @ u '' '' @ [0x627, 0x644, 0x631, 0x627, 0x628, 0x637]
      @ u '' ('' @ [0x635, 0x627, 0x644, 0x62D] @ u '' ''
      @ [0x639, 0x627, 0x62F, 0x629, 0x64B] @ u '' 24 '' @ [0x633, 0x627, 0x639, 0x629]
      @ u '') '' @ [0x648, 0x639, 0x64A, 0x651, 0x646] @ u '' ''
      @ [0x643, 0x644, 0x645, 0x629] @ u '' '' @ [0x645, 0x631, 0x648, 0x631] @ u '' ''
      @ [0x62C, 0x62F, 0x64A, 0x62F, 0x629] @ u ''\<newline>\<newline>'' @ [0x1F3E2]
      @ u '' '' @ [0x62D, 0x636, 0x648, 0x631, 0x64A, 0x627, 0x64B] @ u '': ''
      @ [0x632, 0x631] @ u '' '' @ [0x645, 0x643, 0x62A, 0x628] @ u '' ''
      @ [0x627, 0x644, 0x62F, 0x639, 0x645] @ u '' ''
      @ [0x627, 0x644, 0x62A, 0x642, 0x646, 0x64A] @ u '' ''
      @ [0x628, 0x627, 0x644, 0x62D, 0x631, 0x645] @ u '' ''
      @ [0x627, 0x644, 0x62C, 0x627, 0x645, 0x639, 0x64A] @ u '' '' @ [0x645, 0x639]
      @ u '' '' @ [0x628, 0x637, 0x627, 0x642, 0x629] @ u '' ''
      @ [0x627, 0x644, 0x637, 0x627, 0x644, 0x628] @ u '' + ''
      @ [0x628, 0x637, 0x627, 0x642, 0x629] @ u '' ''
      @ [0x627, 0x644, 0x647, 0x648, 0x64A, 0x629] @ u ''\<newline>\<newline>'' @ [0x1F4E7]
      @ u '' '' @ [0x627, 0x644, 0x62F, 0x639, 0x645] @ u '' ''
      @ [0x627, 0x644, 0x62A, 0x642, 0x646, 0x64A] @ u '': '' @ u ''{email_it}''
      @ u ''\<newline>'' @ [0x26A0, 0xFE0F] @ u '' '' @ [0x644, 0x646] @ u '' ''
      @ [0x62A, 0x637, 0x644, 0x628] @ u '' ''
      @ [0x627, 0x644, 0x62C, 0x627, 0x645, 0x639, 0x629] @ u '' '' @ [0x645, 0x646, 0x643]
      @ u '' '' @ [0x643, 0x644, 0x645, 0x629] @ u '' ''
      @ [0x627, 0x644, 0x645, 0x631, 0x648, 0x631] @ u '' '' @ [0x639, 0x628, 0x631]
      @ u '' '' @ [0x627, 0x644, 0x628, 0x631, 0x64A, 0x62F] @ u '' ''
      @ [0x627, 0x644, 0x625, 0x644, 0x643, 0x62A, 0x631, 0x648, 0x646, 0x64A] @ u '' ''
      @ [0x623, 0x628, 0x62F, 0x627, 0x64B] @ u ''.''"

definition faq_19_fr :: pystr where
  "faq_19_fr =
      u ''**R'' @ [0xE9] @ u ''initialisation du mot de passe:**\<newline>\<newline>''
      @ [0x1F4BB] @ u '' R'' @ [0xE9]
      @ u ''initialisation en ligne:\<newline>   1. Allez sur '' @ u ''{portal_url}''
      @ u ''\<newline>   2. Cliquez sur 'Mot de passe oubli'' @ [0xE9]
      @ u ''?'\<newline>   3. Entrez votre email universitaire\<newline>'' @ u ''   4. V''
      @ [0xE9] @ u ''rifiez votre bo'' @ [0xEE]
      @ u ''te (y compris les spams!) pour le lien\<newline>   5. Cliquez ''
      @ u ''le lien (valide g'' @ [0xE9] @ u ''n'' @ [0xE9] @ u ''ralement 24h) et cr''
      @ [0xE9] @ u ''ez un nouveau mot de passe\<newline>\<newline>'' @ [0x1F3E2]
      @ u '' En personne: rendez-vous au Bureau IT du campus avec carte '' @ [0xE9]
      @ u ''tudiant + pi'' @ [0xE8] @ u ''ce d'identit'' @ [0xE9]
      @ u ''\<newline>\<newline>'' @ [0x1F4E7] @ u '' Support IT: '' @ u ''{email_it}''
      @ u ''\<newline>'' @ [0x26A0, 0xFE0F] @ u '' L'universit'' @ [0xE9]
      @ u '' ne vous demandera JAMAIS votre mot de passe par email.''"

definition faq_19 :: faq where
  "faq_19 =
     \<lparr>faq_id = 19, faq_category = u ''technical'',
      faq_question = u ''I forgot my student portal password. How do I reset it?'',
      faq_answers = [(u ''en'', faq_19_en), (u ''ar'', faq_19_ar), (u ''fr'', faq_19_fr)],
      faq_keywords =
       [u ''password'',
        u ''reset'',
        u ''forgot'',
        u ''login'',
        u ''access'',
        u ''portal'',
        u ''mot de passe'',
        u ''oubli'' @ [0xE9],
        u ''oublie'',
        u ''reinitialiser'',
        u ''r'' @ [0xE9] @ u ''initialiser'',
        [0x643, 0x644, 0x645, 0x629] @ u '' '' @ [0x627, 0x644, 0x633, 0x631],
        [0x646, 0x633, 0x64A, 0x62A],
        [0x646, 0x633, 0x64A, 0x62A] @ u '' '' @ [0x643, 0x644, 0x645, 0x629] @ u '' ''
         @ [0x627, 0x644, 0x645, 0x631, 0x648, 0x631],
        [0x643, 0x644, 0x645, 0x629] @ u '' '' @ [0x627, 0x644, 0x645, 0x631, 0x648, 0x631]],
      faq_variants =
       [u ''reset password'',
        u ''forgot password'',
        u ''r'' @ [0xE9] @ u ''initialiser mot de passe'',
        u ''j ai oubli'' @ [0xE9] @ u '' mot de passe'',
        u ''mot de passe oubli'' @ [0xE9],
        [0x646, 0x633, 0x64A, 0x62A] @ u '' '' @ [0x643, 0x644, 0x645, 0x629] @ u '' ''
         @ [0x627, 0x644, 0x633, 0x631]]\<rparr>"

definition faq_20_en :: pystr where
  "faq_20_en =
      u ''**Exam Periods (typical Algerian academic calendar):**\<newline>''
      @ u ''\<newline>'' @ [0x1F342]
      @ u '' Fall Semester: Midterm exams (November) | Final exams (January) ''
      @ u ''| Makeup/Resit (February)\<newline>'' @ [0x1F338]
      @ u '' Spring Semester: Midterm exams (April) | Final exams (June) ''
      @ u ''| Makeup/Resit (July)\<newline>'' @ [0x2600, 0xFE0F]
      @ u '' Summer session: Final exams (August/September)\<newline>\<newline>''
      @ [0x1F4C5] @ u '' Official exam schedules are posted 2-3 weeks before exams on ''
      @ u ''{portal_url}''
      @ u ''.\<newline>Results are published within 1-2 weeks after exams.\<newline>''
      @ [0x1F4E7] @ u '' Academic affairs: '' @ u ''{email_academic}''"

definition faq_20_ar :: pystr where
  "faq_20_ar =
      u ''**'' @ [0x641, 0x62A, 0x631, 0x627, 0x62A] @ u '' ''
      @ [0x627, 0x644, 0x627, 0x645, 0x62A, 0x62D, 0x627, 0x646, 0x627, 0x62A] @ u '' (''
      @ [0x627, 0x644, 0x62A, 0x642, 0x648, 0x64A, 0x645] @ u '' ''
      @ [0x627, 0x644, 0x623, 0x643, 0x627, 0x62F, 0x64A, 0x645, 0x64A] @ u '' ''
      @ [0x627, 0x644, 0x62C, 0x632, 0x627, 0x626, 0x631, 0x64A] @ u '' ''
      @ [0x627, 0x644, 0x645, 0x639, 0x62A, 0x627, 0x62F] @ u ''):**\<newline>\<newline>''
      @ [0x1F342] @ u '' '' @ [0x627, 0x644, 0x641, 0x635, 0x644] @ u '' ''
      @ [0x627, 0x644, 0x62E, 0x631, 0x64A, 0x641, 0x64A] @ u '': ''
      @ [0x627, 0x62E, 0x62A, 0x628, 0x627, 0x631, 0x627, 0x62A] @ u '' ''
      @ [0x645, 0x646, 0x62A, 0x635, 0x641] @ u '' '' @ [0x627, 0x644, 0x641, 0x635, 0x644]
      @ u '' ('' @ [0x646, 0x648, 0x641, 0x645, 0x628, 0x631] @ u '') | ''
      @ [0x646, 0x647, 0x627, 0x626, 0x64A] @ u '' ('' @ [0x64A, 0x646, 0x627, 0x64A, 0x631]
      @ u '') | '' @ [0x627, 0x633, 0x62A, 0x62F, 0x631, 0x627, 0x643, 0x64A] @ u '' (''
      @ [0x641, 0x628, 0x631, 0x627, 0x64A, 0x631] @ u '')\<newline>'' @ [0x1F338] @ u '' ''
      @ [0x627, 0x644, 0x641, 0x635, 0x644] @ u '' ''
      @ [0x627, 0x644, 0x631, 0x628, 0x64A, 0x639, 0x64A] @ u '': ''
      @ [0x627, 0x62E, 0x62A, 0x628, 0x627, 0x631, 0x627, 0x62A] @ u '' ''
      @ [0x645, 0x646, 0x62A, 0x635, 0x641] @ u '' '' @ [0x627, 0x644, 0x641, 0x635, 0x644]
      @ u '' ('' @ [0x623, 0x628, 0x631, 0x64A, 0x644] @ u '') | ''
      @ [0x646, 0x647, 0x627, 0x626, 0x64A] @ u '' ('' @ [0x64A, 0x648, 0x646, 0x64A, 0x648]
      @ u '') | '' @ [0x627, 0x633, 0x62A, 0x62F, 0x631, 0x627, 0x643, 0x64A] @ u '' (''
      @ [0x64A, 0x648, 0x644, 0x64A, 0x648] @ u '')\<newline>'' @ [0x2600, 0xFE0F] @ u '' ''
      @ [0x627, 0x644, 0x62F, 0x648, 0x631, 0x629] @ u '' ''
      @ [0x627, 0x644, 0x635, 0x64A, 0x641, 0x64A, 0x629] @ u '': ''
      @ [0x646, 0x647, 0x627, 0x626, 0x64A] @ u '' ('' @ [0x623, 0x63A, 0x633, 0x637, 0x633]
      @ u ''/'' @ [0x633, 0x628, 0x62A, 0x645, 0x628, 0x631] @ u '')\<newline>\<newline>''
      @ [0x1F4C5] @ u '' '' @ [0x62A, 0x64F, 0x646, 0x634, 0x631] @ u '' ''
      @ [0x62C, 0x62F, 0x627, 0x648, 0x644] @ u '' ''
      @ [0x627, 0x644, 0x627, 0x645, 0x62A, 0x62D, 0x627, 0x646, 0x627, 0x62A] @ u '' ''
      @ [0x627, 0x644, 0x631, 0x633, 0x645, 0x64A, 0x629] @ u '' '' @ [0x642, 0x628, 0x644]
      @ u '' 2-3 '' @ [0x623, 0x633, 0x627, 0x628, 0x64A, 0x639] @ u '' ''
      @ [0x639, 0x644, 0x649] @ u '' '' @ u ''{portal_url}'' @ u ''.\<newline>''
      @ [0x62A, 0x64F, 0x639, 0x644, 0x646] @ u '' ''
      @ [0x627, 0x644, 0x646, 0x62A, 0x627, 0x626, 0x62C] @ u '' ''
      @ [0x62E, 0x644, 0x627, 0x644] @ u '' 1-2 '' @ [0x623, 0x633, 0x628, 0x648, 0x639]
      @ u '' '' @ [0x628, 0x639, 0x62F] @ u '' ''
      @ [0x627, 0x644, 0x627, 0x645, 0x62A, 0x62D, 0x627, 0x646, 0x627, 0x62A]
      @ u ''.\<newline>'' @ [0x1F4E7] @ u '' '' @ [0x627, 0x644, 0x634, 0x624, 0x648, 0x646]
      @ u '' '' @ [0x627, 0x644, 0x623, 0x643, 0x627, 0x62F, 0x64A, 0x645, 0x64A, 0x629]
      @ u '': '' @ u ''{email_academic}''"

definition faq_20_fr :: pystr where
  "faq_20_fr =
      u ''**P'' @ [0xE9] @ u ''riodes d'examens (calendrier acad'' @ [0xE9]
      @ u ''mique alg'' @ [0xE9] @ u ''rien type):**\<newline>\<newline>'' @ [0x1F342]
      @ u '' Semestre d'automne: Partiels (novembre) | Examens finals (janvier) ''
      @ u ''| Rattrapages (f'' @ [0xE9] @ u ''vrier)\<newline>'' @ [0x1F338]
      @ u '' Semestre de printemps: Partiels (avril) | Examens finals (juin) ''
      @ u ''| Rattrapages (juillet)\<newline>'' @ [0x2600, 0xFE0F] @ u '' Session d'' @ [39]
      @ [0xE9] @ u ''t'' @ [0xE9] @ u '': Examens finals (ao'' @ [0xFB]
      @ u ''t/septembre)\<newline>\<newline>'' @ [0x1F4C5]
      @ u '' Les emplois du temps officiels sont publi'' @ [0xE9]
      @ u ''s 2-3 semaines avant les examens sur '' @ u ''{portal_url}''
      @ u ''.\<newline>Les r'' @ [0xE9] @ u ''sultats sont publi'' @ [0xE9]
      @ u ''s dans les 1-2 semaines suivant les examens.\<newline>'' @ [0x1F4E7]
      @ u '' Affaires acad'' @ [0xE9] @ u ''miques: '' @ u ''{email_academic}''"

definition faq_20 :: faq where
  "faq_20 =
     \<lparr>faq_id = 20, faq_category = u ''exams'',
      faq_question = u ''When are the exam periods?'',
      faq_answers = [(u ''en'', faq_20_en), (u ''ar'', faq_20_ar), (u ''fr'', faq_20_fr)],
      faq_keywords =
       [u ''exam'',
        u ''test'',
        u ''final'',
        u ''schedule'',
        u ''when'',
        u ''period'',
        u ''examen'',
        u ''examens'',
        u ''quand'',
        u ''date'',
        [0x627, 0x645, 0x62A, 0x62D, 0x627, 0x646],
        [0x627, 0x644, 0x627, 0x62E, 0x62A, 0x628, 0x627, 0x631],
        [0x645, 0x648, 0x639, 0x62F] @ u '' ''
         @ [0x627, 0x644, 0x627, 0x645, 0x62A, 0x62D, 0x627, 0x646],
        [0x627, 0x645, 0x62A, 0x62D, 0x627, 0x646, 0x627, 0x62A],
        [0x645, 0x62A, 0x649] @ u '' ''
         @ [0x627, 0x644, 0x627, 0x645, 0x62A, 0x62D, 0x627, 0x646],
        [0x62C, 0x62F, 0x648, 0x644] @ u '' ''
         @ [0x627, 0x644, 0x627, 0x645, 0x62A, 0x62D, 0x627, 0x646, 0x627, 0x62A]],
      faq_variants =
       [u ''exam schedule'',
        u ''when are exams'',
        u ''calendrier des examens'',
        u ''quand sont les examens'',
        [0x645, 0x648, 0x627, 0x639, 0x64A, 0x62F] @ u '' ''
         @ [0x627, 0x644, 0x627, 0x645, 0x62A, 0x62D, 0x627, 0x646, 0x627, 0x62A],
        [0x645, 0x62A, 0x649] @ u '' ''
         @ [0x627, 0x644, 0x627, 0x645, 0x62A, 0x62D, 0x627, 0x646, 0x627, 0x62A]]\<rparr>"

definition faq_21_en :: pystr where
  "faq_21_en =
      u ''**Exam Checklist:**\<newline>\<newline>'' @ [0x2705]
      @ u '' Required: Student ID (no ID = no entry!), blue/black pens, ''
      @ u ''pencils, eraser\<newline>'' @ [0x2705]
      @ u '' If allowed by instructor: non-programmable calculator, ruler\<newline>''
      @ [0x2705] @ u '' Recommended: clear water bottle, extra pens, watch\<newline>''
      @ u ''\<newline>'' @ [0x274C]
      @ u '' Strictly prohibited: mobile phones, smart watches, notes/books ''
      @ u ''(unless open-book),\<newline>   programmable calculators, earphones, ''
      @ u ''any communication device\<newline>\<newline>Arrive at least ''
      @ u ''15 minutes early.\<newline>Entry is typically denied if you ''
      @ u ''arrive more than 15 minutes late.\<newline>Good luck! '' @ [0x1F340]"

definition faq_21_ar :: pystr where
  "faq_21_ar =
      u ''**'' @ [0x642, 0x627, 0x626, 0x645, 0x629] @ u '' ''
      @ [0x645, 0x633, 0x62A, 0x644, 0x632, 0x645, 0x627, 0x62A] @ u '' ''
      @ [0x627, 0x644, 0x627, 0x645, 0x62A, 0x62D, 0x627, 0x646]
      @ u '':**\<newline>\<newline>'' @ [0x2705] @ u '' ''
      @ [0x625, 0x644, 0x632, 0x627, 0x645, 0x64A] @ u '': ''
      @ [0x628, 0x637, 0x627, 0x642, 0x629] @ u '' ''
      @ [0x627, 0x644, 0x637, 0x627, 0x644, 0x628] @ u '' ('' @ [0x628, 0x62F, 0x648, 0x646]
      @ u '' '' @ [0x628, 0x637, 0x627, 0x642, 0x629] @ u '' = '' @ [0x644, 0x627] @ u '' ''
      @ [0x62F, 0x62E, 0x648, 0x644] @ u ''!)'' @ [0x60C] @ u '' ''
      @ [0x623, 0x642, 0x644, 0x627, 0x645] @ u '' '' @ [0x62D, 0x628, 0x631] @ u '' ''
      @ [0x623, 0x632, 0x631, 0x642] @ u ''/'' @ [0x623, 0x633, 0x648, 0x62F, 0x60C]
      @ u '' '' @ [0x623, 0x642, 0x644, 0x627, 0x645] @ u '' ''
      @ [0x631, 0x635, 0x627, 0x635, 0x60C] @ u '' '' @ [0x645, 0x645, 0x62D, 0x627, 0x629]
      @ u ''\<newline>'' @ [0x2705] @ u '' '' @ [0x625, 0x630, 0x627] @ u '' ''
      @ [0x623, 0x62C, 0x627, 0x632] @ u '' ''
      @ [0x627, 0x644, 0x623, 0x633, 0x62A, 0x627, 0x630] @ u '': '' @ [0x622, 0x644, 0x629]
      @ u '' '' @ [0x62D, 0x627, 0x633, 0x628, 0x629] @ u '' '' @ [0x63A, 0x64A, 0x631]
      @ u '' '' @ [0x642, 0x627, 0x628, 0x644, 0x629] @ u '' ''
      @ [0x644, 0x644, 0x628, 0x631, 0x645, 0x62C, 0x629, 0x60C] @ u '' ''
      @ [0x645, 0x633, 0x637, 0x631, 0x629] @ u ''\<newline>'' @ [0x2705] @ u '' ''
      @ [0x645, 0x648, 0x635, 0x649] @ u '' '' @ [0x628, 0x647] @ u '': ''
      @ [0x632, 0x62C, 0x627, 0x62C, 0x629] @ u '' '' @ [0x645, 0x627, 0x621] @ u '' ''
      @ [0x634, 0x641, 0x627, 0x641, 0x629, 0x60C] @ u '' ''
      @ [0x623, 0x642, 0x644, 0x627, 0x645] @ u '' ''
      @ [0x627, 0x62D, 0x62A, 0x64A, 0x627, 0x637, 0x64A, 0x629, 0x60C] @ u '' ''
      @ [0x633, 0x627, 0x639, 0x629] @ u ''\<newline>\<newline>'' @ [0x274C] @ u '' ''
      @ [0x645, 0x62D, 0x638, 0x648, 0x631] @ u '' ''
      @ [0x62A, 0x645, 0x627, 0x645, 0x627, 0x64B] @ u '': ''
      @ [0x627, 0x644, 0x647, 0x627, 0x62A, 0x641] @ u '' ''
      @ [0x627, 0x644, 0x645, 0x62D, 0x645, 0x648, 0x644, 0x60C] @ u '' ''
      @ [0x627, 0x644, 0x633, 0x627, 0x639, 0x629] @ u '' ''
      @ [0x627, 0x644, 0x630, 0x643, 0x64A, 0x629, 0x60C] @ u '' ''
      @ [0x627, 0x644, 0x623, 0x648, 0x631, 0x627, 0x642] @ u '' ''
      @ [0x648, 0x627, 0x644, 0x643, 0x62A, 0x628] @ u '' ('' @ [0x625, 0x644, 0x627]
      @ u '' '' @ [0x625, 0x630, 0x627] @ u '' '' @ [0x643, 0x627, 0x646] @ u '' ''
      @ [0x627, 0x644, 0x627, 0x645, 0x62A, 0x62D, 0x627, 0x646] @ u '' ''
      @ [0x645, 0x641, 0x62A, 0x648, 0x62D, 0x627, 0x64B] @ u ''),\<newline>   ''
      @ [0x627, 0x644, 0x622, 0x644, 0x627, 0x62A] @ u '' ''
      @ [0x627, 0x644, 0x62D, 0x627, 0x633, 0x628, 0x629] @ u '' ''
      @ [0x627, 0x644, 0x642, 0x627, 0x628, 0x644, 0x629] @ u '' ''
      @ [0x644, 0x644, 0x628, 0x631, 0x645, 0x62C, 0x629, 0x60C] @ u '' ''
      @ [0x633, 0x645, 0x627, 0x639, 0x627, 0x62A] @ u '' ''
      @ [0x627, 0x644, 0x623, 0x630, 0x646, 0x60C] @ u '' '' @ [0x623, 0x64A] @ u '' ''
      @ [0x62C, 0x647, 0x627, 0x632] @ u '' '' @ [0x62A, 0x648, 0x627, 0x635, 0x644]
      @ u ''\<newline>\<newline>'' @ [0x627, 0x62D, 0x636, 0x631] @ u '' ''
      @ [0x642, 0x628, 0x644] @ u '' 15 '' @ [0x62F, 0x642, 0x64A, 0x642, 0x629] @ u '' ''
      @ [0x639, 0x644, 0x649] @ u '' '' @ [0x627, 0x644, 0x623, 0x642, 0x644]
      @ u ''.\<newline>'' @ [0x639, 0x627, 0x62F, 0x629, 0x64B] @ u '' ''
      @ [0x64A, 0x64F, 0x645, 0x646, 0x639] @ u '' ''
      @ [0x627, 0x644, 0x62F, 0x62E, 0x648, 0x644] @ u '' '' @ [0x625, 0x630, 0x627]
      @ u '' '' @ [0x62A, 0x623, 0x62E, 0x631, 0x62A] @ u '' ''
      @ [0x623, 0x643, 0x62B, 0x631] @ u '' '' @ [0x645, 0x646] @ u '' 15 ''
      @ [0x62F, 0x642, 0x64A, 0x642, 0x629] @ u ''.\<newline>''
      @ [0x628, 0x627, 0x644, 0x62A, 0x648, 0x641, 0x64A, 0x642] @ u ''! '' @ [0x1F340]"

definition faq_21_fr :: pystr where
  "faq_21_fr =
      u ''**Liste pour l'examen:**\<newline>\<newline>'' @ [0x2705]
      @ u '' Obligatoire: carte '' @ [0xE9] @ u ''tudiant (sans carte = pas d'entr''
      @ [0xE9] @ u ''e!), stylos bleu/noir, crayons, gomme\<newline>'' @ [0x2705]
      @ u '' Si autoris'' @ [0xE9]
      @ u '' par l'enseignant: calculatrice non programmable, r'' @ [0xE8]
      @ u ''gle\<newline>'' @ [0x2705] @ u '' Recommand'' @ [0xE9]
      @ u '': bouteille d'eau transparente, stylos de rechange, montre\<newline>''
      @ u ''\<newline>'' @ [0x274C] @ u '' Strictement interdit: t'' @ [0xE9] @ u ''l''
      @ [0xE9] @ u ''phone portable, montre connect'' @ [0xE9]
      @ u ''e, notes/livres (sauf examen ouvert),\<newline>   calculatrice ''
      @ u ''programmable, '' @ [0xE9]
      @ u ''couteurs, tout appareil de communication\<newline>\<newline>''
      @ u ''Arrivez au moins 15 minutes '' @ [0xE0] @ u '' l'avance.\<newline>L'entr''
      @ [0xE9] @ u ''e est g'' @ [0xE9] @ u ''n'' @ [0xE9] @ u ''ralement refus'' @ [0xE9]
      @ u ''e apr'' @ [0xE8] @ u ''s 15 minutes de retard.\<newline>Bonne chance! ''
      @ [0x1F340]"

definition faq_21 :: faq where
  "faq_21 =
     \<lparr>faq_id = 21, faq_category = u ''exams'',
      faq_question = u ''What should I bring to exams?'',
      faq_answers = [(u ''en'', faq_21_en), (u ''ar'', faq_21_ar), (u ''fr'', faq_21_fr)],
      faq_keywords =
       [u ''exam'',
        u ''bring'',
        u ''required'',
        u ''allowed'',
        u ''need'',
        u ''apporter'',
        [0x645, 0x627, 0x630, 0x627] @ u '' '' @ [0x623, 0x62D, 0x636, 0x631],
        [0x645, 0x633, 0x62A, 0x644, 0x632, 0x645, 0x627, 0x62A],
        [0x645, 0x627] @ u '' '' @ [0x623, 0x62D, 0x62A, 0x627, 0x62C]],
      faq_variants =
       [u ''what to bring to exam'',
        u ''exam requirements'',
        u ''quoi apporter '' @ [0xE0] @ u '' l'examen'',
        [0x645, 0x627, 0x630, 0x627] @ u '' '' @ [0x623, 0x62D, 0x636, 0x631] @ u '' ''
         @ [0x644, 0x644, 0x627, 0x645, 0x62A, 0x62D, 0x627, 0x646]]\<rparr>"

definition faq_22_en :: pystr where
  "faq_22_en =
      u ''**'' @ u ''{university_name}'' @ u '' '' @ [0x2013]
      @ u '' Contact Information:**\<newline>\<newline>'' @ [0x1F4CD] @ u '' ''
      @ u ''{address}'' @ u ''\<newline>'' @ [0x1F310] @ u '' '' @ u ''{website}''
      @ u ''\<newline>'' @ [0x1F4E7] @ u '' General: '' @ u ''{email_general}''
      @ u ''\<newline>'' @ [0x260E] @ u ''  '' @ u ''{phone_main}''
      @ u ''\<newline>\<newline>Key contacts:\<newline>- Registrar: ''
      @ u ''{email_registrar}'' @ u ''\<newline>- Finance: '' @ u ''{email_finance}''
      @ u ''\<newline>- IT Support: '' @ u ''{email_it}''
      @ u ''\<newline>- Student Affairs: '' @ u ''{email_student}''
      @ u ''\<newline>- Financial Aid: '' @ u ''{email_financial_aid}''
      @ u ''\<newline>- Library: '' @ u ''{email_library}''
      @ u ''\<newline>\<newline>Office hours: Sunday'' @ [0x2013] @ u ''Thursday 8AM''
      @ [0x2013] @ u ''4PM (closed Fri'' @ [0x2013]
      @ u ''Sat)\<newline>Reduced hours during Ramadan.''"

definition faq_22_ar :: pystr where
  "faq_22_ar =
      u ''**'' @ u ''{university_name_ar}'' @ u '' '' @ [0x2013] @ u '' ''
      @ [0x645, 0x639, 0x644, 0x648, 0x645, 0x627, 0x62A] @ u '' ''
      @ [0x627, 0x644, 0x627, 0x62A, 0x635, 0x627, 0x644] @ u '':**\<newline>\<newline>''
      @ [0x1F4CD] @ u '' '' @ u ''{address}'' @ u ''\<newline>'' @ [0x1F310] @ u '' ''
      @ u ''{website}'' @ u ''\<newline>'' @ [0x1F4E7] @ u '' '' @ [0x639, 0x627, 0x645]
      @ u '': '' @ u ''{email_general}'' @ u ''\<newline>'' @ [0x260E] @ u ''  ''
      @ u ''{phone_main}'' @ u ''\<newline>\<newline>'' @ [0x62C, 0x647, 0x627, 0x62A]
      @ u '' '' @ [0x627, 0x644, 0x627, 0x62A, 0x635, 0x627, 0x644] @ u '' ''
      @ [0x627, 0x644, 0x631, 0x626, 0x64A, 0x633, 0x64A, 0x629] @ u '':\<newline>- ''
      @ [0x634, 0x624, 0x648, 0x646] @ u '' ''
      @ [0x627, 0x644, 0x62A, 0x633, 0x62C, 0x64A, 0x644] @ u '': ''
      @ u ''{email_registrar}'' @ u ''\<newline>- ''
      @ [0x627, 0x644, 0x634, 0x624, 0x648, 0x646] @ u '' ''
      @ [0x627, 0x644, 0x645, 0x627, 0x644, 0x64A, 0x629] @ u '': '' @ u ''{email_finance}''
      @ u ''\<newline>- '' @ [0x627, 0x644, 0x62F, 0x639, 0x645] @ u '' ''
      @ [0x627, 0x644, 0x62A, 0x642, 0x646, 0x64A] @ u '': '' @ u ''{email_it}''
      @ u ''\<newline>- '' @ [0x634, 0x624, 0x648, 0x646] @ u '' ''
      @ [0x627, 0x644, 0x637, 0x644, 0x627, 0x628] @ u '': '' @ u ''{email_student}''
      @ u ''\<newline>- '' @ [0x627, 0x644, 0x645, 0x646, 0x62D] @ u '' ''
      @ [0x627, 0x644, 0x62F, 0x631, 0x627, 0x633, 0x64A, 0x629] @ u '': ''
      @ u ''{email_financial_aid}'' @ u ''\<newline>- ''
      @ [0x627, 0x644, 0x645, 0x643, 0x62A, 0x628, 0x629] @ u '': '' @ u ''{email_library}''
      @ u ''\<newline>\<newline>'' @ [0x623, 0x648, 0x642, 0x627, 0x62A] @ u '' ''
      @ [0x627, 0x644, 0x639, 0x645, 0x644] @ u '': ''
      @ [0x627, 0x644, 0x623, 0x62D, 0x62F, 0x2013, 0x627, 0x644, 0x62E, 0x645, 0x64A, 0x633]
      @ u '' 8'' @ [0x635, 0x2013] @ u ''4'' @ [0x645] @ u '' (''
      @ [0x645, 0x63A, 0x644, 0x642] @ u '' ''
      @ [0x627, 0x644, 0x62C, 0x645, 0x639, 0x629, 0x2013, 0x627, 0x644, 0x633, 0x628, 0x62A]
      @ u '')\<newline>'' @ [0x633, 0x627, 0x639, 0x627, 0x62A] @ u '' ''
      @ [0x645, 0x62E, 0x62A, 0x635, 0x631, 0x629] @ u '' '' @ [0x62E, 0x644, 0x627, 0x644]
      @ u '' '' @ [0x631, 0x645, 0x636, 0x627, 0x646] @ u ''.''"

definition faq_22_fr :: pystr where
  "faq_22_fr =
      u ''**'' @ u ''{university_name_fr}'' @ u '' '' @ [0x2013] @ u '' Coordonn'' @ [0xE9]
      @ u ''es:**\<newline>\<newline>'' @ [0x1F4CD] @ u '' '' @ u ''{address}''
      @ u ''\<newline>'' @ [0x1F310] @ u '' '' @ u ''{website}'' @ u ''\<newline>''
      @ [0x1F4E7] @ u '' G'' @ [0xE9] @ u ''n'' @ [0xE9] @ u ''ral: ''
      @ u ''{email_general}'' @ u ''\<newline>'' @ [0x260E] @ u ''  '' @ u ''{phone_main}''
      @ u ''\<newline>\<newline>Contacts cl'' @ [0xE9] @ u ''s:\<newline>- Registraire: ''
      @ u ''{email_registrar}'' @ u ''\<newline>- Finance: '' @ u ''{email_finance}''
      @ u ''\<newline>- Support IT: '' @ u ''{email_it}'' @ u ''\<newline>- Scolarit''
      @ [0xE9] @ u '': '' @ u ''{email_student}'' @ u ''\<newline>- Bourses: ''
      @ u ''{email_financial_aid}'' @ u ''\<newline>- Biblioth'' @ [0xE8] @ u ''que: ''
      @ u ''{email_library}'' @ u ''\<newline>\<newline>Horaires: Dimanche'' @ [0x2013]
      @ u ''Jeudi 8h'' @ [0x2013] @ u ''16h (ferm'' @ [0xE9] @ u '' Ven'' @ [0x2013]
      @ u ''Sam)\<newline>Horaires r'' @ [0xE9] @ u ''duits pendant le Ramadan.''"

definition faq_22 :: faq where
  "faq_22 =
     \<lparr>faq_id = 22, faq_category = u ''contact'',
      faq_question = u ''How can I contact the university?'',
      faq_answers = [(u ''en'', faq_22_en), (u ''ar'', faq_22_ar), (u ''fr'', faq_22_fr)],
      faq_keywords =
       [u ''contact'',
        u ''phone'',
        u ''email'',
        u ''reach'',
        u ''call'',
        u ''address'',
        u ''contacter'',
        u ''coordonn'' @ [0xE9] @ u ''es'',
        [0x62A, 0x648, 0x627, 0x635, 0x644],
        [0x631, 0x642, 0x645],
        [0x628, 0x631, 0x64A, 0x62F]],
      faq_variants =
       [u ''contact university'',
        u ''phone number'',
        u ''contacter l'universit'' @ [0xE9],
        [0x643, 0x64A, 0x641] @ u '' '' @ [0x623, 0x62A, 0x648, 0x627, 0x635, 0x644]]\<rparr>"

definition FAQS :: "faq list" where
  "FAQS =
     [faq_1, faq_2, faq_3, faq_4, faq_5, faq_6, faq_7, faq_8,
      faq_9, faq_10, faq_11, faq_12, faq_13, faq_14, faq_15, faq_16,
      faq_17, faq_18, faq_19, faq_20, faq_21, faq_22]"


section \<open>Properties used in the statements\<close>

text \<open>
  A directory lookup that succeeded without an active entity: nothing was found, or what
  was found is not active.
\<close>

definition missing_or_inactive :: "(py_error + 'a option) \<Rightarrow> ('a \<Rightarrow> bool option) \<Rightarrow> bool" where
  "missing_or_inactive r active =
     (case r of Inl e \<Rightarrow> False | Inr None \<Rightarrow> True | Inr (Some x) \<Rightarrow> \<not> truthy_flag (active x))"

text \<open>A string without the two brace characters.\<close>

definition brace_free :: "pystr \<Rightarrow> bool" where
  "brace_free s = (123 \<notin> set s \<and> 125 \<notin> set s)"

text \<open>
  A template whose braces occur only as the delimiters of tokens with a key among
  \<open>keys\<close>: an opening brace starts a token \<open>{key}\<close>, and no closing brace stands alone.
\<close>

function wf_template :: "pystr list \<Rightarrow> pystr \<Rightarrow> bool" where
  "wf_template keys [] = True"
| "wf_template keys (c # cs) =
     (if c = 123
      then (case find (\<lambda>k. prefix (k @ [125]) cs) keys of
              Some k \<Rightarrow> wf_template keys (drop (Suc (length k)) cs)
            | None \<Rightarrow> False)
      else c \<noteq> 125 \<and> wf_template keys cs)"
  by pat_completeness auto
termination
  by (relation "measure (\<lambda>(keys, t). length t)") auto

text \<open>The fields of an institution snapshot that reach the placeholder map.\<close>

definition snapshot_fields :: "university option \<Rightarrow> pystr list" where
  "snapshot_fields university =
     (case university of
        None \<Rightarrow> []
      | Some un \<Rightarrow> concat (map (\<lambda>x. case x of None \<Rightarrow> [] | Some s \<Rightarrow> [s])
                       [uni_name un, uni_name_ar un, uni_city un, uni_website un,
                        uni_email un, uni_phone un, uni_address un]))"

text \<open>The keys of the placeholder map, in its order.\<close>

definition PLACEHOLDER_KEYS :: "pystr list" where
  "PLACEHOLDER_KEYS = map fst (build_placeholders None)"

text \<open>Every answer template of a catalog uses braces only for tokens of the placeholder map.\<close>

definition catalog_wf :: "faq list \<Rightarrow> bool" where
  "catalog_wf faqs = list_all (\<lambda>f. list_all (\<lambda>(l, t). wf_template PLACEHOLDER_KEYS t) (faq_answers f)) faqs"


section \<open>A concrete library for evaluation\<close>

text \<open>
  The theorems below hold for every \<open>pylib\<close>.  To evaluate the engine on concrete
  queries, \<open>latin_arabic\<close> gives the four operations as CPython 3.11 (Unicode 14) has them
  on strings whose code points lie below \<open>U+0100\<close>, in the Arabic block
  \<open>U+0600\<close>--\<open>U+06FF\<close> or in the block Arabic Presentation Forms-B
  \<open>U+FE70\<close>--\<open>U+FEFF\<close>; the catalog's questions, keywords and variants are strings of
  the first two kinds.
\<close>

definition latin_lower :: "nat \<Rightarrow> nat" where
  "latin_lower c =
     (if (0x41 \<le> c \<and> c \<le> 0x5A) \<or> (0xC0 \<le> c \<and> c \<le> 0xDE \<and> c \<noteq> 0xD7) then c + 32 else c)"

definition latin_arabic_isalnum :: "nat \<Rightarrow> bool" where
  "latin_arabic_isalnum c =
     list_ex (\<lambda>(lo, hi). lo \<le> c \<and> c \<le> hi)
       [(0x30, 0x39), (0x41, 0x5A), (0x61, 0x7A), (0xAA, 0xAA), (0xB2, 0xB3), (0xB5, 0xB5),
        (0xB9, 0xBA), (0xBC, 0xBE), (0xC0, 0xD6), (0xD8, 0xF6), (0xF8, 0xFF),
        (0x620, 0x64A), (0x660, 0x669), (0x66E, 0x66F), (0x671, 0x6D3), (0x6D5, 0x6D5),
        (0x6E5, 0x6E6), (0x6EE, 0x6FC), (0x6FF, 0x6FF), (0xFE70, 0xFE74), (0xFE76, 0xFEFC)]"

definition latin_isspace :: "nat \<Rightarrow> bool" where
  "latin_isspace c = ((0x09 \<le> c \<and> c \<le> 0x0D) \<or> (0x1C \<le> c \<and> c \<le> 0x20) \<or> c = 0x85 \<or> c = 0xA0)"

text \<open>
  \<open>difflib.SequenceMatcher(None, a, b)\<close>.  With \<open>autojunk\<close>, an element of a \<open>b\<close> of 200
  or more elements that occurs more than \<open>len(b) // 100 + 1\<close> times is popular and is left
  out of the index the matcher searches.
\<close>

definition popular :: "pystr \<Rightarrow> nat \<Rightarrow> bool" where
  "popular b = (if length b < 200 then (\<lambda>x. False)
                else (\<lambda>x. length b div 100 + 1 < count_list b x))"

text \<open>The common run at the start of two sequences, over elements that are not popular.\<close>

fun run_length :: "(nat \<Rightarrow> bool) \<Rightarrow> pystr \<Rightarrow> pystr \<Rightarrow> nat" where
  "run_length pop (x # xs) (y # ys) =
     (if x = y then (if pop y then 0 else Suc (run_length pop xs ys)) else 0)"
| "run_length pop xs ys = 0"

text \<open>
  The search of \<open>find_longest_match\<close>: the longest run; of the longest, the one that starts
  earliest in \<open>a\<close>; of those, the one that starts earliest in \<open>b\<close>.  The first argument
  after \<open>pop\<close> is the rest of \<open>a\<close> from index \<open>i\<close>, the next the rest of \<open>b\<close> from \<open>j\<close>.
\<close>

fun best_in_row ::
    "(nat \<Rightarrow> bool) \<Rightarrow> pystr \<Rightarrow> nat \<Rightarrow> pystr \<Rightarrow> nat \<Rightarrow> nat \<times> nat \<times> nat \<Rightarrow> nat \<times> nat \<times> nat" where
  "best_in_row pop as i [] j best = best"
| "best_in_row pop as i (y # ys) j (bi, bj, bk) =
     best_in_row pop as i ys (Suc j)
       (if run_length pop as (y # ys) > bk then (i, j, run_length pop as (y # ys))
        else (bi, bj, bk))"

fun best_run ::
    "(nat \<Rightarrow> bool) \<Rightarrow> pystr \<Rightarrow> nat \<Rightarrow> pystr \<Rightarrow> nat \<times> nat \<times> nat \<Rightarrow> nat \<times> nat \<times> nat" where
  "best_run pop [] i b best = best"
| "best_run pop (x # xs) i b best =
     best_run pop xs (Suc i) b (best_in_row pop (x # xs) i b 0 best)"

text \<open>The run is then extended to the left over equal elements, popular or not.\<close>

fun extend_left :: "pystr \<Rightarrow> pystr \<Rightarrow> nat \<Rightarrow> nat \<Rightarrow> nat \<Rightarrow> nat \<times> nat \<times> nat" where
  "extend_left a b (Suc i) (Suc j) k =
     (if i < length a \<and> j < length b \<and> a ! i = b ! j then extend_left a b i j (Suc k)
      else (Suc i, Suc j, k))"
| "extend_left a b i j k = (i, j, k)"

definition find_longest_match :: "(nat \<Rightarrow> bool) \<Rightarrow> pystr \<Rightarrow> pystr \<Rightarrow> nat \<times> nat \<times> nat" where
  "find_longest_match pop a b =
     (let (i0, j0, k0) = best_run pop a 0 b (0, 0, 0);
          (i, j, k) = extend_left a b i0 j0 k0
      in (i, j, k + run_length (\<lambda>x. False) (drop (i + k) a) (drop (j + k) b)))"

text \<open>
  The total size of the matching blocks: the longest match, then the same to its left and
  to its right.  \<open>fuel\<close> bounds the depth of the recursion; a call with a match of positive
  size recurses on strictly shorter sequences, so the length of \<open>a\<close> is enough.
\<close>

fun matching_total :: "nat \<Rightarrow> (nat \<Rightarrow> bool) \<Rightarrow> pystr \<Rightarrow> pystr \<Rightarrow> nat" where
  "matching_total 0 pop a b = 0"
| "matching_total (Suc fuel) pop a b =
     (let (i, j, k) = find_longest_match pop a b
      in if k = 0 then 0
         else k
              + (if 0 < i \<and> 0 < j then matching_total fuel pop (take i a) (take j b) else 0)
              + (if i + k < length a \<and> j + k < length b
                 then matching_total fuel pop (drop (i + k) a) (drop (j + k) b) else 0))"

text \<open>\<open>ratio\<close>: \<open>2.0 * matches / length\<close> in floats, and \<open>1.0\<close> when both are empty.\<close>

definition difflib_ratio :: "pystr \<Rightarrow> pystr \<Rightarrow> rat" where
  "difflib_ratio a b =
     (if length a + length b = 0 then 1
      else fdiv (fmul 2 (float_of_nat (matching_total (Suc (length a)) (popular b) a b)))
                (float_of_nat (length a + length b)))"

definition latin_arabic :: pylib where
  "latin_arabic =
     \<lparr>str_lower = map latin_lower, isalnum = latin_arabic_isalnum, isspace = latin_isspace,
      ratio = difflib_ratio\<rparr>"


section \<open>Concrete inputs\<close>

definition batna :: university where
  "batna = \<lparr>uni_id = 1, uni_name = Some (u ''Batna 2''), uni_name_ar = None,
            uni_city = Some (u ''Batna''), uni_website = None, uni_email = None,
            uni_phone = None, uni_address = None, uni_is_active = Some True\<rparr>"

definition closed_uni :: university where
  "closed_uni = batna\<lparr>uni_id := 2, uni_is_active := Some False\<rparr>"

text \<open>A directory with one active university that has no active faculty.\<close>

definition no_faculties :: directory where
  "no_faculties =
     \<lparr>university_get =
        (\<lambda>i. Inr (if i = 1 then Some batna else if i = 2 then Some closed_uni else None)),
      faculty_get = (\<lambda>i. Inr None),
      department_get = (\<lambda>i. Inr None),
      active_faculties = (\<lambda>i. Inr []),
      active_departments = (\<lambda>i. Inr [])\<rparr>"

text \<open>The store after user 7 has sent \<open>/start\<close>.\<close>

definition started :: sessions where
  "started = Map.empty(7 \<mapsto> new_session 0)"

definition silent :: collaborators where
  "silent = \<lparr>get_university_context = (\<lambda>i. Inr None),
             search_knowledge = (\<lambda>q i n. Inr []),
             generate_chat_response = (\<lambda>h c k. Inr (u ''ok''))\<rparr>"

definition eleven_turns :: "turn list" where
  "eleven_turns = map (\<lambda>n. \<lparr>role = u ''user'', content = [48 + n]\<rparr>) [0, 1, 2, 3, 4, 5, 6, 7, 8, 9, 10]"


text \<open>An institution whose city, phone and address are not recorded.\<close>

definition no_city :: university where
  "no_city = batna\<lparr>uni_city := None\<rparr>"

text \<open>An institution whose name is, literally, a placeholder token.\<close>

definition braces_uni :: university where
  "braces_uni = batna\<lparr>uni_name := Some (u ''{university_name}'')\<rparr>"

text \<open>The entry "How are you?" twice; the copy differs in its id only.\<close>

definition faq_2_copy :: faq where
  "faq_2_copy = faq_2\<lparr>faq_id := 23\<rparr>"

text \<open>French words and a diacritic followed by two Arabic letters.\<close>

definition mixed_text :: pystr where
  "mixed_text = u ''bonjour je suis '' @ [0xE9] @ u ''tudiant '' @ [0x645, 0x631]"

text \<open>
  The Arabic word for "no" written with the presentation form \<open>U+FEFB\<close>, ARABIC LIGATURE
  LAM WITH ALEF ISOLATED FORM, twice: two code points of the Arabic script.
\<close>

definition la_la :: pystr where
  "la_la = [0xFEFB, 0x20, 0xFEFB]"


section \<open>Rounding to the nearest float\<close>

text \<open>
  What the theorems need of \<open>fl\<close>: it is what the definition says it is, the rounding
  of a number to a multiple of the unit in its last place, and it keeps the order.
\<close>

declare bit_length.simps [simp del]

lemma bit_length_0: "bit_length 0 = 0"
  by (subst bit_length.simps) simp

lemma bit_length_pos: "0 < n \<Longrightarrow> bit_length n = Suc (bit_length (n div 2))"
  by (subst bit_length.simps) simp

lemma bit_length_upper: "n < 2 ^ bit_length n"
proof (induction n rule: less_induct)
  case (less n)
  show ?case
  proof (cases "n = 0")
    case True
    then show ?thesis by (simp add: bit_length_0)
  next
    case False
    then have "n div 2 < n" by simp
    from less[OF this] have "n div 2 < 2 ^ bit_length (n div 2)" .
    then have "n < 2 * 2 ^ bit_length (n div 2)" by linarith
    with False show ?thesis by (simp add: bit_length_pos)
  qed
qed

lemma bit_length_lower: "0 < n \<Longrightarrow> 2 ^ (bit_length n - 1) \<le> n"
proof (induction n rule: less_induct)
  case (less n)
  show ?case
  proof (cases "n div 2 = 0")
    case True
    with less.prems show ?thesis by (simp add: bit_length_pos bit_length_0)
  next
    case False
    then have pos: "0 < n div 2" by simp
    have "n div 2 < n" using less.prems by simp
    from less.IH[OF this pos] have ih: "2 ^ (bit_length (n div 2) - 1) \<le> n div 2" .
    have "bit_length (n div 2) = Suc (bit_length (n div 2) - 1)"
      using pos by (simp add: bit_length_pos)
    then have "(2::nat) ^ bit_length (n div 2) = 2 * 2 ^ (bit_length (n div 2) - 1)"
      by (metis power_Suc)
    with ih have "2 ^ bit_length (n div 2) \<le> n" by linarith
    with less.prems show ?thesis by (simp add: bit_length_pos)
  qed
qed

lemma powi_neg_nat: "(2::rat) powi (- int k) = 1 / 2 ^ k"
  by (simp add: power_int_minus field_simps)

lemma ilog2_bounds:
  assumes "0 < x"
  shows "2 powi ilog2 x \<le> x" and "x < 2 powi (ilog2 x + 1)"
proof -
  have "2 powi ilog2 x \<le> x \<and> x < 2 powi (ilog2 x + 1)"
  proof (cases "1 \<le> x")
    case True
    let ?n = "nat \<lfloor>x\<rfloor>"
    have fl1: "1 \<le> \<lfloor>x\<rfloor>" using True by linarith
    then have npos: "0 < ?n" by simp
    have il: "ilog2 x = int (bit_length ?n) - 1" using True by (simp add: ilog2_def)
    have blpos: "0 < bit_length ?n" using npos by (simp add: bit_length_pos)
    have "(2::rat) powi ilog2 x = 2 ^ (bit_length ?n - 1)"
      using blpos unfolding il by (simp add: power_int_def nat_diff_distrib' int_ops)
    also have "\<dots> = of_nat (2 ^ (bit_length ?n - 1))" by simp
    also have "\<dots> \<le> of_nat ?n" using bit_length_lower[OF npos] of_nat_le_iff by blast
    also have "\<dots> = of_int \<lfloor>x\<rfloor>" using fl1 by simp
    also have "\<dots> \<le> x" by simp
    finally have lo: "2 powi ilog2 x \<le> x" .
    have "x < of_int (\<lfloor>x\<rfloor> + 1)" by linarith
    also have "\<dots> = of_nat (?n + 1)" using fl1 by simp
    also have "\<dots> \<le> of_nat (2 ^ bit_length ?n)"
      using bit_length_upper[of ?n] by (metis Suc_eq_plus1 Suc_leI of_nat_le_iff)
    also have "\<dots> = 2 powi (ilog2 x + 1)" unfolding il by (simp add: power_int_def)
    finally have "x < 2 powi (ilog2 x + 1)" .
    with lo show ?thesis by simp
  next
    case False
    let ?y = "1 / x"
    let ?n = "nat (\<lceil>?y\<rceil> - 1)"
    let ?k = "bit_length ?n"
    have y1: "1 < ?y" using False assms by simp
    then have c2: "2 \<le> \<lceil>?y\<rceil>" by linarith
    then have npos: "0 < ?n" by simp
    have il: "ilog2 x = - int ?k" using False by (simp add: ilog2_def)
    have kpos: "0 < ?k" using npos by (simp add: bit_length_pos)
    have "0 \<le> \<lceil>?y\<rceil> - 1" using c2 by linarith
    then have n_eq: "int ?n = \<lceil>?y\<rceil> - 1" by (rule nat_0_le)
    then have nn: "int (?n + 1) = \<lceil>?y\<rceil>" by linarith
    have "?y \<le> of_int \<lceil>?y\<rceil>" by simp
    also have "\<dots> = of_int (int (?n + 1))" by (simp only: nn)
    also have "\<dots> = of_nat (?n + 1)" by (simp only: of_int_of_nat_eq)
    also have "\<dots> \<le> of_nat (2 ^ ?k)"
      using bit_length_upper[of ?n] by (metis Suc_eq_plus1 Suc_leI of_nat_le_iff)
    also have "\<dots> = 2 ^ ?k" by simp
    finally have "?y \<le> 2 ^ ?k" .
    then have "1 \<le> 2 ^ ?k * x" using assms by (simp add: field_simps)
    then have "1 / 2 ^ ?k \<le> x" by (simp add: field_simps)
    then have lo: "2 powi ilog2 x \<le> x" unfolding il by (simp only: powi_neg_nat)
    have "(2::rat) ^ (?k - 1) = of_nat (2 ^ (?k - 1))" by simp
    also have "\<dots> \<le> of_nat ?n" using bit_length_lower[OF npos] of_nat_le_iff by blast
    also have "\<dots> = of_int (int ?n)" by (simp only: of_int_of_nat_eq)
    also have "\<dots> = of_int (\<lceil>?y\<rceil> - 1)" by (simp only: n_eq)
    also have "\<dots> < ?y" by linarith
    finally have "2 ^ (?k - 1) < ?y" .
    then have "2 ^ (?k - 1) * x < 1" using assms by (simp add: field_simps)
    then have "x < 1 / 2 ^ (?k - 1)" by (simp add: field_simps)
    also have "\<dots> = 2 powi (- int (?k - 1))" by (simp only: powi_neg_nat)
    also have "- int (?k - 1) = ilog2 x + 1" using kpos unfolding il by linarith
    finally have "x < 2 powi (ilog2 x + 1)" .
    with lo show ?thesis by simp
  qed
  then show "2 powi ilog2 x \<le> x" and "x < 2 powi (ilog2 x + 1)" by simp_all
qed


lemma round_half_even_mono:
  assumes "x \<le> y" shows "round_half_even x \<le> round_half_even y"
proof (cases "\<lfloor>x\<rfloor> = \<lfloor>y\<rfloor>")
  case True
  with assms show ?thesis
    unfolding round_half_even_def Let_def by auto
next
  case False
  with assms have lt: "\<lfloor>x\<rfloor> < \<lfloor>y\<rfloor>" using floor_mono[OF assms] by linarith
  have "round_half_even x \<le> \<lfloor>x\<rfloor> + 1" unfolding round_half_even_def Let_def by auto
  moreover have "\<lfloor>y\<rfloor> \<le> round_half_even y" unfolding round_half_even_def Let_def by auto
  ultimately show ?thesis using lt by linarith
qed

lemma round_half_even_of_int: "round_half_even (of_int k) = k"
  unfolding round_half_even_def Let_def by simp

lemma round_half_even_minus: "round_half_even (- x) = - round_half_even x"
proof (cases "x = of_int \<lfloor>x\<rfloor>")
  case True
  then obtain k where k: "x = of_int k" ..
  have "- x = of_int (- k)" by (simp add: k)
  then have "round_half_even (- x) = - k" by (simp only: round_half_even_of_int)
  then show ?thesis by (simp add: k round_half_even_of_int)
next
  case False
  then have lt: "of_int \<lfloor>x\<rfloor> < x" by (metis floor_correct order_less_le of_int_floor_le)
  have "x < of_int \<lfloor>x\<rfloor> + 1" by linarith
  with lt have f: "\<lfloor>- x\<rfloor> = - \<lfloor>x\<rfloor> - 1" by (intro floor_unique) simp_all
  have d: "- x - of_int \<lfloor>- x\<rfloor> = 1 - (x - of_int \<lfloor>x\<rfloor>)" by (simp add: f)
  have ev: "even (- \<lfloor>x\<rfloor> - 1) \<longleftrightarrow> odd \<lfloor>x\<rfloor>" by simp
  show ?thesis
    unfolding round_half_even_def Let_def d unfolding f ev
    by (auto simp: algebra_simps)
qed

lemma pow2_pos: "0 < (2::rat) powi e"
  by (simp add: zero_less_power_int)

lemma round_to_mono: "x \<le> y \<Longrightarrow> round_to e x \<le> round_to e y"
  unfolding round_to_def
  by (intro mult_right_mono) (simp_all add: round_half_even_mono divide_right_mono pow2_pos less_imp_le)

lemma round_to_exact: "round_to e (of_int n * 2 powi e) = of_int n * 2 powi e"
  unfolding round_to_def using pow2_pos[of e]
  by (simp add: round_half_even_of_int)

lemma round_to_minus: "round_to e (- x) = - round_to e x"
  unfolding round_to_def by (simp add: round_half_even_minus)

lemma fl_minus: "fl (- x) = - fl x"
  unfolding fl_def by (simp add: round_to_minus)

lemma pow2_split: "(2::rat) powi (k + int n) = of_int (2 ^ n) * 2 powi k"
  by (simp add: power_int_add)

lemma fl_pos_upper:
  assumes "0 < x"
  shows "fl x \<le> 2 powi (max (ilog2 x) (- 1022) + 1)"
proof -
  let ?k = "max (ilog2 x) (- 1022)"
  let ?e = "?k - 52"
  have eq: "(2::rat) powi (?k + 1) = of_int (2 ^ 53) * 2 powi ?e"
    using pow2_split[of ?e 53] by (simp add: algebra_simps)
  have "x < 2 powi (ilog2 x + 1)" using ilog2_bounds(2)[OF assms] .
  also have "\<dots> \<le> 2 powi (?k + 1)" by (intro power_int_increasing) simp_all
  finally have "x \<le> of_int (2 ^ 53) * 2 powi ?e" unfolding eq by simp
  from round_to_mono[OF this, of ?e] have "round_to ?e x \<le> of_int (2 ^ 53) * 2 powi ?e"
    by (simp only: round_to_exact)
  then show ?thesis using assms unfolding eq fl_def by simp
qed

lemma fl_pos_lower:
  assumes "0 < x" and "- 1022 \<le> ilog2 x"
  shows "2 powi ilog2 x \<le> fl x"
proof -
  let ?k = "ilog2 x"
  let ?e = "?k - 52"
  have eq: "(2::rat) powi ?k = of_int (2 ^ 52) * 2 powi ?e"
    using pow2_split[of ?e 52] by (simp add: algebra_simps)
  have "of_int (2 ^ 52) * 2 powi ?e \<le> x" using ilog2_bounds(1)[OF assms(1)] unfolding eq .
  from round_to_mono[OF this, of ?e] have "of_int (2 ^ 52) * 2 powi ?e \<le> round_to ?e x"
    by (simp only: round_to_exact)
  moreover have "max ?k (- 1022) = ?k" using assms(2) by simp
  ultimately show ?thesis using assms(1) unfolding eq fl_def by simp
qed

lemma ilog2_mono:
  assumes "0 < x" and "x \<le> y"
  shows "ilog2 x \<le> ilog2 y"
proof -
  have y: "0 < y" using assms by simp
  have "2 powi ilog2 x \<le> x" using ilog2_bounds(1)[OF assms(1)] .
  also have "x \<le> y" by fact
  also have "y < 2 powi (ilog2 y + 1)" using ilog2_bounds(2)[OF y] .
  finally have lt: "(2::rat) powi ilog2 x < 2 powi (ilog2 y + 1)" .
  have "ilog2 x < ilog2 y + 1"
  proof (rule ccontr)
    assume "\<not> ilog2 x < ilog2 y + 1"
    then have "(2::rat) powi (ilog2 y + 1) \<le> 2 powi ilog2 x"
      by (intro power_int_increasing) simp_all
    with lt show False by simp
  qed
  then show ?thesis by simp
qed

lemma fl_mono_pos:
  assumes "0 < x" and "x \<le> y"
  shows "fl x \<le> fl y"
proof -
  have y: "0 < y" using assms by simp
  let ?kx = "max (ilog2 x) (- 1022)"
  let ?ky = "max (ilog2 y) (- 1022)"
  have le: "?kx \<le> ?ky" using ilog2_mono[OF assms] by simp
  show ?thesis
  proof (cases "?kx = ?ky")
    case True
    have "round_to (?kx - 52) x \<le> round_to (?kx - 52) y" using assms(2) by (rule round_to_mono)
    then show ?thesis using assms(1) y True unfolding fl_def by simp
  next
    case False
    from le False have lt: "?kx < ?ky" by (rule le_neq_trans)
    from lt have ky: "?ky = ilog2 y" and big: "- 1022 \<le> ilog2 y"
      by (auto simp: max_def split: if_splits)
    have "fl x \<le> 2 powi (?kx + 1)" using fl_pos_upper[OF assms(1)] .
    also have "\<dots> \<le> 2 powi ilog2 y"
    proof (intro power_int_increasing)
      show "?kx + 1 \<le> ilog2 y" using lt unfolding ky by linarith
    qed simp
    also have "\<dots> \<le> fl y" using fl_pos_lower[OF y big] .
    finally show ?thesis .
  qed
qed

lemma round_to_nonneg: "0 \<le> x \<Longrightarrow> 0 \<le> round_to e x"
  using round_to_mono[of 0 x e] round_to_exact[of e 0] by simp

lemma fl_nonneg: "0 \<le> x \<Longrightarrow> 0 \<le> fl x"
  unfolding fl_def by (simp add: round_to_nonneg)

lemma fl_mono:
  assumes "x \<le> y"
  shows "fl x \<le> fl y"
proof -
  consider "0 < x" | "x \<le> 0" "0 \<le> y" | "y < 0" by linarith
  then show ?thesis
  proof cases
    case 1
    then show ?thesis using assms by (rule fl_mono_pos)
  next
    case 2
    have "0 \<le> fl (- x)" using 2(1) by (intro fl_nonneg) simp
    then have "fl x \<le> 0" by (simp add: fl_minus)
    also have "0 \<le> fl y" using 2(2) by (rule fl_nonneg)
    finally show ?thesis .
  next
    case 3
    have "fl (- y) \<le> fl (- x)" using 3 assms by (intro fl_mono_pos) simp_all
    then show ?thesis by (simp add: fl_minus)
  qed
qed

lemma py_round2_mono: "x \<le> y \<Longrightarrow> py_round2 x \<le> py_round2 y"
  unfolding py_round2_def
  by (intro fl_mono) (simp add: round_half_even_mono divide_right_mono)

text \<open>Evaluation of \<open>fl\<close> on numerals.\<close>

lemma floor_rat_numeral: "\<lfloor>numeral a / numeral b :: rat\<rfloor> = numeral a div numeral b"
  using floor_divide_of_int_eq[of "numeral a" "numeral b", where 'a=rat] by simp

lemma ceiling_rat_numeral: "\<lceil>numeral a / numeral b :: rat\<rceil> = - (- numeral a div numeral b)"
  using ceiling_divide_eq_div[of "numeral a" "numeral b"]
  by (simp add: ceiling_def floor_minus_divide_eq_div_numeral)

lemma bit_length_Suc_0: "bit_length (Suc 0) = Suc 0"
  by (simp add: bit_length_pos bit_length_0)

lemma bit_length_Bit0: "bit_length (numeral (Num.Bit0 k)) = Suc (bit_length (numeral k))"
  by (simp add: bit_length_pos)

lemma bit_length_Bit1: "bit_length (numeral (Num.Bit1 k)) = Suc (bit_length (numeral k))"
  by (simp add: bit_length_pos)

lemmas fl_eval = fl_def round_to_def ilog2_def round_half_even_def Let_def
  bit_length_0 bit_length_Suc_0 bit_length_Bit0 bit_length_Bit1
  floor_rat_numeral ceiling_rat_numeral fadd_def fmul_def fdiv_def truediv_def float_of_nat_def

lemma fl_0: "fl 0 = 0"
  by (simp add: fl_def)

lemma fl_1: "fl 1 = 1"
  by (simp add: fl_eval)

lemma fl_3_10: "fl (3 / 10) = 5404319552844595 / 18014398509481984"
  by (simp add: fl_eval)

lemma fl_4_10: "fl (4 / 10) = 3602879701896397 / 9007199254740992"
  by (simp add: fl_eval)

lemma fl_6_10: "fl (6 / 10) = 5404319552844595 / 9007199254740992"
  by (simp add: fl_eval)

lemma fl_15_100: "fl (15 / 100) = 5404319552844595 / 36028797018963968"
  by (simp add: fl_eval)

lemma fl_quarter: "fl (1 / 4) = 1 / 4"
  by (simp add: fl_eval)

text \<open>Rounding to two places leaves the default threshold 0.25 as it is.\<close>

lemma py_round2_quarter: "py_round2 (fl (25 / 100)) = fl (25 / 100)"
  by (simp add: py_round2_def fl_eval)


section \<open>The bounded history\<close>

lemma turn_eta: "\<lparr>role = role t, content = content t\<rparr> = (t::turn)"
  by (cases t) simp

lemma history_append:
  "history_of (append_history now ss uid r c) uid =
     (let h = history_of ss uid @ [\<lparr>role = r, content = c\<rparr>]
      in drop (length h - MAX_HISTORY_MESSAGES) h)"
  by (auto simp: append_history_def get_session_def history_of_def new_session_def Let_def
           split: option.splits)

lemma drop_last_twice:
  "drop (length (drop (length xs - n) xs @ ys) - n) (drop (length xs - n) xs @ ys)
     = drop (length (xs @ ys) - n) (xs @ ys)"
  by (cases "length xs \<le> n") (auto simp: add.commute)

lemma history_append_all:
  "ts \<noteq> [] \<Longrightarrow> history_of (append_all now ss uid ts) uid =
     drop (length (history_of ss uid @ ts) - MAX_HISTORY_MESSAGES) (history_of ss uid @ ts)"
proof (induction ts arbitrary: ss)
  case Nil
  then show ?case by simp
next
  case (Cons t ts)
  show ?case
  proof (cases "ts = []")
    case True
    then show ?thesis by (simp add: history_append Let_def turn_eta)
  next
    case False
    let ?h = "history_of ss uid @ [t]"
    from Cons.IH[OF False, of "append_history now ss uid (role t) (content t)"]
    have "history_of (append_all now ss uid (t # ts)) uid =
        drop (length (drop (length ?h - MAX_HISTORY_MESSAGES) ?h @ ts) - MAX_HISTORY_MESSAGES)
          (drop (length ?h - MAX_HISTORY_MESSAGES) ?h @ ts)"
      by (simp add: history_append Let_def turn_eta)
    also have "\<dots> = drop (length (?h @ ts) - MAX_HISTORY_MESSAGES) (?h @ ts)"
      by (rule drop_last_twice)
    finally show ?thesis by simp
  qed
qed

lemma history_length_cap:
  "length (history_of ss uid) \<le> 10 \<Longrightarrow> length (history_of (append_all now ss uid ts) uid) \<le> 10"
  by (cases "ts = []") (simp_all add: history_append_all MAX_HISTORY_MESSAGES_def)

lemma history_after_eleven:
  assumes "history_of ss uid = []" "length ts = 11"
  shows "history_of (append_all now ss uid ts) uid = tl ts"
proof -
  from assms(2) have "ts \<noteq> []" by auto
  with assms show ?thesis
    by (simp add: history_append_all MAX_HISTORY_MESSAGES_def drop_Suc)
qed

text \<open>
  Claim C4.  Whatever the store and the user, after any sequence of append-turn calls the
  user's history has at most 10 turns, provided it had at most 10 before (a new session
  has none), and in any case once one turn has been appended; every prefix of the
  sequence is such a sequence, so the bound holds after each call.  Eviction drops the oldest turn: 11 appends to an empty history leave the
  2nd to the 11th turn, in order, so the list has length 10, the 11th turn is its last
  element and the 1st is gone.
\<close>

theorem history_capped_fifo:
  "(length (history_of ss user_id) \<le> 10 \<longrightarrow>
      length (history_of (append_all now ss user_id ts) user_id) \<le> 10)
   \<and> (ts \<noteq> [] \<longrightarrow> length (history_of (append_all now ss user_id ts) user_id) \<le> 10)
   \<and> (history_of ss user_id = [] \<and> length ts = 11 \<longrightarrow>
        history_of (append_all now ss user_id ts) user_id = tl ts
      \<and> length (history_of (append_all now ss user_id ts) user_id) = 10
      \<and> last (history_of (append_all now ss user_id ts) user_id) = ts ! 10
      \<and> (hd ts \<notin> set (tl ts) \<longrightarrow> hd ts \<notin> set (history_of (append_all now ss user_id ts) user_id)))"
proof -
  have "last (tl ts) = ts ! 10" if "length ts = 11"
  proof -
    from that have ne: "tl ts \<noteq> []" by (cases ts) auto
    then have "last (tl ts) = tl ts ! (length (tl ts) - 1)" by (rule last_conv_nth)
    also have "\<dots> = ts ! 10" using that by (simp add: nth_tl)
    finally show ?thesis .
  qed
  moreover have "length (history_of (append_all now ss user_id ts) user_id) \<le> 10" if "ts \<noteq> []"
    using that by (simp add: history_append_all MAX_HISTORY_MESSAGES_def)
  ultimately show ?thesis
    by (auto simp: history_length_cap history_after_eleven)
qed

theorem history_capped_fifo_witness:
  "length (history_of started 7) \<le> 10 \<and> history_of started 7 = [] \<and> length eleven_turns = 11
   \<and> hd eleven_turns \<notin> set (tl eleven_turns)
   \<and> length (history_of (append_all 0 started 7 eleven_turns) 7) = 10
   \<and> history_of (append_all 0 started 7 eleven_turns) 7 = tl eleven_turns
   \<and> last (history_of (append_all 0 started 7 eleven_turns) 7) = \<lparr>role = u ''user'', content = [58]\<rparr>
   \<and> hd eleven_turns \<notin> set (history_of (append_all 0 started 7 eleven_turns) 7)"
proof -
  have a: "history_of started 7 = []"
    by (simp add: history_of_def started_def new_session_def)
  have b: "length eleven_turns = 11" by (simp add: eleven_turns_def)
  have c: "hd eleven_turns \<notin> set (tl eleven_turns)" by (simp add: eleven_turns_def)
  have d: "eleven_turns ! 10 = \<lparr>role = u ''user'', content = [58]\<rparr>" by (simp add: eleven_turns_def)
  from a b c history_capped_fifo[of started 7 0 eleven_turns]
  have e: "history_of (append_all 0 started 7 eleven_turns) 7 = tl eleven_turns
      \<and> length (history_of (append_all 0 started 7 eleven_turns) 7) = 10
      \<and> last (history_of (append_all 0 started 7 eleven_turns) 7) = eleven_turns ! 10
      \<and> hd eleven_turns \<notin> set (history_of (append_all 0 started 7 eleven_turns) 7)"
    by blast
  have f: "length (history_of started 7) \<le> 10" by (simp add: a)
  show ?thesis
    using a b c e f unfolding d by blast
qed


section \<open>The selection handlers and the message guard\<close>

text \<open>A user without a session, an institution or a sub-unit fails the guard.\<close>

lemma unbound_is_incomplete:
  "(case ss user_id of None \<Rightarrow> True | Some s \<Rightarrow> university_id s = None \<or> faculty_id s = None)
     \<Longrightarrow> \<not> is_setup_complete ss user_id"
  by (auto simp: is_setup_complete_def truthy_id_def split: option.splits)

text \<open>
  Claim C5.  A free-text message from a user whose selection is incomplete (the guard
  \<open>_is_setup_complete\<close> is false, as it is when the institution or the sub-unit is not
  bound or the user has no session) is answered with the directive to complete the
  profile, and the session store is returned as it was: no turn is appended.
\<close>

theorem incomplete_selection_refused:
  assumes "\<not> is_setup_complete ss user_id
           \<or> (case ss user_id of None \<Rightarrow> True
                | Some s \<Rightarrow> university_id s = None \<or> faculty_id s = None)"
  shows "handle_message co now ss user_id user_message = (ss, complete_profile_first)
         \<and> history_of (fst (handle_message co now ss user_id user_message)) user_id
             = history_of ss user_id"
proof -
  from assms have "\<not> is_setup_complete ss user_id"
    using unbound_is_incomplete by blast
  then show ?thesis by (simp add: handle_message_def)
qed

theorem incomplete_selection_refused_witness:
  "\<not> is_setup_complete started 7
   \<and> university_id (new_session 0) = None
   \<and> handle_message silent 5 started 7 (u ''hello'') = (started, complete_profile_first)"
proof -
  have a: "\<not> is_setup_complete started 7"
    by (simp add: is_setup_complete_def started_def new_session_def truthy_id_def)
  have b: "university_id (new_session 0) = None" by (simp add: new_session_def)
  from a have "\<not> is_setup_complete started 7
           \<or> (case started 7 of None \<Rightarrow> True
                | Some s \<Rightarrow> university_id s = None \<or> faculty_id s = None)"
    by blast
  from incomplete_selection_refused[OF this, of silent 5 "u ''hello''"] a b
  show ?thesis by blast
qed

text \<open>
  Claim C6.  When the selected institution, sub-unit or department is not in the
  directory or is not active, the handler answers that it was not found and asks for
  \<open>/start\<close>, and the session store is returned as it was.
\<close>

theorem not_found_leaves_session:
  "(missing_or_inactive (university_get d i) uni_is_active \<longrightarrow>
      handle_university_selected d ss user_id i = (ss, university_not_found))
 \<and> (missing_or_inactive (faculty_get d i) fac_is_active \<longrightarrow>
      handle_faculty_selected d ss user_id i = (ss, faculty_not_found))
 \<and> (missing_or_inactive (department_get d i) dept_is_active \<longrightarrow>
      handle_department_selected d ss user_id i = (ss, department_not_found))"
  by (auto simp: missing_or_inactive_def handle_university_selected_def
        handle_faculty_selected_def handle_department_selected_def
        split: sum.splits option.splits)

theorem not_found_leaves_session_witness:
  "missing_or_inactive (university_get no_faculties 2) uni_is_active
   \<and> handle_university_selected no_faculties started 7 2 = (started, university_not_found)
   \<and> missing_or_inactive (faculty_get no_faculties 3) fac_is_active
   \<and> handle_faculty_selected no_faculties started 7 3 = (started, faculty_not_found)
   \<and> missing_or_inactive (department_get no_faculties 4) dept_is_active
   \<and> handle_department_selected no_faculties started 7 4 = (started, department_not_found)"
proof -
  have a: "missing_or_inactive (university_get no_faculties 2) uni_is_active"
    by (simp add: missing_or_inactive_def no_faculties_def closed_uni_def truthy_flag_def)
  have b: "missing_or_inactive (faculty_get no_faculties 3) fac_is_active"
    by (simp add: missing_or_inactive_def no_faculties_def)
  have c: "missing_or_inactive (department_get no_faculties 4) dept_is_active"
    by (simp add: missing_or_inactive_def no_faculties_def)
  from a b c not_found_leaves_session[of no_faculties 2 started 7]
    not_found_leaves_session[of no_faculties 3 started 7]
    not_found_leaves_session[of no_faculties 4 started 7]
  show ?thesis by simp
qed

text \<open>
  What the institution handler does when the directory has no active faculty for an
  active institution: the faculty name becomes \<open>N/A\<close>, the faculty id stays \<open>None\<close>, and
  the guard of the message handler is therefore false.
\<close>

lemma zero_faculties_not_ready:
  assumes "university_get d i = Inr (Some uni)" "truthy_flag (uni_is_active uni)"
    "active_faculties d i = Inr []" "ss user_id = Some s"
  shows "\<not> is_setup_complete (fst (handle_university_selected d ss user_id i)) user_id
       \<and> fst (handle_university_selected d ss user_id i) user_id
           = Some (s\<lparr>university_id := Some (uni_id uni), university_name := uni_name uni,
                     faculty_id := None, faculty_name := Some NA\<rparr>)"
  using assms
  by (simp add: handle_university_selected_def build_faculty_keyboard_def Let_def
        is_setup_complete_def truthy_id_def)

text \<open>
  Claim C1, at the input where the code departs from it.  User 7 has a new session and
  selects institution 1, which is active and has no active faculty.  The claim says the
  session is then ready; in the code \<open>_is_setup_complete\<close> is false, because the faculty
  id is \<open>None\<close> (only the faculty name is set to \<open>N/A\<close>, and no department field is
  touched), and the next free-text message is refused with the directive.
\<close>

theorem zero_faculties_selection_blocked:
  "is_setup_complete (fst (handle_university_selected no_faculties started 7 1)) 7 = False
   \<and> fst (handle_university_selected no_faculties started 7 1) 7
        = Some ((new_session 0)\<lparr>university_id := Some 1, university_name := Some (u ''Batna 2''),
                                 faculty_id := None, faculty_name := Some NA\<rparr>)
   \<and> snd (handle_message silent 9 (fst (handle_university_selected no_faculties started 7 1)) 7
             (u ''hello'')) = complete_profile_first"
proof -
  have g: "university_get no_faculties 1 = Inr (Some batna)" by (simp add: no_faculties_def)
  have a: "truthy_flag (uni_is_active batna)" by (simp add: batna_def truthy_flag_def)
  have f: "active_faculties no_faculties 1 = Inr []" by (simp add: no_faculties_def)
  have s: "started 7 = Some (new_session 0)" by (simp add: started_def)
  from zero_faculties_not_ready[of no_faculties 1 batna started 7 "new_session 0", OF g a f s]
  show ?thesis
    by (simp add: handle_message_def batna_def)
qed


section \<open>The matcher\<close>

lemma best_loop_cases:
  "best_loop score fs (b, s) = (b', s') \<Longrightarrow>
     (b' = b \<and> s' = s \<and> (\<forall>f\<in>set fs. score f \<le> s)) \<or>
     (\<exists>i<length fs. b' = Some (fs ! i) \<and> s' = score (fs ! i) \<and> s < s'
         \<and> (\<forall>j<i. score (fs ! j) < s') \<and> (\<forall>j<length fs. score (fs ! j) \<le> s'))"
proof (induction fs arbitrary: b s)
  case Nil
  then show ?case by simp
next
  case (Cons f fs)
  show ?case
  proof (cases "score f > s")
    case True
    with Cons.prems have run: "best_loop score fs (Some f, score f) = (b', s')" by simp
    from Cons.IH[OF run] show ?thesis
    proof
      assume same: "b' = Some f \<and> s' = score f \<and> (\<forall>g\<in>set fs. score g \<le> score f)"
      have "\<forall>j<length (f # fs). score ((f # fs) ! j) \<le> s'"
        using same by (auto simp: nth_Cons split: nat.splits)
      with same True have "0 < length (f # fs) \<and> b' = Some ((f # fs) ! 0) \<and> s' = score ((f # fs) ! 0)
          \<and> s < s' \<and> (\<forall>j<0. score ((f # fs) ! j) < s')
          \<and> (\<forall>j<length (f # fs). score ((f # fs) ! j) \<le> s')"
        by simp
      then show ?thesis by blast
    next
      assume "\<exists>i<length fs. b' = Some (fs ! i) \<and> s' = score (fs ! i) \<and> score f < s'
         \<and> (\<forall>j<i. score (fs ! j) < s') \<and> (\<forall>j<length fs. score (fs ! j) \<le> s')"
      then obtain i where i: "i < length fs" "b' = Some (fs ! i)" "s' = score (fs ! i)"
        "score f < s'" "\<forall>j<i. score (fs ! j) < s'" "\<forall>j<length fs. score (fs ! j) \<le> s'"
        by blast
      have a: "\<forall>j<Suc i. score ((f # fs) ! j) < s'"
        using i(4,5) by (auto simp: nth_Cons split: nat.splits)
      have b: "\<forall>j<length (f # fs). score ((f # fs) ! j) \<le> s'"
        using i(4,6) by (auto simp: nth_Cons split: nat.splits)
      have "Suc i < length (f # fs) \<and> b' = Some ((f # fs) ! Suc i) \<and> s' = score ((f # fs) ! Suc i)
          \<and> s < s'"
        using i True by simp
      with a b show ?thesis by blast
    qed
  next
    case False
    with Cons.prems have run: "best_loop score fs (b, s) = (b', s')" by simp
    from Cons.IH[OF run] show ?thesis
    proof
      assume "b' = b \<and> s' = s \<and> (\<forall>g\<in>set fs. score g \<le> s)"
      with False show ?thesis by auto
    next
      assume "\<exists>i<length fs. b' = Some (fs ! i) \<and> s' = score (fs ! i) \<and> s < s'
         \<and> (\<forall>j<i. score (fs ! j) < s') \<and> (\<forall>j<length fs. score (fs ! j) \<le> s')"
      then obtain i where i: "i < length fs" "b' = Some (fs ! i)" "s' = score (fs ! i)"
        "s < s'" "\<forall>j<i. score (fs ! j) < s'" "\<forall>j<length fs. score (fs ! j) \<le> s'"
        by blast
      from False i(4) have fs': "score f < s'" by simp
      have a: "\<forall>j<Suc i. score ((f # fs) ! j) < s'"
        using fs' i(5) by (auto simp: nth_Cons split: nat.splits)
      have b: "\<forall>j<length (f # fs). score ((f # fs) ! j) \<le> s'"
        using fs' i(6) by (auto simp: nth_Cons split: nat.splits)
      have "Suc i < length (f # fs) \<and> b' = Some ((f # fs) ! Suc i) \<and> s' = score ((f # fs) ! Suc i)
          \<and> s < s'"
        using i by simp
      with a b show ?thesis by blast
    qed
  qed
qed


lemma find_best_match_unfold:
  "find_best_match env faqs q t =
     (case best_loop (combined_score env (preprocess env q)) faqs (None, 0) of
        (best, best_score) \<Rightarrow>
          if best_score \<ge> t
          then (case best of None \<Rightarrow> Inl TypeError | Some b \<Rightarrow> Inr (Some (mk_match b best_score)))
          else Inr None)"
  by (simp add: find_best_match_def Let_def)

lemma find_best_match_some:
  assumes "find_best_match env faqs q t = Inr (Some m)"
  shows "\<exists>i<length faqs. m = mk_match (faqs ! i) (combined_score env (preprocess env q) (faqs ! i))
           \<and> t \<le> combined_score env (preprocess env q) (faqs ! i)
           \<and> 0 < combined_score env (preprocess env q) (faqs ! i)
           \<and> (\<forall>j<i. combined_score env (preprocess env q) (faqs ! j)
                       < combined_score env (preprocess env q) (faqs ! i))
           \<and> (\<forall>j<length faqs. combined_score env (preprocess env q) (faqs ! j)
                       \<le> combined_score env (preprocess env q) (faqs ! i))"
proof -
  let ?sc = "combined_score env (preprocess env q)"
  obtain b s where run: "best_loop ?sc faqs (None, 0) = (b, s)" by (cases "best_loop ?sc faqs (None, 0)")
  from assms run have ts: "t \<le> s" and "b \<noteq> None" and m: "m = mk_match (the b) s"
    by (auto simp: find_best_match_unfold split: if_splits option.splits)
  with best_loop_cases[OF run] obtain i where
    "i < length faqs" "b = Some (faqs ! i)" "s = ?sc (faqs ! i)" "0 < s"
    "\<forall>j<i. ?sc (faqs ! j) < s" "\<forall>j<length faqs. ?sc (faqs ! j) \<le> s"
    by blast
  with ts m show ?thesis by auto
qed

lemma find_best_match_none:
  assumes "0 < t"
  shows "find_best_match env faqs q t = Inr None \<longleftrightarrow>
           (\<forall>f\<in>set faqs. combined_score env (preprocess env q) f < t)"
proof -
  let ?sc = "combined_score env (preprocess env q)"
  obtain b s where run: "best_loop ?sc faqs (None, 0) = (b, s)" by (cases "best_loop ?sc faqs (None, 0)")
  from best_loop_cases[OF run] show ?thesis
  proof
    assume a: "b = None \<and> s = 0 \<and> (\<forall>f\<in>set faqs. ?sc f \<le> 0)"
    then have "\<forall>f\<in>set faqs. ?sc f < t" using assms by fastforce
    with a run assms show ?thesis by (simp add: find_best_match_unfold)
  next
    assume "\<exists>i<length faqs. b = Some (faqs ! i) \<and> s = ?sc (faqs ! i) \<and> 0 < s
       \<and> (\<forall>j<i. ?sc (faqs ! j) < s) \<and> (\<forall>j<length faqs. ?sc (faqs ! j) \<le> s)"
    then obtain i where i: "i < length faqs" "b = Some (faqs ! i)" "s = ?sc (faqs ! i)"
      "\<forall>j<length faqs. ?sc (faqs ! j) \<le> s" by blast
    have mx: "\<forall>f\<in>set faqs. ?sc f \<le> s" using i(4) by (auto simp: in_set_conv_nth)
    have mem: "faqs ! i \<in> set faqs" using i(1) by simp
    show ?thesis
    proof (cases "t \<le> s")
      case True
      then have "\<not> ?sc (faqs ! i) < t" using i(3) by simp
      with mem have "\<not> (\<forall>f\<in>set faqs. ?sc f < t)" by blast
      with True run i(2) show ?thesis by (simp add: find_best_match_unfold)
    next
      case False
      with mx have "\<forall>f\<in>set faqs. ?sc f < t" by fastforce
      with False run show ?thesis by (simp add: find_best_match_unfold)
    qed
  qed
qed

lemma find_best_match_no_error:
  assumes "0 < t"
  shows "find_best_match env faqs q t \<noteq> Inl e"
proof -
  let ?sc = "combined_score env (preprocess env q)"
  obtain b s where run: "best_loop ?sc faqs (None, 0) = (b, s)" by (cases "best_loop ?sc faqs (None, 0)")
  from best_loop_cases[OF run] assms run show ?thesis
    by (auto simp: find_best_match_unfold split: option.splits)
qed

text \<open>
  Claim C3.  The combined score of an entry is 0.6 times its keyword score plus 0.4 times
  its semantic score, both on the normalised query, in the floats of the source: the
  constants are the floats \<open>0.6\<close> and \<open>0.4\<close>, and each product and the sum are rounded.
  With the default threshold, the float \<open>0.3\<close>, \<open>find_best_match\<close> returns no match
  exactly when every entry's score is below the threshold; otherwise it returns one entry
  of the catalog whose score is the highest of all and at least the threshold, with
  \<open>round(score, 2)\<close> as its confidence and with the entry's category.  It never raises.
\<close>

theorem find_best_match_highest_or_none:
  "combined_score env query f
     = fl (fl (keyword_score env query f * fl (6 / 10))
           + fl (semantic_score env query f * fl (4 / 10)))
   \<and> (find_best_match env faqs q (fl (3 / 10)) = Inr None
        \<longleftrightarrow> (\<forall>f\<in>set faqs. combined_score env (preprocess env q) f < fl (3 / 10)))
   \<and> ((\<exists>f\<in>set faqs. fl (3 / 10) \<le> combined_score env (preprocess env q) f) \<longrightarrow>
        (\<exists>b\<in>set faqs.
           find_best_match env faqs q (fl (3 / 10))
             = Inr (Some \<lparr>match_faq = b,
                           confidence = py_round2 (combined_score env (preprocess env q) b),
                           match_category = faq_category b\<rparr>)
           \<and> fl (3 / 10) \<le> combined_score env (preprocess env q) b
           \<and> (\<forall>g\<in>set faqs. combined_score env (preprocess env q) g
                                \<le> combined_score env (preprocess env q) b)))"
proof -
  let ?sc = "combined_score env (preprocess env q)"
  let ?t = "fl (3 / 10)"
  have pos: "0 < ?t" by (simp add: fl_3_10)
  have none: "find_best_match env faqs q ?t = Inr None \<longleftrightarrow> (\<forall>f\<in>set faqs. ?sc f < ?t)"
    using pos by (rule find_best_match_none)
  have some: "\<exists>b\<in>set faqs.
           find_best_match env faqs q ?t
             = Inr (Some \<lparr>match_faq = b, confidence = py_round2 (?sc b),
                           match_category = faq_category b\<rparr>)
           \<and> ?t \<le> ?sc b \<and> (\<forall>g\<in>set faqs. ?sc g \<le> ?sc b)"
    if ex: "\<exists>f\<in>set faqs. ?t \<le> ?sc f"
  proof -
    from ex none have "find_best_match env faqs q ?t \<noteq> Inr None" by force
    moreover have "\<And>e. find_best_match env faqs q ?t \<noteq> Inl e"
      using pos by (rule find_best_match_no_error)
    ultimately obtain m where m: "find_best_match env faqs q ?t = Inr (Some m)"
      by (cases "find_best_match env faqs q ?t") auto
    from find_best_match_some[OF m] obtain i where i: "i < length faqs"
      "m = mk_match (faqs ! i) (?sc (faqs ! i))" "?t \<le> ?sc (faqs ! i)"
      "\<forall>j<length faqs. ?sc (faqs ! j) \<le> ?sc (faqs ! i)"
      by blast
    have "\<forall>g\<in>set faqs. ?sc g \<le> ?sc (faqs ! i)" using i(4) by (auto simp: in_set_conv_nth)
    moreover have "faqs ! i \<in> set faqs" using i(1) by simp
    ultimately show ?thesis using m i(2,3) unfolding mk_match_def by blast
  qed
  have def: "combined_score env query f
     = fl (fl (keyword_score env query f * fl (6 / 10))
           + fl (semantic_score env query f * fl (4 / 10)))"
    by (simp only: combined_score_def fadd_def fmul_def)
  from def none some show ?thesis by blast
qed

text \<open>
  Claim C10.  Whatever the threshold, when \<open>find_best_match\<close> returns an entry, no entry
  of the catalog scores higher and every entry before it in the catalog scores strictly
  lower: of the entries that tie for the highest score the earliest is the one returned.
  The scores are the floats the source computes, so a tie is a tie of floats.  The result
  is a function of the library, the catalog, the query and the threshold.
\<close>

theorem find_best_match_first_of_ties:
  "find_best_match env faqs q t = Inr (Some m) \<Longrightarrow>
     \<exists>i<length faqs. match_faq m = faqs ! i
        \<and> (\<forall>j<length faqs. combined_score env (preprocess env q) (faqs ! j)
                               \<le> combined_score env (preprocess env q) (faqs ! i))
        \<and> (\<forall>j<i. combined_score env (preprocess env q) (faqs ! j)
                       < combined_score env (preprocess env q) (faqs ! i))"
proof -
  assume "find_best_match env faqs q t = Inr (Some m)"
  from find_best_match_some[OF this] obtain i where "i < length faqs"
    "m = mk_match (faqs ! i) (combined_score env (preprocess env q) (faqs ! i))"
    "\<forall>j<i. combined_score env (preprocess env q) (faqs ! j)
              < combined_score env (preprocess env q) (faqs ! i)"
    "\<forall>j<length faqs. combined_score env (preprocess env q) (faqs ! j)
              \<le> combined_score env (preprocess env q) (faqs ! i)"
    by blast
  then show ?thesis by (auto simp: mk_match_def)
qed

lemma length_slice_to: "0 \<le> k \<Longrightarrow> length (slice_to xs k) \<le> nat k"
  by (simp add: slice_to_def)

lemma slice_to_take: "\<exists>n. slice_to xs k = take n xs"
  by (auto simp: slice_to_def)

lemma filter_take_prefix: "prefix (filter P (take n xs)) (filter P xs)"
proof -
  have "filter P xs = filter P (take n xs) @ filter P (drop n xs)"
    by (metis append_take_drop_id filter_append)
  then show ?thesis by (simp add: prefix_def)
qed

lemma sorted_take_desc:
  "sorted (map f xs) \<Longrightarrow> sorted (map f (take n xs))"
  by (simp add: take_map[symmetric] sorted_wrt_take)


lemma matches_catalog_order:
  "map match_faq (filter (\<lambda>m. confidence m = c)
       (map (\<lambda>f. mk_match f (sc f)) (filter (\<lambda>f. t \<le> sc f) faqs)))
     = filter (\<lambda>f. t \<le> sc f \<and> py_round2 (sc f) = c) faqs"
  by (induction faqs) (auto simp: mk_match_def)

lemma find_multiple_matches_take:
  "\<exists>n. find_multiple_matches env faqs q top_k t =
         take n (sort_key (\<lambda>m. - confidence m)
                   (map (\<lambda>f. mk_match f (combined_score env (preprocess env q) f))
                      (filter (\<lambda>f. t \<le> combined_score env (preprocess env q) f) faqs)))"
  unfolding find_multiple_matches_def Let_def by (rule slice_to_take)

lemma find_multiple_matches_length:
  "0 \<le> top_k \<Longrightarrow> length (find_multiple_matches env faqs q top_k t) \<le> nat top_k"
  unfolding find_multiple_matches_def Let_def by (rule length_slice_to)

lemma find_multiple_matches_member:
  assumes "m \<in> set (find_multiple_matches env faqs q top_k t)"
  shows "match_faq m \<in> set faqs
         \<and> t \<le> combined_score env (preprocess env q) (match_faq m)
         \<and> confidence m = py_round2 (combined_score env (preprocess env q) (match_faq m))
         \<and> match_category m = faq_category (match_faq m)"
proof -
  obtain n where "find_multiple_matches env faqs q top_k t =
         take n (sort_key (\<lambda>m. - confidence m)
                   (map (\<lambda>f. mk_match f (combined_score env (preprocess env q) f))
                      (filter (\<lambda>f. t \<le> combined_score env (preprocess env q) f) faqs)))"
    using find_multiple_matches_take by blast
  with assms have "m \<in> set (map (\<lambda>f. mk_match f (combined_score env (preprocess env q) f))
                      (filter (\<lambda>f. t \<le> combined_score env (preprocess env q) f) faqs))"
    by (metis in_set_takeD set_sort)
  then show ?thesis by (auto simp: mk_match_def)
qed

lemma find_multiple_matches_sorted:
  "sorted_wrt (\<lambda>a b. a \<ge> b) (map confidence (find_multiple_matches env faqs q top_k t))"
proof -
  obtain n ms where r: "find_multiple_matches env faqs q top_k t =
         take n (sort_key (\<lambda>m. - confidence m) ms)"
    using find_multiple_matches_take by blast
  have "sorted (map (\<lambda>m. - confidence m) (sort_key (\<lambda>m. - confidence m) ms))"
    by (rule sorted_sort_key)
  then have "sorted (map (\<lambda>m. - confidence m) (take n (sort_key (\<lambda>m. - confidence m) ms)))"
    by (rule sorted_take_desc)
  then show ?thesis unfolding r by (simp add: sorted_wrt_map)
qed

lemma find_multiple_matches_ties:
  "prefix (map match_faq (filter (\<lambda>m. confidence m = c) (find_multiple_matches env faqs q top_k t)))
          (filter (\<lambda>f. t \<le> combined_score env (preprocess env q) f
                       \<and> py_round2 (combined_score env (preprocess env q) f) = c) faqs)"
proof -
  let ?sc = "combined_score env (preprocess env q)"
  let ?ms = "map (\<lambda>f. mk_match f (?sc f)) (filter (\<lambda>f. t \<le> ?sc f) faqs)"
  let ?g = "\<lambda>m::match. - confidence m"
  obtain n where r: "find_multiple_matches env faqs q top_k t = take n (sort_key ?g ?ms)"
    using find_multiple_matches_take by blast
  have eq: "(\<lambda>m::match. confidence m = c) = (\<lambda>m. ?g m = - c)" by auto
  have "prefix (filter (\<lambda>m. ?g m = - c) (take n (sort_key ?g ?ms)))
               (filter (\<lambda>m. ?g m = - c) (sort_key ?g ?ms))"
    by (rule filter_take_prefix)
  then have "prefix (filter (\<lambda>m. ?g m = - c) (take n (sort_key ?g ?ms)))
               (filter (\<lambda>m. ?g m = - c) ?ms)"
    by (simp only: sort_key_stable)
  then have "prefix (map match_faq (filter (\<lambda>m. confidence m = c) (take n (sort_key ?g ?ms))))
               (map match_faq (filter (\<lambda>m. confidence m = c) ?ms))"
    unfolding eq by (rule map_mono_prefix)
  then show ?thesis unfolding r by (simp only: matches_catalog_order)
qed


text \<open>
  Claim C7, amended.  For every query, every \<open>top_k \<ge> 0\<close> and every threshold,
  \<open>find_multiple_matches\<close> returns at most \<open>top_k\<close> matches; the score of every returned
  entry is at least the threshold, and its confidence, which is \<open>round(score, 2)\<close>, is at
  least \<open>round(threshold, 2)\<close>, hence at least the threshold when rounding leaves the
  threshold as it is, which holds of the default 0.25 (lemma \<open>py_round2_quarter\<close>); the
  confidences are in descending order; and the returned entries of any one confidence
  are the first of the catalog's entries with that confidence that reach the threshold, in
  catalog order.
\<close>

theorem find_multiple_matches_rounded:
  assumes "0 \<le> top_k"
  shows "length (find_multiple_matches env faqs q top_k t) \<le> nat top_k
       \<and> (\<forall>m\<in>set (find_multiple_matches env faqs q top_k t).
             t \<le> combined_score env (preprocess env q) (match_faq m)
           \<and> confidence m = py_round2 (combined_score env (preprocess env q) (match_faq m))
           \<and> py_round2 t \<le> confidence m
           \<and> (py_round2 t = t \<longrightarrow> t \<le> confidence m))
       \<and> sorted_wrt (\<lambda>a b. a \<ge> b) (map confidence (find_multiple_matches env faqs q top_k t))
       \<and> (\<forall>c. prefix (map match_faq (filter (\<lambda>m. confidence m = c)
                                          (find_multiple_matches env faqs q top_k t)))
                     (filter (\<lambda>f. t \<le> combined_score env (preprocess env q) f
                                  \<and> py_round2 (combined_score env (preprocess env q) f) = c) faqs))"
proof -
  have "t \<le> combined_score env (preprocess env q) (match_faq m)
           \<and> confidence m = py_round2 (combined_score env (preprocess env q) (match_faq m))
           \<and> py_round2 t \<le> confidence m
           \<and> (py_round2 t = t \<longrightarrow> t \<le> confidence m)"
    if "m \<in> set (find_multiple_matches env faqs q top_k t)" for m
  proof -
    from find_multiple_matches_member[OF that]
    have a: "t \<le> combined_score env (preprocess env q) (match_faq m)"
      and b: "confidence m = py_round2 (combined_score env (preprocess env q) (match_faq m))"
      by auto
    from a b have c: "py_round2 t \<le> confidence m" by (simp add: py_round2_mono)
    then have "py_round2 t = t \<longrightarrow> t \<le> confidence m" by simp
    with a b c show ?thesis by blast
  qed
  with find_multiple_matches_length[OF assms] find_multiple_matches_sorted find_multiple_matches_ties
  show ?thesis by blast
qed


section \<open>The matcher on a concrete query\<close>

lemmas eval_defs = u_def difflib_ratio_def popular_def find_longest_match_def Let_def
  latin_arabic_def latin_lower_def latin_arabic_isalnum_def latin_isspace_def
  preprocess_def py_split_def is_word_def keyword_score_def semantic_score_def
  combined_score_def max_default_def

lemma preprocess_how_are: "preprocess latin_arabic (u ''how are'') = u ''how are''"
  by (simp add: eval_defs)

text \<open>
  The entry "How are you?" on the query "how are": no keyword and no variant occurs in
  the query; the question and the first variant are the nearest, with the ratio
  \<open>2.0 * 7 / 18\<close>, the float 0.7777777777777778.  The score is that ratio times the
  float 0.4: the float 0.3111111111111111.
\<close>

lemma keywords_how_are: "keyword_score latin_arabic (u ''how are'') faq_2 = 0"
  apply (simp add: eval_defs faq_2_def)
  apply (simp add: fl_eval)
  done

lemma question_how_are: "preprocess latin_arabic (faq_question faq_2) = u ''how are you''"
  by (simp add: eval_defs faq_2_def)

lemma variants_how_are:
  "map (preprocess latin_arabic) (faq_variants faq_2)
     = [u ''how are you'', u ''how are you doing'', u ''comment vas tu'',
        [0x643, 0x64A, 0x641, 0x20, 0x62D, 0x627, 0x644, 0x643]]"
  by (simp add: eval_defs faq_2_def)

lemma ratios_how_are:
  "map (ratio latin_arabic (u ''how are''))
     [u ''how are you'', u ''how are you'', u ''how are you doing'', u ''comment vas tu'',
      [0x643, 0x64A, 0x641, 0x20, 0x62D, 0x627, 0x644, 0x643]]
     = [7005599420354105 / 9007199254740992, 7005599420354105 / 9007199254740992,
        5254199565265579 / 9007199254740992, 2573485501354569 / 9007199254740992,
        4803839602528529 / 36028797018963968]"
  apply (simp add: eval_defs)
  apply (simp add: fl_eval)
  done

lemma semantic_how_are:
  "semantic_score latin_arabic (u ''how are'') faq_2 = 7005599420354105 / 9007199254740992"
proof -
  have "map (\<lambda>v. ratio latin_arabic (u ''how are'') (preprocess latin_arabic v))
          (faq_question faq_2 # faq_variants faq_2)
        = map (ratio latin_arabic (u ''how are''))
            (preprocess latin_arabic (faq_question faq_2)
               # map (preprocess latin_arabic) (faq_variants faq_2))"
    by (simp only: list.map map_map comp_def)
  also have "\<dots> = [7005599420354105 / 9007199254740992, 7005599420354105 / 9007199254740992,
        5254199565265579 / 9007199254740992, 2573485501354569 / 9007199254740992,
        4803839602528529 / 36028797018963968]"
    by (simp only: question_how_are variants_how_are ratios_how_are)
  finally have "ratio latin_arabic (u ''how are'') (preprocess latin_arabic (faq_question faq_2))
        = 7005599420354105 / 9007199254740992
      \<and> map (\<lambda>v. ratio latin_arabic (u ''how are'') (preprocess latin_arabic v))
          (faq_variants faq_2)
        = [7005599420354105 / 9007199254740992, 5254199565265579 / 9007199254740992,
           2573485501354569 / 9007199254740992, 4803839602528529 / 36028797018963968]"
    by (simp only: list.map list.inject)
  then show ?thesis
    by (simp add: semantic_score_def max_default_def)
qed

lemma score_how_are:
  "combined_score latin_arabic (u ''how are'') faq_2 = 1401119884070821 / 4503599627370496"
  by (simp add: combined_score_def keywords_how_are semantic_how_are fl_eval)

lemma score_copy: "combined_score env q (f\<lparr>faq_id := n\<rparr>) = combined_score env q f"
  by (simp add: combined_score_def keyword_score_def semantic_score_def)

lemma fl_31_100: "fl (31 / 100) = 5584463537939415 / 18014398509481984"
  by (simp add: fl_eval)

lemma fl_311_1000: "fl (311 / 1000) = 5602477936448897 / 18014398509481984"
  by (simp add: fl_eval)

lemma round_how_are: "py_round2 (1401119884070821 / 4503599627370496) = fl (31 / 100)"
  by (simp add: py_round2_def fl_eval)

lemma category_faq_2: "faq_category faq_2 = u ''greeting''"
  by (simp add: faq_2_def)

theorem find_best_match_highest_or_none_witness:
  "(\<exists>f\<in>set [faq_2].
      fl (3 / 10) \<le> combined_score latin_arabic (preprocess latin_arabic (u ''how are'')) f)
   \<and> find_best_match latin_arabic [faq_2] (u ''how are'') (fl (3 / 10))
       = Inr (Some \<lparr>match_faq = faq_2, confidence = fl (31 / 100),
                     match_category = u ''greeting''\<rparr>)"
proof -
  have ex: "\<exists>f\<in>set [faq_2].
      fl (3 / 10) \<le> combined_score latin_arabic (preprocess latin_arabic (u ''how are'')) f"
    by (simp add: preprocess_how_are score_how_are fl_3_10)
  with find_best_match_highest_or_none
         [of latin_arabic "u ''how are''" faq_2 "[faq_2]" "u ''how are''"]
  have "\<exists>b\<in>set [faq_2].
      find_best_match latin_arabic [faq_2] (u ''how are'') (fl (3 / 10))
        = Inr (Some \<lparr>match_faq = b,
              confidence = py_round2 (combined_score latin_arabic
                                        (preprocess latin_arabic (u ''how are'')) b),
              match_category = faq_category b\<rparr>)"
    by blast
  then have "find_best_match latin_arabic [faq_2] (u ''how are'') (fl (3 / 10))
       = Inr (Some \<lparr>match_faq = faq_2, confidence = fl (31 / 100),
                     match_category = u ''greeting''\<rparr>)"
    by (simp add: preprocess_how_are score_how_are round_how_are category_faq_2)
  with ex show ?thesis by blast
qed

theorem find_best_match_first_of_ties_witness:
  "find_best_match latin_arabic [faq_2, faq_2_copy] (u ''how are'') (fl (3 / 10))
     = Inr (Some \<lparr>match_faq = faq_2, confidence = fl (31 / 100),
                   match_category = u ''greeting''\<rparr>)
   \<and> combined_score latin_arabic (preprocess latin_arabic (u ''how are'')) faq_2_copy
       = combined_score latin_arabic (preprocess latin_arabic (u ''how are'')) faq_2
   \<and> faq_2 \<noteq> faq_2_copy
   \<and> (\<exists>i<length [faq_2, faq_2_copy]. faq_2 = [faq_2, faq_2_copy] ! i
        \<and> (\<forall>j<i. combined_score latin_arabic (preprocess latin_arabic (u ''how are''))
                     ([faq_2, faq_2_copy] ! j)
                   < combined_score latin_arabic (preprocess latin_arabic (u ''how are''))
                       ([faq_2, faq_2_copy] ! i)))"
proof -
  have run: "find_best_match latin_arabic [faq_2, faq_2_copy] (u ''how are'') (fl (3 / 10))
     = Inr (Some \<lparr>match_faq = faq_2, confidence = fl (31 / 100),
                   match_category = u ''greeting''\<rparr>)"
    by (simp add: find_best_match_def mk_match_def preprocess_how_are score_how_are score_copy
          faq_2_copy_def round_how_are category_faq_2 fl_3_10)
  have tie: "combined_score latin_arabic (preprocess latin_arabic (u ''how are'')) faq_2_copy
       = combined_score latin_arabic (preprocess latin_arabic (u ''how are'')) faq_2"
    by (simp add: faq_2_copy_def score_copy)
  have ne: "faq_2 \<noteq> faq_2_copy"
  proof
    assume "faq_2 = faq_2_copy"
    then have "faq_id faq_2 = faq_id faq_2_copy" by simp
    then show False by (simp add: faq_2_copy_def faq_2_def)
  qed
  from find_best_match_first_of_ties[OF run] run tie ne show ?thesis by auto
qed

theorem find_multiple_matches_rounded_witness:
  "(0::int) \<le> 3
   \<and> find_multiple_matches latin_arabic [faq_2, faq_2_copy] (u ''how are'') 3 (fl (25 / 100))
       = [\<lparr>match_faq = faq_2, confidence = fl (31 / 100), match_category = u ''greeting''\<rparr>,
          \<lparr>match_faq = faq_2_copy, confidence = fl (31 / 100),
           match_category = u ''greeting''\<rparr>]
   \<and> length (find_multiple_matches latin_arabic [faq_2, faq_2_copy] (u ''how are'') 3
               (fl (25 / 100))) \<le> nat 3
   \<and> fl (25 / 100) \<le> fl (31 / 100)
   \<and> sorted_wrt (\<lambda>a b. a \<ge> b)
         (map confidence
            (find_multiple_matches latin_arabic [faq_2, faq_2_copy] (u ''how are'') 3
               (fl (25 / 100))))"
proof -
  have run: "find_multiple_matches latin_arabic [faq_2, faq_2_copy] (u ''how are'') 3
               (fl (25 / 100))
       = [\<lparr>match_faq = faq_2, confidence = fl (31 / 100), match_category = u ''greeting''\<rparr>,
          \<lparr>match_faq = faq_2_copy, confidence = fl (31 / 100),
           match_category = u ''greeting''\<rparr>]"
    by (simp add: find_multiple_matches_def slice_to_def mk_match_def preprocess_how_are
          score_how_are score_copy faq_2_copy_def round_how_are category_faq_2 fl_quarter)
  have z: "(0::int) \<le> 3" by simp
  from find_multiple_matches_rounded
         [OF z, of latin_arabic "[faq_2, faq_2_copy]" "u ''how are''" "fl (25 / 100)"]
  have "length (find_multiple_matches latin_arabic [faq_2, faq_2_copy] (u ''how are'') 3
                  (fl (25 / 100))) \<le> nat 3
     \<and> sorted_wrt (\<lambda>a b. a \<ge> b)
         (map confidence
            (find_multiple_matches latin_arabic [faq_2, faq_2_copy] (u ''how are'') 3
               (fl (25 / 100))))"
    by blast
  moreover have "fl (25 / 100) \<le> fl (31 / 100)" by (simp add: fl_quarter fl_31_100)
  ultimately show ?thesis using run z by blast
qed

text \<open>
  Claim C7 as stated fails.  With the threshold 0.311 the entry "How are you?" scores
  0.3111111111111111 on the query "how are" and is returned, but its confidence is the
  rounded 0.31, which is below the threshold.  And with \<open>top_k = -1\<close> the slice
  \<open>matches[:-1]\<close> drops the last of two matches and returns one, which is more than
  \<open>top_k\<close>.
\<close>

theorem find_multiple_matches_below_threshold:
  "find_multiple_matches latin_arabic [faq_2] (u ''how are'') 3 (fl (311 / 1000))
     = [\<lparr>match_faq = faq_2, confidence = fl (31 / 100), match_category = u ''greeting''\<rparr>]
   \<and> fl (31 / 100) < fl (311 / 1000)
   \<and> find_multiple_matches latin_arabic [faq_2, faq_2_copy] (u ''how are'') (- 1) (fl (25 / 100))
     = [\<lparr>match_faq = faq_2, confidence = fl (31 / 100), match_category = u ''greeting''\<rparr>]
   \<and> (- 1 :: int) < 1"
  by (simp add: find_multiple_matches_def slice_to_def mk_match_def preprocess_how_are
        score_how_are score_copy faq_2_copy_def round_how_are category_faq_2
        fl_quarter fl_31_100 fl_311_1000)


section \<open>Language detection\<close>

lemma is_arabic_ranges:
  "is_arabic c \<longleftrightarrow> c \<in> {0x0600..0x06FF} \<union> {0x0750..0x077F} \<union> {0x08A0..0x08FF}"
  by (auto simp: is_arabic_def)

text \<open>
  Claim C8, amended.  The detector counts the code points of three ranges,
  \<open>U+0600\<close>--\<open>U+06FF\<close>, \<open>U+0750\<close>--\<open>U+077F\<close> and \<open>U+08A0\<close>--\<open>U+08FF\<close>.  A text
  with at least two code points of these ranges is classified \<open>ar\<close>, whatever else it
  contains and whatever the library's tables are; and no other text is classified \<open>ar\<close>.
\<close>

theorem arabic_ranges_give_arabic:
  "(2 \<le> length (filter (\<lambda>c. c \<in> {0x0600..0x06FF} \<union> {0x0750..0x077F} \<union> {0x08A0..0x08FF}) text)
      \<longrightarrow> detect_language env text = u ''ar'')
   \<and> (detect_language env text = u ''ar''
      \<longrightarrow> 2 \<le> length (filter (\<lambda>c. c \<in> {0x0600..0x06FF} \<union> {0x0750..0x077F} \<union> {0x08A0..0x08FF})
                        text))"
proof -
  have eq: "(\<lambda>c. c \<in> {0x0600..0x06FF} \<union> {0x0750..0x077F} \<union> {0x08A0..0x08FF}) = is_arabic"
    by (rule ext) (simp only: is_arabic_ranges)
  have "u ''fr'' \<noteq> u ''ar''" and "u ''en'' \<noteq> u ''ar''" by (simp_all add: u_def)
  then show ?thesis unfolding eq by (auto simp: detect_language_def Let_def)
qed

theorem arabic_ranges_give_arabic_witness:
  "2 \<le> length (filter (\<lambda>c. c \<in> {0x0600..0x06FF} \<union> {0x0750..0x077F} \<union> {0x08A0..0x08FF})
                  mixed_text)
   \<and> detect_language latin_arabic mixed_text = u ''ar''"
proof -
  have h: "2 \<le> length (filter (\<lambda>c. c \<in> {0x0600..0x06FF} \<union> {0x0750..0x077F} \<union> {0x08A0..0x08FF})
                          mixed_text)"
    by (simp add: mixed_text_def u_def)
  with arabic_ranges_give_arabic[of mixed_text latin_arabic] show ?thesis by blast
qed

text \<open>
  Claim C8 as stated fails.  The presentation forms of the Arabic letters,
  \<open>U+FB50\<close>--\<open>U+FDFF\<close> and \<open>U+FE70\<close>--\<open>U+FEFF\<close>, are code points of the Arabic script
  outside the three ranges.  A text of two such letters has no code point that the
  detector counts, and it is classified \<open>en\<close>.
\<close>

theorem arabic_ligatures_not_arabic:
  "length (filter (\<lambda>c. c \<in> {0xFE70..0xFEFF}) la_la) = 2
   \<and> length (filter is_arabic la_la) = 0
   \<and> detect_language latin_arabic la_la = u ''en''"
proof -
  have a: "length (filter (\<lambda>c. c \<in> {0xFE70..0xFEFF}) la_la) = 2"
    by (simp add: la_la_def)
  have b: "length (filter is_arabic la_la) = 0"
    by (simp add: la_la_def is_arabic_def)
  have c: "detect_language latin_arabic la_la = u ''en''"
    apply (simp add: detect_language_def Let_def la_la_def u_def is_arabic_def FRENCH_MARKERS_def
        FRENCH_WORDS_def match_at_def boundary_def is_word_def py_split_def latin_arabic_def
        latin_lower_def latin_arabic_isalnum_def latin_isspace_def)
    apply (simp add: fl_eval)
    done
  from a b c show ?thesis by blast
qed


section \<open>The placeholder map\<close>

lemma u_not_empty [simp]: "u (c # s) \<noteq> []"
  by (simp add: u_def)

lemma opt_or_not_empty: "d \<noteq> [] \<Longrightarrow> opt_or x d \<noteq> []"
  by (simp add: opt_or_def or_str_def split: option.splits)

lemma or_str_not_empty: "d \<noteq> [] \<Longrightarrow> or_str s d \<noteq> []"
  by (simp add: or_str_def)

lemma placeholder_keys_some:
  "map fst (build_placeholders (Some un)) = PLACEHOLDER_KEYS"
  by (simp add: PLACEHOLDER_KEYS_def build_placeholders_def Let_def)

lemma placeholder_keys: "map fst (build_placeholders university) = PLACEHOLDER_KEYS"
  by (cases university) (simp_all add: placeholder_keys_some, simp add: PLACEHOLDER_KEYS_def)

lemma city_values:
  "map_of (build_placeholders (Some un)) (u ''city'') = Some (opt_or (uni_city un) [])
   \<and> map_of (build_placeholders (Some un)) (u ''city_ar'') = Some (opt_or (uni_city un) [])
   \<and> map_of (build_placeholders (Some un)) (u ''city_fr'') = Some (opt_or (uni_city un) [])"
  by (simp add: build_placeholders_def Let_def u_def)

lemma values_without_snapshot:
  "list_all (\<lambda>(k, v). v \<noteq> []) (build_placeholders None)"
  by (simp add: build_placeholders_def AR_YOUR_UNIVERSITY_def AR_YOUR_CITY_def)

lemma values_with_snapshot:
  "list_all (\<lambda>(k, v). k = u ''city'' \<or> k = u ''city_ar'' \<or> k = u ''city_fr'' \<or> v \<noteq> [])
     (build_placeholders (Some un))"
  by (simp add: build_placeholders_def Let_def opt_or_not_empty or_str_not_empty
        AR_YOUR_UNIVERSITY_def)

lemma values_with_city:
  "opt_or (uni_city un) [] \<noteq> [] \<Longrightarrow>
     list_all (\<lambda>(k, v). v \<noteq> []) (build_placeholders (Some un))"
  by (simp add: build_placeholders_def Let_def opt_or_not_empty or_str_not_empty
        AR_YOUR_UNIVERSITY_def)

text \<open>
  Claim C2, amended.  With no snapshot every token of the map has a non-empty value.  With
  a snapshot, whatever fields are null, every token other than \<open>city\<close>, \<open>city_ar\<close> and
  \<open>city_fr\<close> has a non-empty value; those three carry the snapshot's city, which is the
  empty string when the city is null or empty, and when it is not, no value of the map is
  empty.
\<close>

theorem placeholders_not_empty_but_city:
  "list_all (\<lambda>(k, v). v \<noteq> []) (build_placeholders None)
   \<and> list_all (\<lambda>(k, v). k = u ''city'' \<or> k = u ''city_ar'' \<or> k = u ''city_fr'' \<or> v \<noteq> [])
        (build_placeholders (Some un))
   \<and> map_of (build_placeholders (Some un)) (u ''city'') = Some (opt_or (uni_city un) [])
   \<and> map_of (build_placeholders (Some un)) (u ''city_ar'') = Some (opt_or (uni_city un) [])
   \<and> map_of (build_placeholders (Some un)) (u ''city_fr'') = Some (opt_or (uni_city un) [])
   \<and> (opt_or (uni_city un) [] \<noteq> [] \<longrightarrow>
        list_all (\<lambda>(k, v). v \<noteq> []) (build_placeholders (Some un)))"
  using values_without_snapshot values_with_snapshot[of un] city_values[of un]
    values_with_city[of un]
  by blast

theorem placeholders_not_empty_but_city_witness:
  "opt_or (uni_city batna) [] \<noteq> []
   \<and> list_all (\<lambda>(k, v). v \<noteq> []) (build_placeholders (Some batna))
   \<and> map_of (build_placeholders (Some batna)) (u ''city'') = Some (u ''Batna'')
   \<and> map_of (build_placeholders (Some batna)) (u ''address'') = Some (u ''Campus of Batna 2, Batna'')
   \<and> map_of (build_placeholders (Some batna)) (u ''phone_main'')
       = Some (u ''the university main number'')"
proof -
  have c: "opt_or (uni_city batna) [] = u ''Batna''"
    by (simp add: batna_def opt_or_def or_str_def u_def)
  then have ne: "opt_or (uni_city batna) [] \<noteq> []" by (simp add: u_def)
  have a: "map_of (build_placeholders (Some batna)) (u ''address'')
             = Some (u ''Campus of Batna 2, Batna'')"
    by (simp add: build_placeholders_def Let_def batna_def opt_or_def or_str_def u_def)
  have p: "map_of (build_placeholders (Some batna)) (u ''phone_main'')
             = Some (u ''the university main number'')"
    by (simp add: build_placeholders_def Let_def batna_def opt_or_def or_str_def u_def)
  from placeholders_not_empty_but_city[of batna] ne c a p show ?thesis by simp
qed

text \<open>
  Claim C2 as stated fails for a snapshot whose city is null: the token \<open>city\<close> then has
  the empty string as its value.
\<close>

theorem city_placeholder_empty:
  "uni_city no_city = None
   \<and> map_of (build_placeholders (Some no_city)) (u ''city'') = Some []"
  by (simp add: no_city_def batna_def build_placeholders_def Let_def opt_or_def u_def)


section \<open>Filling a template\<close>

declare replace_from.simps [simp del]

lemma replace_from_Nil [simp]: "replace_from old new [] = []"
  by (simp add: replace_from.simps)

lemma replace_from_Cons:
  "replace_from old new (c # cs) =
     (if old \<noteq> [] \<and> prefix old (c # cs)
      then new @ replace_from old new (drop (length old) (c # cs))
      else c # replace_from old new cs)"
  by (subst replace_from.simps) simp

lemma replace_from_skip:
  "123 \<notin> set p \<Longrightarrow> replace_from (token k) v (p @ r) = p @ replace_from (token k) v r"
  by (induction p) (auto simp: replace_from_Cons token_def)

lemma token_unique:
  "brace_free k \<Longrightarrow> brace_free k' \<Longrightarrow> prefix (k @ [125]) (k' @ 125 # r) \<Longrightarrow> k = k'"
proof (induction k arbitrary: k')
  case Nil
  then show ?case by (cases k') (auto simp: brace_free_def)
next
  case (Cons a k)
  then show ?case by (cases k') (auto simp: brace_free_def)
qed

lemma find_token:
  assumes "find (\<lambda>k. prefix (k @ [125]) cs) K = Some k'"
  shows "k' \<in> set K \<and> cs = k' @ 125 # drop (Suc (length k')) cs"
proof -
  from assms have mem: "k' \<in> set K" and p: "prefix (k' @ [125]) cs"
    by (auto simp: find_Some_iff)
  from p obtain r where r: "cs = (k' @ [125]) @ r" by (auto simp: prefix_def)
  then have "drop (Suc (length k')) cs = r" by simp
  with r mem show ?thesis by simp
qed

lemma wf_token:
  assumes "k' \<in> set K" "\<forall>k\<in>set K. brace_free k"
  shows "wf_template K (123 # k' @ 125 # r) = wf_template K r"
proof -
  have ex: "\<exists>k\<in>set K. prefix (k @ [125]) (k' @ 125 # r)"
    using assms(1) by (auto intro!: bexI[of _ k'])
  then obtain k'' where f: "find (\<lambda>k. prefix (k @ [125]) (k' @ 125 # r)) K = Some k''"
    by (cases "find (\<lambda>k. prefix (k @ [125]) (k' @ 125 # r)) K") (auto simp: find_None_iff)
  then have "k'' \<in> set K" "prefix (k'' @ [125]) (k' @ 125 # r)"
    by (auto simp: find_Some_iff)
  with assms have "k'' = k'" using token_unique by blast
  with f show ?thesis by simp
qed

lemma wf_skip: "brace_free p \<Longrightarrow> wf_template K (p @ r) = wf_template K r"
  by (induction p) (auto simp: brace_free_def)

text \<open>
  One \<open>replace\<close> on a well-formed template: the tokens of the key are replaced by the
  value, every other token stays, and the result is well formed for the other keys.
\<close>

lemma replace_keeps_wf:
  assumes bk: "brace_free k" and bv: "brace_free v" and bK': "\<forall>k'\<in>set K'. brace_free k'"
  shows "wf_template K t \<Longrightarrow> \<forall>k'\<in>set K. brace_free k' \<Longrightarrow> set K - {k} \<subseteq> set K'
           \<Longrightarrow> wf_template K' (replace_from (token k) v t)"
proof (induction K t rule: wf_template.induct)
  case (1 keys)
  then show ?case by simp
next
  case (2 keys c cs)
  show ?case
  proof (cases "c = 123")
    case True
    with "2.prems" obtain k' where
      f: "find (\<lambda>k. prefix (k @ [125]) cs) keys = Some k'"
      and wf_rest: "wf_template keys (drop (Suc (length k')) cs)"
      by (auto split: option.splits)
    let ?rest = "drop (Suc (length k')) cs"
    from find_token[OF f] have mem: "k' \<in> set keys" and cs: "cs = k' @ 125 # ?rest" by auto
    have bk': "brace_free k'" using mem "2.prems"(2) by blast
    have IH: "wf_template K' (replace_from (token k) v ?rest)"
      using "2.IH"(1)[OF True f wf_rest "2.prems"(2) "2.prems"(3)] .
    show ?thesis
    proof (cases "k' = k")
      case same: True
      have t: "c # cs = token k @ ?rest"
        using True cs same by (simp add: token_def)
      have "replace_from (token k) v (c # cs) = v @ replace_from (token k) v ?rest"
        by (subst t, subst replace_from.simps) (simp add: token_def)
      with IH bv show ?thesis by (simp add: wf_skip)
    next
      case other: False
      have np: "\<not> prefix (token k) (c # cs)"
      proof
        assume "prefix (token k) (c # cs)"
        then have "prefix (k @ [125]) (k' @ 125 # ?rest)"
          using True cs by (simp add: token_def)
        with bk bk' have "k = k'" by (rule token_unique)
        with other show False by simp
      qed
      have no: "123 \<notin> set (k' @ [125])" using bk' by (simp add: brace_free_def)
      have "replace_from (token k) v (c # cs) = c # replace_from (token k) v ((k' @ [125]) @ ?rest)"
        using np cs by (simp add: replace_from_Cons)
      also have "\<dots> = c # (k' @ [125]) @ replace_from (token k) v ?rest"
        by (simp only: replace_from_skip[OF no])
      finally have eq: "replace_from (token k) v (c # cs)
                         = 123 # k' @ 125 # replace_from (token k) v ?rest"
        using True by simp
      have "k' \<in> set K'" using mem other "2.prems"(3) by blast
      with bK' IH show ?thesis unfolding eq by (simp only: wf_token)
    qed
  next
    case False
    with "2.prems" have c: "c \<noteq> 125" and wf_cs: "wf_template keys cs" by auto
    have "\<not> prefix (token k) (c # cs)" using False by (simp add: token_def)
    then have "replace_from (token k) v (c # cs) = c # replace_from (token k) v cs"
      by (simp add: replace_from_Cons)
    with "2.IH"(2)[OF False wf_cs "2.prems"(2) "2.prems"(3)] c False show ?thesis by simp
  qed
qed

lemma wf_no_keys: "wf_template [] t \<Longrightarrow> brace_free t"
  by (induction t) (auto simp: brace_free_def split: if_splits)

lemma fill_brace_free:
  "\<forall>(k, v)\<in>set ph. brace_free k \<and> brace_free v \<Longrightarrow> wf_template (map fst ph) t
     \<Longrightarrow> brace_free (fill t ph)"
proof (induction ph arbitrary: t)
  case Nil
  then show ?case by (simp add: wf_no_keys)
next
  case (Cons p ph)
  obtain k v where p: "p = (k, v)" by (cases p)
  from Cons.prems(1) p have bk: "brace_free k" and bv: "brace_free v"
    and rest: "\<forall>(k, v)\<in>set ph. brace_free k \<and> brace_free v" by auto
  have keys: "\<forall>k'\<in>set (map fst ph). brace_free k'" using rest by auto
  have keys': "\<forall>k'\<in>set (map fst (p # ph)). brace_free k'" using keys bk p by auto
  have "wf_template (map fst ph) (replace_from (token k) v t)"
    using replace_keeps_wf[OF bk bv keys Cons.prems(2) keys'] p by auto
  then have "wf_template (map fst ph) (str_replace t (token k) v)"
    by (simp add: str_replace_def token_def)
  from Cons.IH[OF rest this] p show ?case by simp
qed

lemma str_in_subset: "str_in sub s \<Longrightarrow> set sub \<subseteq> set s"
proof (induction s)
  case Nil
  then show ?case by simp
next
  case (Cons c cs)
  from Cons.prems have "prefix sub (c # cs) \<or> str_in sub cs" by simp
  then show ?case
  proof
    assume "prefix sub (c # cs)"
    then show ?thesis by (rule set_mono_prefix)
  next
    assume "str_in sub cs"
    with Cons.IH show ?thesis by auto
  qed
qed

lemma brace_free_no_token: "brace_free s \<Longrightarrow> \<not> str_in (token k) s"
  using str_in_subset[of "token k" s] by (auto simp: brace_free_def token_def)


section \<open>The values of the placeholder map contain no brace\<close>

lemma brace_free_append [simp]: "brace_free (a @ b) \<longleftrightarrow> brace_free a \<and> brace_free b"
  by (auto simp: brace_free_def)

lemma brace_free_Nil [simp]: "brace_free []"
  by (simp add: brace_free_def)

lemma brace_free_or_str: "brace_free s \<Longrightarrow> brace_free d \<Longrightarrow> brace_free (or_str s d)"
  by (simp add: or_str_def)

lemma brace_free_opt_or:
  "(\<forall>s. x = Some s \<longrightarrow> brace_free s) \<Longrightarrow> brace_free d \<Longrightarrow> brace_free (opt_or x d)"
  by (simp add: opt_or_def or_str_def split: option.splits)

lemma brace_free_after_last:
  assumes "brace_free s"
  shows "brace_free (after_last c s)"
proof -
  have "set (after_last c s) \<subseteq> set s"
    unfolding after_last_def using set_takeWhileD[of _ "\<lambda>x. x \<noteq> c" "rev s"] by auto
  with assms show ?thesis by (auto simp: brace_free_def)
qed

lemma keys_brace_free: "list_all brace_free PLACEHOLDER_KEYS"
  by (simp add: PLACEHOLDER_KEYS_def build_placeholders_def brace_free_def u_def)

lemma generic_values_brace_free: "list_all (\<lambda>(k, v). brace_free v) (build_placeholders None)"
  by (simp add: build_placeholders_def brace_free_def u_def AR_YOUR_UNIVERSITY_def
        AR_YOUR_CITY_def)

lemma literals_brace_free:
  "brace_free (u ''your university'')" "brace_free AR_YOUR_UNIVERSITY"
  "brace_free (u ''the university website'')" "brace_free (u ''info@university.dz'')"
  "brace_free (u ''university.dz'')" "brace_free (u ''the student portal'')"
  "brace_free (u ''the university main number'')" "brace_free (u ''Campus of '')"
  "brace_free (u '', '')" "brace_free (u ''@'')" "brace_free (u ''registrar'')"
  "brace_free (u ''finance'')" "brace_free (u ''itsupport'')" "brace_free (u ''studentaffairs'')"
  "brace_free (u ''financialaid'')" "brace_free (u ''housing'')" "brace_free (u ''library'')"
  "brace_free (u ''academic'')"
  by (simp_all add: brace_free_def u_def AR_YOUR_UNIVERSITY_def)

lemma snapshot_values_brace_free:
  assumes "list_all brace_free (snapshot_fields (Some un))"
  shows "list_all (\<lambda>(k, v). brace_free v) (build_placeholders (Some un))"
proof -
  from assms have f:
    "\<forall>s. uni_name un = Some s \<longrightarrow> brace_free s" "\<forall>s. uni_name_ar un = Some s \<longrightarrow> brace_free s"
    "\<forall>s. uni_city un = Some s \<longrightarrow> brace_free s" "\<forall>s. uni_website un = Some s \<longrightarrow> brace_free s"
    "\<forall>s. uni_email un = Some s \<longrightarrow> brace_free s" "\<forall>s. uni_phone un = Some s \<longrightarrow> brace_free s"
    "\<forall>s. uni_address un = Some s \<longrightarrow> brace_free s"
    by (auto simp: snapshot_fields_def)
  note b = brace_free_opt_or brace_free_or_str brace_free_after_last literals_brace_free
  have name: "brace_free (opt_or (uni_name un) (u ''your university''))" using f by (simp add: b)
  have name_ar: "brace_free (opt_or (uni_name_ar un) AR_YOUR_UNIVERSITY)" using f by (simp add: b)
  have city: "brace_free (opt_or (uni_city un) [])" using f by (simp add: b)
  have website: "brace_free (opt_or (uni_website un) (u ''the university website''))"
    using f by (simp add: b)
  have email: "brace_free (opt_or (uni_email un) (u ''info@university.dz''))"
    using f by (simp add: b)
  have phone: "brace_free (opt_or (uni_phone un) [])" using f by (simp add: b)
  have domain: "brace_free (after_last 64 (opt_or (uni_email un) (u ''info@university.dz'')))"
    using email by (rule brace_free_after_last)
  have address: "brace_free (opt_or (uni_address un)
      (u ''Campus of '' @ opt_or (uni_name un) (u ''your university'') @ u '', ''
         @ opt_or (uni_city un) []))"
    using f name city by (simp add: b)
  show ?thesis
    using name name_ar city website email phone domain address
    by (simp add: build_placeholders_def Let_def b)
qed

lemma placeholders_brace_free:
  assumes "list_all brace_free (snapshot_fields university)"
  shows "\<forall>(k, v)\<in>set (build_placeholders university). brace_free k \<and> brace_free v"
proof -
  have v: "list_all (\<lambda>(k, v). brace_free v) (build_placeholders university)"
    using assms generic_values_brace_free snapshot_values_brace_free by (cases university) auto
  have "list_all brace_free (map fst (build_placeholders university))"
    using keys_brace_free by (simp add: placeholder_keys)
  with v show ?thesis by (auto simp: list_all_iff)
qed


section \<open>The answer renderer\<close>

lemma raw_answer_wf:
  assumes "catalog_wf faqs" "f \<in> set faqs"
  shows "wf_template PLACEHOLDER_KEYS (raw_answer f lang)"
proof -
  from assms have all: "\<forall>(l, t)\<in>set (faq_answers f). wf_template PLACEHOLDER_KEYS t"
    by (auto simp: catalog_wf_def list_all_iff)
  have "wf_template PLACEHOLDER_KEYS (case map_of (faq_answers f) l of None \<Rightarrow> [] | Some t \<Rightarrow> t)"
    for l
    using all by (auto split: option.splits dest: map_of_SomeD)
  then show ?thesis by (simp add: raw_answer_def or_str_def)
qed

lemma search_faq_found:
  assumes "search_faq env faqs query university = Inr (Found a qn c cat lang)"
  shows "\<exists>f\<in>set faqs. a = fill (raw_answer f lang) (build_placeholders university)"
proof -
  from assms obtain m where m: "find_best_match env faqs query (fl (3 / 10)) = Inr (Some m)"
    and a: "a = fill (raw_answer (match_faq m) lang) (build_placeholders university)"
    by (auto simp: search_faq_def Let_def split: sum.splits option.splits)
  from find_best_match_some[OF m] have "match_faq m \<in> set faqs"
    by (auto simp: mk_match_def)
  with a show ?thesis by blast
qed

text \<open>
  Claim C9, amended.  When the catalog's templates use braces only for the tokens of the
  placeholder map and no field of the institution snapshot contains a brace (or there is
  no snapshot), the answer of a matched query contains no brace at all, hence no token.
\<close>

theorem rendered_answer_has_no_token:
  assumes "catalog_wf faqs"
    and "list_all brace_free (snapshot_fields university)"
    and "search_faq env faqs query university = Inr (Found a qn c cat lang)"
  shows "brace_free a \<and> \<not> str_in (token key) a"
proof -
  from search_faq_found[OF assms(3)] obtain f where f: "f \<in> set faqs"
    and a: "a = fill (raw_answer f lang) (build_placeholders university)"
    by blast
  have "wf_template (map fst (build_placeholders university)) (raw_answer f lang)"
    using raw_answer_wf[OF assms(1) f] by (simp add: placeholder_keys)
  with placeholders_brace_free[OF assms(2)] have "brace_free a"
    unfolding a by (rule fill_brace_free)
  then show ?thesis by (simp add: brace_free_no_token)
qed


section \<open>The catalog's templates\<close>

lemma placeholder_keys_eval:
  "PLACEHOLDER_KEYS =
     [u ''university_name'', u ''university_name_ar'', u ''university_name_fr'', u ''city'',
      u ''city_ar'', u ''city_fr'', u ''portal_url'', u ''website'', u ''email_general'',
      u ''email_registrar'', u ''email_finance'', u ''email_it'', u ''email_student'',
      u ''email_financial_aid'', u ''email_housing'', u ''email_library'', u ''email_academic'',
      u ''phone_main'', u ''address'']"
  by (simp add: PLACEHOLDER_KEYS_def build_placeholders_def)

text \<open>
  The templates are scanned chunk by chunk: a chunk of text without a brace is skipped, and
  a chunk that is the token of a key of the map is accepted.
\<close>

lemma of_char_braces:
  "of_char c = (123::nat) \<longleftrightarrow> c = CHR ''{''" "of_char c = (125::nat) \<longleftrightarrow> c = CHR ''}''"
proof -
  have "(of_char c :: nat) = of_char CHR ''{'' \<longleftrightarrow> c = CHR ''{''" by (rule of_char_eq_iff)
  then show "of_char c = (123::nat) \<longleftrightarrow> c = CHR ''{''" by simp
  have "(of_char c :: nat) = of_char CHR ''}'' \<longleftrightarrow> c = CHR ''}''" by (rule of_char_eq_iff)
  then show "of_char c = (125::nat) \<longleftrightarrow> c = CHR ''}''" by simp
qed

lemma brace_free_u: "brace_free (u s) \<longleftrightarrow> CHR ''{'' \<notin> set s \<and> CHR ''}'' \<notin> set s"
  by (auto simp: brace_free_def u_def of_char_braces)

lemma wf_text_chunk: "brace_free (u s) \<Longrightarrow> wf_template K (u s @ r) = wf_template K r"
  by (rule wf_skip)

lemma wf_text_end: "brace_free (u s) \<Longrightarrow> wf_template K (u s) = True"
  using wf_skip[of "u s" K "[]"] by simp

lemma wf_token_chunk:
  assumes "k \<in> set PLACEHOLDER_KEYS"
  shows "wf_template PLACEHOLDER_KEYS (token k @ r) = wf_template PLACEHOLDER_KEYS r"
proof -
  have "\<forall>k\<in>set PLACEHOLDER_KEYS. brace_free k"
    using keys_brace_free by (simp add: list_all_iff)
  from wf_token[OF assms this, of r] show ?thesis by (simp add: token_def)
qed

lemma wf_token_end:
  "k \<in> set PLACEHOLDER_KEYS \<Longrightarrow> wf_template PLACEHOLDER_KEYS (token k) = True"
  using wf_token_chunk[of k "[]"] by simp

lemma key_members:
  "u ''university_name'' \<in> set PLACEHOLDER_KEYS"
  "u ''university_name_ar'' \<in> set PLACEHOLDER_KEYS"
  "u ''university_name_fr'' \<in> set PLACEHOLDER_KEYS"
  "u ''city'' \<in> set PLACEHOLDER_KEYS"
  "u ''city_ar'' \<in> set PLACEHOLDER_KEYS"
  "u ''city_fr'' \<in> set PLACEHOLDER_KEYS"
  "u ''portal_url'' \<in> set PLACEHOLDER_KEYS"
  "u ''website'' \<in> set PLACEHOLDER_KEYS"
  "u ''email_general'' \<in> set PLACEHOLDER_KEYS"
  "u ''email_registrar'' \<in> set PLACEHOLDER_KEYS"
  "u ''email_finance'' \<in> set PLACEHOLDER_KEYS"
  "u ''email_it'' \<in> set PLACEHOLDER_KEYS"
  "u ''email_student'' \<in> set PLACEHOLDER_KEYS"
  "u ''email_financial_aid'' \<in> set PLACEHOLDER_KEYS"
  "u ''email_housing'' \<in> set PLACEHOLDER_KEYS"
  "u ''email_library'' \<in> set PLACEHOLDER_KEYS"
  "u ''email_academic'' \<in> set PLACEHOLDER_KEYS"
  "u ''phone_main'' \<in> set PLACEHOLDER_KEYS"
  "u ''address'' \<in> set PLACEHOLDER_KEYS"
  by (simp_all add: placeholder_keys_eval)

lemma token_chunks:
  "u ''{university_name}'' = token (u ''university_name'')"
  "u ''{university_name_ar}'' = token (u ''university_name_ar'')"
  "u ''{university_name_fr}'' = token (u ''university_name_fr'')"
  "u ''{city}'' = token (u ''city'')"
  "u ''{city_ar}'' = token (u ''city_ar'')"
  "u ''{city_fr}'' = token (u ''city_fr'')"
  "u ''{portal_url}'' = token (u ''portal_url'')"
  "u ''{website}'' = token (u ''website'')"
  "u ''{email_general}'' = token (u ''email_general'')"
  "u ''{email_registrar}'' = token (u ''email_registrar'')"
  "u ''{email_finance}'' = token (u ''email_finance'')"
  "u ''{email_it}'' = token (u ''email_it'')"
  "u ''{email_student}'' = token (u ''email_student'')"
  "u ''{email_financial_aid}'' = token (u ''email_financial_aid'')"
  "u ''{email_housing}'' = token (u ''email_housing'')"
  "u ''{email_library}'' = token (u ''email_library'')"
  "u ''{email_academic}'' = token (u ''email_academic'')"
  "u ''{phone_main}'' = token (u ''phone_main'')"
  "u ''{address}'' = token (u ''address'')"
  by (simp_all add: u_def token_def)

lemma wf_codepoint_chunk:
  "brace_free (x # xs) \<Longrightarrow> wf_template K ((x # xs) @ r) = wf_template K r"
  by (rule wf_skip)

lemma brace_free_Cons: "brace_free (x # xs) \<longleftrightarrow> x \<noteq> 123 \<and> x \<noteq> 125 \<and> brace_free xs"
  by (auto simp: brace_free_def)

lemmas wf_chunks = token_chunks key_members wf_token_chunk wf_token_end wf_text_chunk
  wf_text_end brace_free_u wf_codepoint_chunk brace_free_Cons

lemma wf_faq_1_en: "wf_template PLACEHOLDER_KEYS faq_1_en"
  by (simp add: faq_1_en_def wf_chunks del: append.simps)

lemma wf_faq_1_ar: "wf_template PLACEHOLDER_KEYS faq_1_ar"
  by (simp add: faq_1_ar_def wf_chunks del: append.simps)

lemma wf_faq_1_fr: "wf_template PLACEHOLDER_KEYS faq_1_fr"
  by (simp add: faq_1_fr_def wf_chunks del: append.simps)

lemma wf_faq_2_en: "wf_template PLACEHOLDER_KEYS faq_2_en"
  by (simp add: faq_2_en_def wf_chunks del: append.simps)

lemma wf_faq_2_ar: "wf_template PLACEHOLDER_KEYS faq_2_ar"
  by (simp add: faq_2_ar_def wf_chunks del: append.simps)

lemma wf_faq_2_fr: "wf_template PLACEHOLDER_KEYS faq_2_fr"
  by (simp add: faq_2_fr_def wf_chunks del: append.simps)

lemma wf_faq_3_en: "wf_template PLACEHOLDER_KEYS faq_3_en"
  by (simp add: faq_3_en_def wf_chunks del: append.simps)

lemma wf_faq_3_ar: "wf_template PLACEHOLDER_KEYS faq_3_ar"
  by (simp add: faq_3_ar_def wf_chunks del: append.simps)

lemma wf_faq_3_fr: "wf_template PLACEHOLDER_KEYS faq_3_fr"
  by (simp add: faq_3_fr_def wf_chunks del: append.simps)

lemma wf_faq_4_en: "wf_template PLACEHOLDER_KEYS faq_4_en"
  by (simp add: faq_4_en_def wf_chunks del: append.simps)

lemma wf_faq_4_ar: "wf_template PLACEHOLDER_KEYS faq_4_ar"
  by (simp add: faq_4_ar_def wf_chunks del: append.simps)

lemma wf_faq_4_fr: "wf_template PLACEHOLDER_KEYS faq_4_fr"
  by (simp add: faq_4_fr_def wf_chunks del: append.simps)

lemma wf_faq_5_en: "wf_template PLACEHOLDER_KEYS faq_5_en"
  by (simp add: faq_5_en_def wf_chunks del: append.simps)

lemma wf_faq_5_ar: "wf_template PLACEHOLDER_KEYS faq_5_ar"
  by (simp add: faq_5_ar_def wf_chunks del: append.simps)

lemma wf_faq_5_fr: "wf_template PLACEHOLDER_KEYS faq_5_fr"
  by (simp add: faq_5_fr_def wf_chunks del: append.simps)

lemma wf_faq_6_en: "wf_template PLACEHOLDER_KEYS faq_6_en"
  by (simp add: faq_6_en_def wf_chunks del: append.simps)

lemma wf_faq_6_ar: "wf_template PLACEHOLDER_KEYS faq_6_ar"
  by (simp add: faq_6_ar_def wf_chunks del: append.simps)

lemma wf_faq_6_fr: "wf_template PLACEHOLDER_KEYS faq_6_fr"
  by (simp add: faq_6_fr_def wf_chunks del: append.simps)

lemma wf_faq_7_en: "wf_template PLACEHOLDER_KEYS faq_7_en"
  by (simp add: faq_7_en_def wf_chunks del: append.simps)

lemma wf_faq_7_ar: "wf_template PLACEHOLDER_KEYS faq_7_ar"
  by (simp add: faq_7_ar_def wf_chunks del: append.simps)

lemma wf_faq_7_fr: "wf_template PLACEHOLDER_KEYS faq_7_fr"
  by (simp add: faq_7_fr_def wf_chunks del: append.simps)

lemma wf_faq_8_en: "wf_template PLACEHOLDER_KEYS faq_8_en"
  by (simp add: faq_8_en_def wf_chunks del: append.simps)

lemma wf_faq_8_ar: "wf_template PLACEHOLDER_KEYS faq_8_ar"
  by (simp add: faq_8_ar_def wf_chunks del: append.simps)

lemma wf_faq_8_fr: "wf_template PLACEHOLDER_KEYS faq_8_fr"
  by (simp add: faq_8_fr_def wf_chunks del: append.simps)

lemma wf_faq_9_en: "wf_template PLACEHOLDER_KEYS faq_9_en"
  by (simp add: faq_9_en_def wf_chunks del: append.simps)

lemma wf_faq_9_ar: "wf_template PLACEHOLDER_KEYS faq_9_ar"
  by (simp add: faq_9_ar_def wf_chunks del: append.simps)

lemma wf_faq_9_fr: "wf_template PLACEHOLDER_KEYS faq_9_fr"
  by (simp add: faq_9_fr_def wf_chunks del: append.simps)

lemma wf_faq_10_en: "wf_template PLACEHOLDER_KEYS faq_10_en"
  by (simp add: faq_10_en_def wf_chunks del: append.simps)

lemma wf_faq_10_ar: "wf_template PLACEHOLDER_KEYS faq_10_ar"
  by (simp add: faq_10_ar_def wf_chunks del: append.simps)

lemma wf_faq_10_fr: "wf_template PLACEHOLDER_KEYS faq_10_fr"
  by (simp add: faq_10_fr_def wf_chunks del: append.simps)

lemma wf_faq_11_en: "wf_template PLACEHOLDER_KEYS faq_11_en"
  by (simp add: faq_11_en_def wf_chunks del: append.simps)

lemma wf_faq_11_ar: "wf_template PLACEHOLDER_KEYS faq_11_ar"
  by (simp add: faq_11_ar_def wf_chunks del: append.simps)

lemma wf_faq_11_fr: "wf_template PLACEHOLDER_KEYS faq_11_fr"
  by (simp add: faq_11_fr_def wf_chunks del: append.simps)

lemma wf_faq_12_en: "wf_template PLACEHOLDER_KEYS faq_12_en"
  by (simp add: faq_12_en_def wf_chunks del: append.simps)

lemma wf_faq_12_ar: "wf_template PLACEHOLDER_KEYS faq_12_ar"
  by (simp add: faq_12_ar_def wf_chunks del: append.simps)

lemma wf_faq_12_fr: "wf_template PLACEHOLDER_KEYS faq_12_fr"
  by (simp add: faq_12_fr_def wf_chunks del: append.simps)

lemma wf_faq_13_en: "wf_template PLACEHOLDER_KEYS faq_13_en"
  by (simp add: faq_13_en_def wf_chunks del: append.simps)

lemma wf_faq_13_ar: "wf_template PLACEHOLDER_KEYS faq_13_ar"
  by (simp add: faq_13_ar_def wf_chunks del: append.simps)

lemma wf_faq_13_fr: "wf_template PLACEHOLDER_KEYS faq_13_fr"
  by (simp add: faq_13_fr_def wf_chunks del: append.simps)

lemma wf_faq_14_en: "wf_template PLACEHOLDER_KEYS faq_14_en"
  by (simp add: faq_14_en_def wf_chunks del: append.simps)

lemma wf_faq_14_ar: "wf_template PLACEHOLDER_KEYS faq_14_ar"
  by (simp add: faq_14_ar_def wf_chunks del: append.simps)

lemma wf_faq_14_fr: "wf_template PLACEHOLDER_KEYS faq_14_fr"
  by (simp add: faq_14_fr_def wf_chunks del: append.simps)

lemma wf_faq_15_en: "wf_template PLACEHOLDER_KEYS faq_15_en"
  by (simp add: faq_15_en_def wf_chunks del: append.simps)

lemma wf_faq_15_ar: "wf_template PLACEHOLDER_KEYS faq_15_ar"
  by (simp add: faq_15_ar_def wf_chunks del: append.simps)

lemma wf_faq_15_fr: "wf_template PLACEHOLDER_KEYS faq_15_fr"
  by (simp add: faq_15_fr_def wf_chunks del: append.simps)

lemma wf_faq_16_en: "wf_template PLACEHOLDER_KEYS faq_16_en"
  by (simp add: faq_16_en_def wf_chunks del: append.simps)

lemma wf_faq_16_ar: "wf_template PLACEHOLDER_KEYS faq_16_ar"
  by (simp add: faq_16_ar_def wf_chunks del: append.simps)

lemma wf_faq_16_fr: "wf_template PLACEHOLDER_KEYS faq_16_fr"
  by (simp add: faq_16_fr_def wf_chunks del: append.simps)

lemma wf_faq_17_en: "wf_template PLACEHOLDER_KEYS faq_17_en"
  by (simp add: faq_17_en_def wf_chunks del: append.simps)

lemma wf_faq_17_ar: "wf_template PLACEHOLDER_KEYS faq_17_ar"
  by (simp add: faq_17_ar_def wf_chunks del: append.simps)

lemma wf_faq_17_fr: "wf_template PLACEHOLDER_KEYS faq_17_fr"
  by (simp add: faq_17_fr_def wf_chunks del: append.simps)

lemma wf_faq_18_en: "wf_template PLACEHOLDER_KEYS faq_18_en"
  by (simp add: faq_18_en_def wf_chunks del: append.simps)

lemma wf_faq_18_ar: "wf_template PLACEHOLDER_KEYS faq_18_ar"
  by (simp add: faq_18_ar_def wf_chunks del: append.simps)

lemma wf_faq_18_fr: "wf_template PLACEHOLDER_KEYS faq_18_fr"
  by (simp add: faq_18_fr_def wf_chunks del: append.simps)

lemma wf_faq_19_en: "wf_template PLACEHOLDER_KEYS faq_19_en"
  by (simp add: faq_19_en_def wf_chunks del: append.simps)

lemma wf_faq_19_ar: "wf_template PLACEHOLDER_KEYS faq_19_ar"
  by (simp add: faq_19_ar_def wf_chunks del: append.simps)

lemma wf_faq_19_fr: "wf_template PLACEHOLDER_KEYS faq_19_fr"
  by (simp add: faq_19_fr_def wf_chunks del: append.simps)

lemma wf_faq_20_en: "wf_template PLACEHOLDER_KEYS faq_20_en"
  by (simp add: faq_20_en_def wf_chunks del: append.simps)

lemma wf_faq_20_ar: "wf_template PLACEHOLDER_KEYS faq_20_ar"
  by (simp add: faq_20_ar_def wf_chunks del: append.simps)

lemma wf_faq_20_fr: "wf_template PLACEHOLDER_KEYS faq_20_fr"
  by (simp add: faq_20_fr_def wf_chunks del: append.simps)

lemma wf_faq_21_en: "wf_template PLACEHOLDER_KEYS faq_21_en"
  by (simp add: faq_21_en_def wf_chunks del: append.simps)

lemma wf_faq_21_ar: "wf_template PLACEHOLDER_KEYS faq_21_ar"
  by (simp add: faq_21_ar_def wf_chunks del: append.simps)

lemma wf_faq_21_fr: "wf_template PLACEHOLDER_KEYS faq_21_fr"
  by (simp add: faq_21_fr_def wf_chunks del: append.simps)

lemma wf_faq_22_en: "wf_template PLACEHOLDER_KEYS faq_22_en"
  by (simp add: faq_22_en_def wf_chunks del: append.simps)

lemma wf_faq_22_ar: "wf_template PLACEHOLDER_KEYS faq_22_ar"
  by (simp add: faq_22_ar_def wf_chunks del: append.simps)

lemma wf_faq_22_fr: "wf_template PLACEHOLDER_KEYS faq_22_fr"
  by (simp add: faq_22_fr_def wf_chunks del: append.simps)

lemmas wf_templates =
  wf_faq_1_en wf_faq_1_ar wf_faq_1_fr wf_faq_2_en wf_faq_2_ar wf_faq_2_fr
  wf_faq_3_en wf_faq_3_ar wf_faq_3_fr wf_faq_4_en wf_faq_4_ar wf_faq_4_fr
  wf_faq_5_en wf_faq_5_ar wf_faq_5_fr wf_faq_6_en wf_faq_6_ar wf_faq_6_fr
  wf_faq_7_en wf_faq_7_ar wf_faq_7_fr wf_faq_8_en wf_faq_8_ar wf_faq_8_fr
  wf_faq_9_en wf_faq_9_ar wf_faq_9_fr wf_faq_10_en wf_faq_10_ar wf_faq_10_fr
  wf_faq_11_en wf_faq_11_ar wf_faq_11_fr wf_faq_12_en wf_faq_12_ar wf_faq_12_fr
  wf_faq_13_en wf_faq_13_ar wf_faq_13_fr wf_faq_14_en wf_faq_14_ar wf_faq_14_fr
  wf_faq_15_en wf_faq_15_ar wf_faq_15_fr wf_faq_16_en wf_faq_16_ar wf_faq_16_fr
  wf_faq_17_en wf_faq_17_ar wf_faq_17_fr wf_faq_18_en wf_faq_18_ar wf_faq_18_fr
  wf_faq_19_en wf_faq_19_ar wf_faq_19_fr wf_faq_20_en wf_faq_20_ar wf_faq_20_fr
  wf_faq_21_en wf_faq_21_ar wf_faq_21_fr wf_faq_22_en wf_faq_22_ar wf_faq_22_fr

text \<open>Hence the catalog as a whole uses braces only for tokens of the placeholder map.\<close>

lemma catalog_wf_FAQS: "catalog_wf FAQS"
  by (simp add: catalog_wf_def FAQS_def wf_templates
        faq_1_def faq_2_def faq_3_def faq_4_def faq_5_def faq_6_def faq_7_def faq_8_def
        faq_9_def faq_10_def faq_11_def faq_12_def faq_13_def faq_14_def faq_15_def faq_16_def
        faq_17_def faq_18_def faq_19_def faq_20_def faq_21_def faq_22_def)



section \<open>The renderer on a concrete query\<close>

lemma language_how_are: "detect_language latin_arabic (u ''how are'') = u ''en''"
  apply (simp add: detect_language_def Let_def u_def is_arabic_def FRENCH_MARKERS_def
        FRENCH_WORDS_def match_at_def boundary_def is_word_def py_split_def latin_arabic_def
        latin_lower_def latin_arabic_isalnum_def latin_isspace_def)
  apply (simp add: fl_eval)
  done

lemma best_match_how_are:
  "find_best_match latin_arabic [faq_2] (u ''how are'') (fl (3 / 10))
     = Inr (Some \<lparr>match_faq = faq_2, confidence = fl (31 / 100),
                   match_category = u ''greeting''\<rparr>)"
  by (simp add: find_best_match_def mk_match_def preprocess_how_are score_how_are round_how_are
        category_faq_2 fl_3_10)

lemma raw_answer_faq_2: "raw_answer faq_2 (u ''en'') = faq_2_en"
  by (simp add: raw_answer_def or_str_def faq_2_def faq_2_en_def u_def)

lemma question_faq_2: "faq_question faq_2 = u ''How are you?''"
  by (simp add: faq_2_def)

lemmas fill_eval = str_replace_def token_def replace_from_Cons build_placeholders_def Let_def
  opt_or_def or_str_def after_last_def batna_def faq_2_en_def u_def

lemma fill_batna:
  "fill faq_2_en (build_placeholders (Some batna))
     = u ''I'm functioning well, thank you! I'm ready to help you with any questions about Batna 2. What would you like to know?''"
  by (simp add: fill_eval)

lemma fill_braces:
  "fill faq_2_en (build_placeholders (Some braces_uni))
     = u ''I'm functioning well, thank you! I'm ready to help you with any questions about {university_name}. What would you like to know?''"
  by (simp add: fill_eval braces_uni_def)

lemma catalog_wf_faq_2: "catalog_wf [faq_2]"
  by (simp add: catalog_wf_def faq_2_def wf_faq_2_en wf_faq_2_ar wf_faq_2_fr)

theorem rendered_answer_has_no_token_witness:
  "catalog_wf [faq_2]
   \<and> list_all brace_free (snapshot_fields (Some batna))
   \<and> search_faq latin_arabic [faq_2] (u ''how are'') (Some batna)
       = Inr (Found (u ''I'm functioning well, thank you! I'm ready to help you with any questions about Batna 2. What would you like to know?'')
                    (u ''How are you?'') (fl (31 / 100)) (u ''greeting'') (u ''en''))
   \<and> brace_free (u ''I'm functioning well, thank you! I'm ready to help you with any questions about Batna 2. What would you like to know?'')
   \<and> \<not> str_in (token (u ''university_name''))
         (u ''I'm functioning well, thank you! I'm ready to help you with any questions about Batna 2. What would you like to know?'')"
proof -
  have s: "list_all brace_free (snapshot_fields (Some batna))"
    by (simp add: snapshot_fields_def batna_def brace_free_def u_def)
  have r: "search_faq latin_arabic [faq_2] (u ''how are'') (Some batna)
       = Inr (Found (u ''I'm functioning well, thank you! I'm ready to help you with any questions about Batna 2. What would you like to know?'')
                    (u ''How are you?'') (fl (31 / 100)) (u ''greeting'') (u ''en''))"
    by (simp add: search_faq_def Let_def language_how_are best_match_how_are raw_answer_faq_2
          fill_batna question_faq_2)
  from rendered_answer_has_no_token[OF catalog_wf_faq_2 s r, of "u ''university_name''"]
    catalog_wf_faq_2 s r
  show ?thesis by blast
qed

text \<open>
  Claim C9 as stated fails for a snapshot whose name is the text \<open>{university_name}\<close>: the
  replacement for the token \<open>{university_name}\<close> puts that text into the answer, and no
  later replacement removes it.
\<close>

theorem rendered_answer_keeps_token:
  "search_faq latin_arabic [faq_2] (u ''how are'') (Some braces_uni)
     = Inr (Found (u ''I'm functioning well, thank you! I'm ready to help you with any questions about {university_name}. What would you like to know?'')
                  (u ''How are you?'') (fl (31 / 100)) (u ''greeting'') (u ''en''))
   \<and> str_in (token (u ''university_name''))
        (u ''I'm functioning well, thank you! I'm ready to help you with any questions about {university_name}. What would you like to know?'')"
proof -
  have r: "search_faq latin_arabic [faq_2] (u ''how are'') (Some braces_uni)
     = Inr (Found (u ''I'm functioning well, thank you! I'm ready to help you with any questions about {university_name}. What would you like to know?'')
                  (u ''How are you?'') (fl (31 / 100)) (u ''greeting'') (u ''en''))"
    by (simp add: search_faq_def Let_def language_how_are best_match_how_are raw_answer_faq_2
          fill_braces question_faq_2)
  have t: "str_in (token (u ''university_name''))
        (u ''I'm functioning well, thank you! I'm ready to help you with any questions about {university_name}. What would you like to know?'')"
    by (simp add: token_def u_def)
  from r t show ?thesis by blast
qed

end
